theory Spec2Isabelle
  imports Complex_Main "HOL-Library.Word"
begin

section \<open>JavaScript numbers\<close>

text \<open>
  The engine computes with JavaScript numbers, that is IEEE-754 binary64 values under
  round-to-nearest-even. The seeded generator multiplies past \<open>2^53\<close> and the percentage
  bands are rounded at \<open>.5\<close> boundaries, so the results depend on the rounding and the
  model keeps it: a \<open>double\<close> is a mantissa and a binary exponent, \<open>Dbl m e\<close> standing for
  \<open>m * 2^e\<close>, and every arithmetic operation computes the exact result on integers and
  rounds it to a 53-bit mantissa. Infinities, NaN, the sign of zero and subnormal numbers
  are not modelled; the engine's values stay between \<open>1e-10\<close> and \<open>1e25\<close>.
\<close>

datatype double = Dbl (mant: int) (expn: int)

definition val :: "double \<Rightarrow> rat" where
  "val x = of_int (mant x) * 2 powi (expn x)"

function bits :: "int \<Rightarrow> nat" where
  "bits n = (if n \<le> 0 then 0 else Suc (bits (drop_bit 1 n)))"
  by pat_completeness auto
termination
  by (relation "measure nat") (auto simp: drop_bit_eq_div)

declare bits.simps [simp del]

text \<open>\<open>norm_round t e\<close> is the double nearest to \<open>t * 2^e\<close>, ties to the even mantissa.\<close>

definition norm_round :: "int \<Rightarrow> int \<Rightarrow> double" where
  "norm_round t e = (if t = 0 then Dbl 0 0 else
     let a = \<bar>t\<bar>; b = bits a in
     if b \<le> 53 then Dbl (sgn t * push_bit (53 - b) a) (e - int (53 - b))
     else let k = b - 53; q = drop_bit k a; r = take_bit k a; h = push_bit (k - 1) 1;
              m = (if h < r \<or> (r = h \<and> odd q) then q + 1 else q)
          in if m = 9007199254740992 then Dbl (sgn t * 4503599627370496) (e + int k + 1)
             else Dbl (sgn t * m) (e + int k))"

text \<open>
  \<open>rnd_quot p q e\<close> is the double nearest to \<open>(p / q) * 2^e\<close> for \<open>q > 0\<close>: the quotient
  is taken to 55 or 56 bits and a sticky bit records a non-zero remainder.
\<close>

definition rnd_quot :: "int \<Rightarrow> int \<Rightarrow> int \<Rightarrow> double" where
  "rnd_quot p q e = (if p = 0 then Dbl 0 0 else
     let a = \<bar>p\<bar>; s = 55 + int (bits q) - int (bits a);
         n = (if 0 \<le> s then push_bit (nat s) a else a);
         d = (if 0 \<le> s then q else push_bit (nat (- s)) q);
         t = 2 * (n div d) + (if n mod d = 0 then 0 else 1)
     in norm_round (sgn p * t) (e - s - 1))"

text \<open>An integer literal, and a decimal literal \<open>p / q\<close> such as \<open>0.7 = dlit 7 10\<close>.\<close>

definition dint :: "int \<Rightarrow> double" where
  "dint k = norm_round k 0"

definition dlit :: "int \<Rightarrow> int \<Rightarrow> double" where
  "dlit p q = rnd_quot p q 0"

definition aligned :: "double \<Rightarrow> int \<Rightarrow> int" where
  "aligned x e = push_bit (nat (expn x - e)) (mant x)"

definition dmul :: "double \<Rightarrow> double \<Rightarrow> double" where
  "dmul x y = norm_round (mant x * mant y) (expn x + expn y)"

definition dadd :: "double \<Rightarrow> double \<Rightarrow> double" where
  "dadd x y = (let e = min (expn x) (expn y) in norm_round (aligned x e + aligned y e) e)"

definition dsub :: "double \<Rightarrow> double \<Rightarrow> double" where
  "dsub x y = (let e = min (expn x) (expn y) in norm_round (aligned x e - aligned y e) e)"

text \<open>Division; every divisor in the engine is a positive integer literal.\<close>

definition ddivn :: "double \<Rightarrow> int \<Rightarrow> double" where
  "ddivn x n = rnd_quot (mant x) n (expn x)"

definition d_less :: "double \<Rightarrow> double \<Rightarrow> bool" where
  "d_less x y = (let e = min (expn x) (expn y) in aligned x e < aligned y e)"

definition d_le :: "double \<Rightarrow> double \<Rightarrow> bool" where
  "d_le x y = (\<not> d_less y x)"

definition dmin :: "double \<Rightarrow> double \<Rightarrow> double" where
  "dmin x y = (if d_less y x then y else x)"

definition dmax :: "double \<Rightarrow> double \<Rightarrow> double" where
  "dmax x y = (if d_less x y then y else x)"

definition dabs :: "double \<Rightarrow> double" where
  "dabs x = Dbl \<bar>mant x\<bar> (expn x)"

text \<open>The remainder operator \<open>%\<close>: exact, with the sign of the dividend.\<close>

definition fmod :: "double \<Rightarrow> double \<Rightarrow> double" where
  "fmod x y = (let e = min (expn x) (expn y); a = aligned x e; b = aligned y e
     in norm_round (sgn a * (\<bar>a\<bar> mod \<bar>b\<bar>)) e)"

definition dfloor :: "double \<Rightarrow> int" where
  "dfloor x = (if 0 \<le> expn x then push_bit (nat (expn x)) (mant x)
     else drop_bit (nat (- expn x)) (mant x))"

text \<open>\<open>Math.round\<close>: the integer nearest to \<open>x\<close>, halves upwards.\<close>

definition jsround :: "double \<Rightarrow> int" where
  "jsround x = (if 0 \<le> expn x then push_bit (nat (expn x)) (mant x)
     else drop_bit (nat (- expn x)) (mant x + push_bit (nat (- expn x) - 1) 1))"

section \<open>Types\<close>

text \<open>
  Strings are ASCII: a leading pictograph of a supplier tag is dropped and the en dash of
  a template is written \<open>-\<close>. A percent string such as \<open>3.5-6.5%\<close> is kept as the list of
  its numeric tokens (what the pattern \<open>[\d.]+\<close> matches), each counted in tenths of a
  percent: \<open>[35, 65]\<close>. Every number the engine prints into a percent string is
  \<open>Math.round(y) / 10\<close>, which JavaScript prints as the decimal with one fractional
  digit, so the token is the rounded integer itself. Family names are looked up among the
  database's own sixteen keys only.
\<close>

datatype role = Hero | Backbone | Character | Lift

datatype layer = Top | Heart | Base

datatype category = FastStable | MediumSettle | SlowEvolving

type_synonym percent = "nat list"

record SteepingInfo =
  category :: category
  minDays :: nat
  maxDays :: nat
  label :: string
  snotes :: string

record Ingredient =
  name :: string
  percent :: percent
  supplier :: string

record RawIngredient = Ingredient +
  ifraLimit :: "int option"
  strength :: int
  cost :: int
  blendsWith :: "string list"
  role :: role
  persistence :: int
  dominance :: int

record FormulaIngredient = Ingredient +
  normalizedPct :: "double option"

record 'a layers =
  topL :: "'a list"
  heart :: "'a list"
  base :: "'a list"

type_synonym formula = "(string \<times> FormulaIngredient layers) list"

text \<open>
  The two warning and three note templates of the engine, with the values they interpolate:
  \<open>N capped at L% (IFRA)\<close>;
  \<open>N added at low dose as structural backbone - improves diffusion and polish\<close>;
  \<open>N reduced to support role (LO-HI%) - yields headroom to hero\<close>;
  \<open>Functional overlap: M1 + M2 ... (both serve G role). Consider replacing one for complexity.\<close>
\<close>

datatype warning = IfraCapped string int

datatype pnote =
    StructuralNote string
  | ReducedNote string nat nat
  | OverlapNote "string list" string

record FormulaResult =
  formula :: formula
  steeping :: SteepingInfo
  ingredientCount :: nat
  ifraWarnings :: "warning list"
  perfumerNotes :: "pnote list"

text \<open>The module variable \<open>_lastMeta\<close>: the process-wide slot, \<open>None\<close> for \<open>null\<close>.\<close>

record Meta =
  m_steeping :: SteepingInfo
  m_ingredientCount :: nat
  m_ifraWarnings :: "warning list"
  m_perfumerNotes :: "pnote list"

record ContextModifiers =
  heroScale :: double
  projectionCap :: double
  muskBoost :: double
  topPersistMin :: int
  noteBalance :: "int \<times> int \<times> int"

text \<open>The variables the selection steps share: the generator's state \<open>s\<close>, \<open>used\<close>,
  \<open>picked\<close> and \<open>ifraWarnings\<close>.\<close>

record gen_state =
  st_rng :: double
  st_used :: "string list"
  st_picked :: "RawIngredient list"
  st_ifra :: "warning list"

record heavyItem =
  h_fam :: string
  h_layer :: layer
  h_idx :: nat
  h_upper :: double
  h_persistence :: int
  h_name :: string

section \<open>Helpers\<close>

definition ing :: "string \<Rightarrow> percent \<Rightarrow> string \<Rightarrow> int \<Rightarrow> int \<Rightarrow> string list \<Rightarrow> role \<Rightarrow> int \<Rightarrow> int
    \<Rightarrow> int option \<Rightarrow> RawIngredient" where
  "ing n p s st c bw r pe d lm =
     \<lparr>name = n, percent = p, supplier = s, ifraLimit = lm, strength = st, cost = c,
      blendsWith = bw, role = r, persistence = pe, dominance = d\<rparr>"

text \<open>\<open>parseFloat\<close> of a token, and the double \<open>Math.round(y) / 10\<close> with its printed token.\<close>

definition tok :: "nat \<Rightarrow> double" where
  "tok k = dlit (int k) 10"

definition tenths :: "int \<Rightarrow> double" where
  "tenths k = ddivn (dint k) 10"

definition shown :: "int \<Rightarrow> nat" where
  "shown k = nat \<bar>k\<bar>"

fun parseMidpoint :: "percent \<Rightarrow> double" where
  "parseMidpoint [] = dint 3"
| "parseMidpoint [a] = tok a"
| "parseMidpoint (a # b # _) = ddivn (dadd (tok a) (tok b)) 2"

definition makeRange :: "double \<Rightarrow> percent" where
  "makeRange mid =
     (let lo = jsround (dmul (dmul mid (dlit 7 10)) (dint 10));
          hi = jsround (dmul (dmul mid (dlit 13 10)) (dint 10))
      in [if d_less (dlit 1 10) (tenths lo) then shown lo else 1, shown hi])"

text \<open>\<open>seededRng\<close>: one call of the closure, from the state \<open>s\<close> to the new state and the
  returned number.\<close>

definition seededRng :: "double \<Rightarrow> int \<Rightarrow> double \<times> double" where
  "seededRng s offset =
     (let s' = fmod (dmul (dadd s (dint offset)) (dint 2654435761)) (dint 2147483647)
      in (s', ddivn (dabs s') 2147483647))"

text \<open>\<open>Array.prototype.sort\<close> with a comparator: a stable sort; \<open>lt a b\<close> says that
  the comparator is negative at \<open>(a, b)\<close>.\<close>

fun insort_js :: "('a \<Rightarrow> 'a \<Rightarrow> bool) \<Rightarrow> 'a \<Rightarrow> 'a list \<Rightarrow> 'a list" where
  "insort_js lt x [] = [x]"
| "insort_js lt x (y # ys) = (if lt y x then y # insort_js lt x ys else x # y # ys)"

definition sort_js :: "('a \<Rightarrow> 'a \<Rightarrow> bool) \<Rightarrow> 'a list \<Rightarrow> 'a list" where
  "sort_js lt xs = foldr (insort_js lt) xs []"

definition nth_opt :: "'a list \<Rightarrow> int \<Rightarrow> 'a option" where
  "nth_opt xs i = (if 0 \<le> i \<and> nat i < length xs then Some (xs ! nat i) else None)"

fun str_includes :: "string \<Rightarrow> string \<Rightarrow> bool" where
  "str_includes [] sub = (sub = [])"
| "str_includes (c # cs) sub = (take (length sub) (c # cs) = sub \<or> str_includes cs sub)"

definition lowerChar :: "char \<Rightarrow> char" where
  "lowerChar c = (let n = (of_char c :: nat) in if 65 \<le> n \<and> n \<le> 90 then char_of (n + 32) else c)"

definition toLowerCase :: "string \<Rightarrow> string" where
  "toLowerCase s = map lowerChar s"

definition named :: "string \<Rightarrow> 'a Ingredient_scheme \<Rightarrow> bool" where
  "named n i = (name i = n)"

definition unused :: "string list \<Rightarrow> 'a Ingredient_scheme \<Rightarrow> bool" where
  "unused us i = (\<not> List.member us (name i))"

definition byPersistenceDesc :: "RawIngredient \<Rightarrow> RawIngredient \<Rightarrow> bool" where
  "byPersistenceDesc a b = (persistence b - persistence a < 0)"

section \<open>The ingredient database\<close>

definition db_floral_top :: "RawIngredient list" where
  "db_floral_top = [
    ing ''Neroli EO (Bitter Orange)'' [20, 40] ''A. Fakhry & Co'' 7 4
      [''citrus'', ''green'', ''powdery''] Lift 6 4 None,
    ing ''Orange Blossom Absolute'' [30, 50] ''Cairo Aromatic'' 8 4
      [''oriental'', ''gourmand''] Lift 7 5 None,
    ing ''Petitgrain EO'' [20, 40] ''A. Fakhry & Co'' 5 2
      [''aromatic'', ''citrus''] Lift 5 3 None]"

definition db_floral_heart :: "RawIngredient list" where
  "db_floral_heart = [
    ing ''Jasmine Absolute (Egyptian)'' [40, 60] ''A. Fakhry & Co'' 9 5
      [''oriental'', ''woody''] Hero 8 8 None,
    ing ''Rose Absolute (Turkish)'' [30, 50] ''Turkey'' 8 5
      [''spicy'', ''woody'', ''powdery''] Hero 8 7 None,
    ing ''Ylang Ylang Extra'' [10, 30] ''Bulkaroma'' 8 3
      [''oriental'', ''gourmand''] Character 6 6 None,
    ing ''Hedione'' [50, 100] ''Fraterworks'' 3 2
      [''fresh'', ''citrus'', ''green''] Backbone 7 2 None,
    ing ''Geranium EO (Egyptian)'' [20, 40] ''Cairo Aromatic'' 6 2
      [''aromatic'', ''citrus''] Character 5 4 None]"

definition db_floral_base :: "RawIngredient list" where
  "db_floral_base = [
    ing ''Ambroxan'' [20, 40] ''Fraterworks'' 7 3
      [''woody'', ''fresh'', ''clean''] Backbone 9 6 None,
    ing ''Musk Accord (white)'' [30, 50] ''PerfumersWorld'' 5 2
      [''powdery'', ''clean''] Backbone 8 3 None]"

definition db_woody_top :: "RawIngredient list" where
  "db_woody_top = [
    ing ''Bergamot EO (Calabrian type)'' [30, 50] ''Fraterworks'' 6 3
      [''citrus'', ''aromatic''] Lift 4 3 None,
    ing ''Pink Pepper CO2'' [10, 20] ''Fraterworks'' 5 3
      [''spicy'', ''fresh''] Lift 5 3 None,
    ing ''Elemi EO'' [10, 30] ''Bulkaroma'' 5 2
      [''citrus'', ''fresh'', ''incense''] Lift 6 2 None,
    ing ''Cardamom CO2'' [10, 20] ''Guatemala'' 7 3
      [''spicy'', ''oriental'', ''fresh''] Lift 6 4 None]"

definition db_woody_heart :: "RawIngredient list" where
  "db_woody_heart = [
    ing ''Cedarwood Atlas EO'' [50, 80] ''Morocco'' 6 2
      [''floral'', ''aromatic''] Backbone 7 4 None,
    ing ''Iso E Super'' [50, 150] ''Fraterworks'' 4 2
      [''floral'', ''fresh'', ''oriental''] Backbone 9 5 None,
    ing ''Hinoki (Japanese Cypress)'' [20, 40] ''PerfumersWorld'' 5 4
      [''green'', ''fresh''] Character 6 3 None,
    ing ''Guaiac Wood EO'' [30, 50] ''Bulkaroma'' 5 3
      [''smoky'', ''leather''] Character 7 4 None]"

definition db_woody_base :: "RawIngredient list" where
  "db_woody_base = [
    ing ''Vetiver EO (Java)'' [40, 60] ''Bulkaroma'' 7 3
      [''smoky'', ''green''] Hero 9 7 None,
    ing ''Sandalwood (Australian)'' [40, 80] ''PerfumersWorld'' 7 5
      [''floral'', ''oriental'', ''powdery''] Hero 9 6 None,
    ing ''Cashmeran'' [30, 50] ''Fraterworks'' 5 3
      [''powdery'', ''floral''] Backbone 8 4 None,
    ing ''Patchouli EO (Dark)'' [30, 60] ''Bulkaroma'' 8 2
      [''oriental'', ''gourmand''] Hero 9 7 None]"

definition db_oriental_top :: "RawIngredient list" where
  "db_oriental_top = [
    ing ''Saffron CO2'' [5, 10] ''Iran'' 9 5
      [''floral'', ''woody''] Character 7 7 None,
    ing ''Cardamom CO2'' [10, 20] ''Guatemala'' 7 3
      [''spicy'', ''fresh''] Lift 6 4 None,
    ing ''Pink Pepper EO'' [10, 20] ''Fraterworks'' 5 3
      [''floral'', ''citrus''] Lift 5 3 None]"

definition db_oriental_heart :: "RawIngredient list" where
  "db_oriental_heart = [
    ing ''Oud Oil (Hindi type)'' [10, 30] ''UAE (Dubai)'' 10 5
      [''woody'', ''smoky'', ''leather''] Hero 10 9 None,
    ing ''Labdanum Absolute'' [30, 50] ''Fraterworks'' 7 3
      [''woody'', ''leather''] Backbone 8 5 None,
    ing ''Frankincense EO (Omani)'' [20, 40] ''Oman'' 6 4
      [''incense'', ''woody''] Character 7 4 None,
    ing ''Rose Absolute (Taif type)'' [20, 40] ''Turkey'' 8 5
      [''floral'', ''spicy''] Character 8 6 None]"

definition db_oriental_base :: "RawIngredient list" where
  "db_oriental_base = [
    ing ''Amber Accord (in-house blend)'' [50, 80] ''MUSK Aromatics'' 7 2
      [''woody'', ''powdery''] Hero 9 7 None,
    ing ''Benzoin Resinoid (Siam)'' [30, 50] ''Bulkaroma'' 6 2
      [''gourmand'', ''floral''] Backbone 8 4 None,
    ing ''Vanillin (natural-identical)'' [20, 40] ''Fraterworks'' 6 1
      [''gourmand'', ''floral''] Backbone 8 5 None,
    ing ''Mysore Sandalwood Accord'' [30, 50] ''PerfumersWorld'' 7 4
      [''floral'', ''powdery''] Hero 9 6 None]"

definition db_fresh_top :: "RawIngredient list" where
  "db_fresh_top = [
    ing ''Egyptian Lemon EO'' [30, 50] ''A. Fakhry & Co'' 7 1
      [''citrus'', ''aromatic''] Lift 3 4 None,
    ing ''Grapefruit EO (Pink)'' [20, 40] ''Fraterworks'' 6 2
      [''citrus'', ''floral''] Lift 3 3 None,
    ing ''Bergamot EO'' [30, 60] ''Fraterworks'' 6 2
      [''floral'', ''aromatic''] Lift 4 3 None]"

definition db_fresh_heart :: "RawIngredient list" where
  "db_fresh_heart = [
    ing ''Dihydromyrcenol'' [50, 100] ''Fraterworks'' 5 1
      [''woody'', ''citrus''] Backbone 7 4 None,
    ing ''Hedione HC'' [50, 100] ''Fraterworks'' 3 2
      [''floral'', ''green''] Backbone 7 2 None,
    ing ''Lily of the Valley Accord'' [30, 50] ''PerfumersWorld'' 4 2
      [''floral'', ''green''] Character 5 3 None]"

definition db_fresh_base :: "RawIngredient list" where
  "db_fresh_base = [
    ing ''White Musk (Galaxolide)'' [40, 80] ''Fraterworks'' 5 1
      [''clean'', ''powdery''] Backbone 8 3 None,
    ing ''Ambroxan'' [30, 50] ''Fraterworks'' 7 3
      [''woody'', ''clean''] Backbone 9 6 None]"

definition db_citrus_top :: "RawIngredient list" where
  "db_citrus_top = [
    ing ''Bergamot EO (Italian)'' [50, 100] ''Fraterworks'' 7 2
      [''floral'', ''aromatic''] Lift 4 4 None,
    ing ''Blood Orange EO'' [30, 50] ''A. Fakhry & Co'' 7 1
      [''gourmand'', ''fresh''] Lift 3 4 None,
    ing ''Mandarin EO (Green)'' [30, 50] ''Cairo Aromatic'' 6 1
      [''floral'', ''fresh''] Lift 3 3 None]"

definition db_citrus_heart :: "RawIngredient list" where
  "db_citrus_heart = [
    ing ''Neroli EO'' [20, 40] ''A. Fakhry & Co'' 7 4
      [''floral'', ''green''] Character 6 5 None,
    ing ''Petitgrain Bigarade'' [30, 50] ''A. Fakhry & Co'' 5 2
      [''aromatic'', ''woody''] Backbone 5 3 None]"

definition db_citrus_base :: "RawIngredient list" where
  "db_citrus_base = [
    ing ''Musk Ketone'' [20, 40] ''Fraterworks'' 4 2
      [''clean'', ''powdery''] Backbone 7 2 None,
    ing ''Cedarwood Virginia'' [30, 50] ''Bulkaroma'' 5 1
      [''woody'', ''fresh''] Backbone 7 3 None]"

definition db_gourmand_top :: "RawIngredient list" where
  "db_gourmand_top = [
    ing ''Bergamot EO'' [20, 40] ''Fraterworks'' 6 2
      [''citrus'', ''floral''] Lift 4 3 None,
    ing ''Pink Pepper CO2'' [10, 20] ''Fraterworks'' 5 3
      [''spicy'', ''oriental''] Lift 5 3 None]"

definition db_gourmand_heart :: "RawIngredient list" where
  "db_gourmand_heart = [
    ing ''Cacao Absolute'' [20, 40] ''Fraterworks'' 7 4
      [''oriental'', ''woody''] Hero 7 6 None,
    ing ''Coffee Absolute'' [10, 30] ''Bulkaroma'' 8 4
      [''smoky'', ''oriental''] Hero 7 7 None,
    ing ''Tonka Bean Absolute'' [20, 40] ''Fraterworks'' 7 3
      [''oriental'', ''powdery''] Character 7 5 None]"

definition db_gourmand_base :: "RawIngredient list" where
  "db_gourmand_base = [
    ing ''Vanillin (10% in DPG)'' [50, 80] ''Fraterworks'' 7 1
      [''oriental'', ''floral''] Hero 9 6 None,
    ing ''Ethyl Maltol'' [5, 10] ''Fraterworks'' 8 1
      [''floral''] Character 7 7 None,
    ing ''Coumarin'' [20, 40] ''Fraterworks'' 6 1
      [''aromatic'', ''powdery''] Backbone 8 4 None]"

definition db_aromatic_top :: "RawIngredient list" where
  "db_aromatic_top = [
    ing ''Lavender EO (French type)'' [30, 60] ''Bulkaroma'' 6 2
      [''fresh'', ''woody''] Lift 5 4 None,
    ing ''Rosemary EO (Egyptian)'' [20, 30] ''Cairo Aromatic'' 6 1
      [''green'', ''woody''] Lift 5 4 None]"

definition db_aromatic_heart :: "RawIngredient list" where
  "db_aromatic_heart = [
    ing ''Clary Sage EO'' [20, 40] ''Bulkaroma'' 5 2
      [''floral'', ''woody''] Character 6 3 None,
    ing ''Geranium Bourbon'' [30, 50] ''Cairo Aromatic'' 6 2
      [''floral'', ''citrus''] Backbone 6 4 None]"

definition db_aromatic_base :: "RawIngredient list" where
  "db_aromatic_base = [
    ing ''Vetiver EO'' [30, 50] ''Bulkaroma'' 7 3
      [''woody'', ''smoky''] Hero 9 7 None,
    ing ''Oakmoss Absolute (IFRA safe)'' [10, 20] ''Fraterworks'' 7 4
      [''woody'', ''green''] Character 8 5 (Some 1),
    ing ''Coumarin'' [20, 40] ''Fraterworks'' 6 1
      [''gourmand'', ''powdery''] Backbone 8 4 None]"

definition db_smoky_top :: "RawIngredient list" where
  "db_smoky_top = [
    ing ''Black Pepper CO2'' [10, 20] ''Fraterworks'' 7 2
      [''spicy'', ''woody''] Lift 5 5 None,
    ing ''Elemi EO'' [10, 30] ''Bulkaroma'' 5 2
      [''citrus'', ''fresh'', ''incense''] Lift 6 2 None]"

definition db_smoky_heart :: "RawIngredient list" where
  "db_smoky_heart = [
    ing ''Cade EO (rectified)'' [10, 30] ''Fraterworks'' 8 3
      [''leather'', ''woody''] Hero 8 7 None,
    ing ''Nagarmotha EO'' [20, 40] ''Bulkaroma'' 6 2
      [''woody'', ''incense''] Character 7 4 None,
    ing ''Guaiac Wood EO'' [30, 50] ''Bulkaroma'' 5 3
      [''woody'', ''oriental''] Backbone 7 4 None]"

definition db_smoky_base :: "RawIngredient list" where
  "db_smoky_base = [
    ing ''Vetiver EO (Haiti)'' [40, 60] ''Bulkaroma'' 7 3
      [''woody'', ''green''] Hero 9 7 None,
    ing ''Labdanum Absolute'' [30, 50] ''Fraterworks'' 7 3
      [''oriental'', ''woody''] Backbone 8 5 None]"

definition db_spicy_top :: "RawIngredient list" where
  "db_spicy_top = [
    ing ''Cardamom CO2 (Guatemala)'' [10, 30] ''Guatemala'' 7 3
      [''oriental'', ''fresh''] Lift 6 5 None,
    ing ''Ginger CO2'' [10, 20] ''Bulkaroma'' 6 2
      [''citrus'', ''fresh''] Lift 5 4 None]"

definition db_spicy_heart :: "RawIngredient list" where
  "db_spicy_heart = [
    ing ''Saffron CO2'' [5, 10] ''Iran'' 9 5
      [''oriental'', ''floral''] Character 7 7 None,
    ing ''Nutmeg EO'' [10, 20] ''Bulkaroma'' 6 2
      [''woody'', ''aromatic''] Character 5 4 None]"

definition db_spicy_base :: "RawIngredient list" where
  "db_spicy_base = [
    ing ''Benzoin Resinoid'' [30, 50] ''Bulkaroma'' 6 2
      [''oriental'', ''gourmand''] Backbone 8 4 None,
    ing ''Amber Accord'' [40, 60] ''MUSK Aromatics'' 7 2
      [''oriental'', ''woody''] Hero 9 7 None]"

definition db_powdery_top :: "RawIngredient list" where
  "db_powdery_top = [
    ing ''Bergamot EO'' [30, 40] ''Fraterworks'' 6 2
      [''citrus'', ''floral''] Lift 4 3 None,
    ing ''Aldehydes C-11 (undecylenic)'' [5, 10] ''Fraterworks'' 7 2
      [''floral'', ''clean''] Character 4 6 None]"

definition db_powdery_heart :: "RawIngredient list" where
  "db_powdery_heart = [
    ing ''Iris Accord (Orris butter type)'' [20, 40] ''Fraterworks'' 7 5
      [''floral'', ''woody''] Hero 8 6 None,
    ing ''Heliotropin'' [30, 50] ''Fraterworks'' 5 1
      [''gourmand'', ''floral''] Backbone 6 3 None]"

definition db_powdery_base :: "RawIngredient list" where
  "db_powdery_base = [
    ing ''Musk (Ethylene Brassylate)'' [50, 80] ''Fraterworks'' 4 1
      [''clean'', ''floral''] Backbone 9 2 None,
    ing ''Tonka Bean Absolute'' [20, 30] ''Fraterworks'' 7 3
      [''gourmand'', ''aromatic''] Character 8 5 None]"

definition db_green_top :: "RawIngredient list" where
  "db_green_top = [
    ing ''Galbanum EO'' [10, 20] ''Fraterworks'' 8 3
      [''floral'', ''aromatic''] Character 5 7 None,
    ing ''Cis-3-Hexenol (leaf alcohol)'' [5, 10] ''Fraterworks'' 7 1
      [''fresh'', ''aquatic''] Lift 3 5 None]"

definition db_green_heart :: "RawIngredient list" where
  "db_green_heart = [
    ing ''Fig Leaf Accord'' [30, 50] ''PerfumersWorld'' 5 3
      [''woody'', ''fresh''] Hero 6 5 None,
    ing ''Tea Accord (green)'' [20, 40] ''PerfumersWorld'' 4 2
      [''fresh'', ''aromatic''] Character 5 3 None]"

definition db_green_base :: "RawIngredient list" where
  "db_green_base = [
    ing ''Vetiver EO'' [30, 50] ''Bulkaroma'' 7 3
      [''woody'', ''smoky''] Hero 9 7 None,
    ing ''Oakmoss Absolute'' [10, 20] ''Fraterworks'' 7 4
      [''woody'', ''aromatic''] Character 8 5 (Some 1)]"

definition db_aquatic_top :: "RawIngredient list" where
  "db_aquatic_top = [
    ing ''Calone (Watermelon Ketone)'' [5, 10] ''Fraterworks'' 8 2
      [''fresh'', ''green''] Character 4 7 None,
    ing ''Lemon EO (Egyptian)'' [30, 50] ''A. Fakhry & Co'' 6 1
      [''citrus'', ''fresh''] Lift 3 3 None]"

definition db_aquatic_heart :: "RawIngredient list" where
  "db_aquatic_heart = [
    ing ''Marine Accord (Helional)'' [30, 50] ''Fraterworks'' 5 2
      [''fresh'', ''green''] Hero 6 5 None,
    ing ''Dihydromyrcenol'' [50, 80] ''Fraterworks'' 5 1
      [''fresh'', ''citrus''] Backbone 7 4 None]"

definition db_aquatic_base :: "RawIngredient list" where
  "db_aquatic_base = [
    ing ''Ambroxan'' [30, 50] ''Fraterworks'' 7 3
      [''woody'', ''fresh''] Backbone 9 6 None,
    ing ''Driftwood Accord (Norlimbanol)'' [20, 30] ''Fraterworks'' 5 3
      [''woody'', ''smoky''] Character 7 4 None]"

definition db_leather_top :: "RawIngredient list" where
  "db_leather_top = [
    ing ''Birch Tar (rectified)'' [5, 10] ''Fraterworks'' 9 3
      [''smoky'', ''woody''] Character 6 8 None,
    ing ''Juniper Berry EO'' [10, 20] ''Bulkaroma'' 5 2
      [''aromatic'', ''fresh''] Lift 5 3 None]"

definition db_leather_heart :: "RawIngredient list" where
  "db_leather_heart = [
    ing ''Suede Accord (Safraleine)'' [30, 50] ''Fraterworks'' 6 3
      [''floral'', ''powdery''] Hero 7 5 None,
    ing ''Labdanum Absolute'' [30, 50] ''Fraterworks'' 7 3
      [''oriental'', ''woody''] Backbone 8 5 None]"

definition db_leather_base :: "RawIngredient list" where
  "db_leather_base = [
    ing ''Castoreum Accord'' [10, 20] ''Fraterworks'' 8 3
      [''smoky'', ''oriental''] Character 9 7 None,
    ing ''Styrax Resinoid'' [20, 30] ''Bulkaroma'' 7 2
      [''smoky'', ''oriental''] Backbone 8 5 None]"

definition db_clean_top :: "RawIngredient list" where
  "db_clean_top = [
    ing ''Aldehydes C-12 (MNA)'' [5, 10] ''Fraterworks'' 7 2
      [''floral'', ''powdery''] Character 4 6 None,
    ing ''Linalyl Acetate'' [30, 50] ''Fraterworks'' 4 1
      [''floral'', ''fresh''] Lift 4 2 None]"

definition db_clean_heart :: "RawIngredient list" where
  "db_clean_heart = [
    ing ''Hedione HC'' [50, 100] ''Fraterworks'' 3 2
      [''floral'', ''fresh''] Backbone 7 2 None,
    ing ''Lily of the Valley Accord'' [30, 50] ''PerfumersWorld'' 4 2
      [''floral'', ''green''] Character 5 3 None]"

definition db_clean_base :: "RawIngredient list" where
  "db_clean_base = [
    ing ''White Musk (Galaxolide)'' [50, 100] ''Fraterworks'' 5 1
      [''powdery'', ''floral''] Hero 9 3 None,
    ing ''Cashmeran'' [30, 50] ''Fraterworks'' 5 3
      [''woody'', ''powdery''] Backbone 8 4 None]"

definition db_incense_top :: "RawIngredient list" where
  "db_incense_top = [
    ing ''Elemi EO'' [10, 30] ''Bulkaroma'' 5 2
      [''citrus'', ''fresh''] Lift 6 2 None,
    ing ''Pink Pepper CO2'' [10, 20] ''Fraterworks'' 5 3
      [''spicy'', ''fresh''] Lift 5 3 None]"

definition db_incense_heart :: "RawIngredient list" where
  "db_incense_heart = [
    ing ''Frankincense EO (Boswellia sacra)'' [30, 60] ''Oman'' 7 4
      [''woody'', ''oriental''] Hero 8 6 None,
    ing ''Myrrh EO (Somalian)'' [20, 40] ''Somalia'' 7 3
      [''oriental'', ''woody''] Character 8 5 None]"

definition db_incense_base :: "RawIngredient list" where
  "db_incense_base = [
    ing ''Benzoin Resinoid'' [30, 50] ''Bulkaroma'' 6 2
      [''oriental'', ''gourmand''] Backbone 8 4 None,
    ing ''Sandalwood (Australian)'' [30, 50] ''PerfumersWorld'' 7 5
      [''floral'', ''oriental''] Hero 9 6 None]"

definition db_niche_top :: "RawIngredient list" where
  "db_niche_top = [
    ing ''Galbanum EO'' [10, 20] ''Fraterworks'' 8 3
      [''green'', ''floral''] Character 5 7 None,
    ing ''Aldehydes C-11'' [5, 10] ''Fraterworks'' 7 2
      [''clean'', ''floral''] Character 4 6 None]"

definition db_niche_heart :: "RawIngredient list" where
  "db_niche_heart = [
    ing ''Papyrus Accord'' [30, 50] ''PerfumersWorld'' 5 3
      [''woody'', ''green''] Hero 6 4 None,
    ing ''Ambrette Seed CO2'' [20, 30] ''Bulkaroma'' 5 4
      [''floral'', ''powdery''] Character 6 3 None]"

definition db_niche_base :: "RawIngredient list" where
  "db_niche_base = [
    ing ''Ambergris Accord (Ambroxan + Labdanum)'' [30, 50] ''Fraterworks'' 7 3
      [''woody'', ''oriental''] Hero 9 6 None,
    ing ''Iso E Super'' [50, 100] ''Fraterworks'' 4 2
      [''woody'', ''fresh''] Backbone 9 5 None]"

text \<open>
  \<open>INGREDIENT_DB\<close> is a plain object, so a lookup also finds what the object inherits:
  under each of the names below the lookup gives a function, which is truthy and has no
  \<open>top\<close>, \<open>heart\<close> or \<open>base\<close>, and the engine goes on with three empty lists and
  files an empty entry under that key. The lookup under \<open>__proto__\<close> is truthy as well,
  with no list either, but the assignment \<open>formula['__proto__'] = ...\<close> sets the prototype
  of the formula object and adds no key to it; nothing is picked and no random number is
  drawn on the way, so for that name the absent entry below gives the same result.
\<close>

definition inheritedKeys :: "string list" where
  "inheritedKeys = [''constructor'', ''toString'', ''toLocaleString'', ''valueOf'', ''hasOwnProperty'',
     ''isPrototypeOf'', ''propertyIsEnumerable'', ''__defineGetter__'', ''__defineSetter__'',
     ''__lookupGetter__'', ''__lookupSetter__'']"

definition INGREDIENT_DB :: "string \<Rightarrow> RawIngredient layers option" where
  "INGREDIENT_DB fam = (
     if fam = ''floral'' then Some \<lparr>topL = db_floral_top, heart = db_floral_heart, base = db_floral_base\<rparr>
     else if fam = ''woody'' then Some \<lparr>topL = db_woody_top, heart = db_woody_heart, base = db_woody_base\<rparr>
     else if fam = ''oriental'' then Some \<lparr>topL = db_oriental_top, heart = db_oriental_heart, base = db_oriental_base\<rparr>
     else if fam = ''fresh'' then Some \<lparr>topL = db_fresh_top, heart = db_fresh_heart, base = db_fresh_base\<rparr>
     else if fam = ''citrus'' then Some \<lparr>topL = db_citrus_top, heart = db_citrus_heart, base = db_citrus_base\<rparr>
     else if fam = ''gourmand'' then Some \<lparr>topL = db_gourmand_top, heart = db_gourmand_heart, base = db_gourmand_base\<rparr>
     else if fam = ''aromatic'' then Some \<lparr>topL = db_aromatic_top, heart = db_aromatic_heart, base = db_aromatic_base\<rparr>
     else if fam = ''smoky'' then Some \<lparr>topL = db_smoky_top, heart = db_smoky_heart, base = db_smoky_base\<rparr>
     else if fam = ''spicy'' then Some \<lparr>topL = db_spicy_top, heart = db_spicy_heart, base = db_spicy_base\<rparr>
     else if fam = ''powdery'' then Some \<lparr>topL = db_powdery_top, heart = db_powdery_heart, base = db_powdery_base\<rparr>
     else if fam = ''green'' then Some \<lparr>topL = db_green_top, heart = db_green_heart, base = db_green_base\<rparr>
     else if fam = ''aquatic'' then Some \<lparr>topL = db_aquatic_top, heart = db_aquatic_heart, base = db_aquatic_base\<rparr>
     else if fam = ''leather'' then Some \<lparr>topL = db_leather_top, heart = db_leather_heart, base = db_leather_base\<rparr>
     else if fam = ''clean'' then Some \<lparr>topL = db_clean_top, heart = db_clean_heart, base = db_clean_base\<rparr>
     else if fam = ''incense'' then Some \<lparr>topL = db_incense_top, heart = db_incense_heart, base = db_incense_base\<rparr>
     else if fam = ''niche'' then Some \<lparr>topL = db_niche_top, heart = db_niche_heart, base = db_niche_base\<rparr>
     else if List.member inheritedKeys fam then Some \<lparr>topL = [], heart = [], base = []\<rparr>
     else None)"

section \<open>Context modifiers and steeping\<close>

definition computeContext :: "string option \<Rightarrow> string option \<Rightarrow> string option \<Rightarrow> ContextModifiers" where
  "computeContext concentration occasion intensity =
     (let ctx0 = \<lparr>heroScale = dint 1, projectionCap = dint 12, muskBoost = dint 1,
                  topPersistMin = 4, noteBalance = (15, 45, 40)\<rparr>;
          ctx1 = (if concentration = Some ''Parfum Extrait''
                  then ctx0\<lparr>heroScale := dlit 13 10, muskBoost := dlit 13 10, topPersistMin := 6,
                            noteBalance := (10, 40, 50)\<rparr>
                  else ctx0);
          ctx2 = (if intensity = Some ''Leave a trail''
                  then ctx1\<lparr>heroScale := dmul (heroScale ctx1) (dlit 12 10),
                            muskBoost := dmul (muskBoost ctx1) (dlit 12 10)\<rparr>
                  else ctx1)
      in if occasion = Some ''Everyday signature''
         then ctx2\<lparr>projectionCap := dmul (projectionCap ctx2) (dlit 8 10)\<rparr>
         else ctx2)"

definition slow :: "string list" where
  "slow = [''oud'', ''labdanum'', ''patchouli'', ''myrrh'', ''benzoin'', ''styrax'', ''amber'',
     ''oakmoss'']"

definition slowPoints :: "RawIngredient \<Rightarrow> int" where
  "slowPoints i =
     (let n = toLowerCase (name i)
      in (if list_ex (str_includes n) slow then 3 else 0)
         + (if 8 \<le> persistence i then 1 else 0)
         + (if 4 \<le> cost i then 1 else 0))"

definition addSlow :: "int \<Rightarrow> RawIngredient \<Rightarrow> int" where
  "addSlow slowScore i = slowScore + slowPoints i"

definition estimateSteeping :: "RawIngredient list \<Rightarrow> string option \<Rightarrow> SteepingInfo" where
  "estimateSteeping ingredients concentration =
     (let slowScore0 = dint (foldl addSlow 0 ingredients);
          slowScore = (if concentration = Some ''Parfum Extrait''
                       then dmul slowScore0 (dlit 15 10) else slowScore0)
      in if d_less slowScore (dint 6)
         then \<lparr>category = FastStable, minDays = 1, maxDays = 3, label = ''24-72 hours'',
               snotes = ''Mostly synthetic backbone. Stabilizes quickly. Evaluate after 48 hours.''\<rparr>
         else if d_less slowScore (dint 14)
         then \<lparr>category = MediumSettle, minDays = 7, maxDays = 14, label = ''1-2 weeks'',
               snotes = ''Contains naturals/resins. Early sharpness softens within first week.''\<rparr>
         else \<lparr>category = SlowEvolving, minDays = 14, maxDays = 42, label = ''2-6 weeks'',
               snotes = ''Heavy naturals and resins. Do not judge before two weeks.''\<rparr>)"

section \<open>The formula as a keyed record\<close>

text \<open>An object keeps its string keys in insertion order; assigning to a present key
  replaces the value in place.\<close>

fun formula_set :: "string \<Rightarrow> FormulaIngredient layers \<Rightarrow> formula \<Rightarrow> formula" where
  "formula_set k v [] = [(k, v)]"
| "formula_set k v ((k', v') # f) = (if k' = k then (k, v) # f else (k', v') # formula_set k v f)"

definition emptyLayers :: "FormulaIngredient layers" where
  "emptyLayers = \<lparr>topL = [], heart = [], base = []\<rparr>"

definition layersCount :: "FormulaIngredient layers \<Rightarrow> nat" where
  "layersCount l = length (topL l) + length (heart l) + length (base l)"

fun addCount :: "nat \<Rightarrow> string \<times> FormulaIngredient layers \<Rightarrow> nat" where
  "addCount c (fam, l) = c + layersCount l"

definition totalIngredientsCount :: "formula \<Rightarrow> nat" where
  "totalIngredientsCount f = foldl addCount 0 f"

definition dbLayer :: "string \<Rightarrow> layer \<Rightarrow> RawIngredient list" where
  "dbLayer fam l = (case INGREDIENT_DB fam of None \<Rightarrow> []
     | Some d \<Rightarrow> (case l of Top \<Rightarrow> topL d | Heart \<Rightarrow> heart d | Base \<Rightarrow> base d))"

definition hasName :: "string \<Rightarrow> 'a Ingredient_scheme list \<Rightarrow> bool" where
  "hasName n xs = list_ex (named n) xs"

section \<open>Selection\<close>

definition addCode :: "int \<Rightarrow> 16 word \<Rightarrow> int" where
  "addCode a c = a + uint c"

definition seedOf :: "16 word list \<Rightarrow> double" where
  "seedOf scentCode = dint (foldl addCode 0 scentCode)"

text \<open>Step 1: heroes of the dominant family, base before heart; without a hero role the
  most persistent ingredient is promoted. The generator is called only for a non-empty pool.\<close>

definition hasRole :: "role \<Rightarrow> RawIngredient \<Rightarrow> bool" where
  "hasRole r i = (role i = r)"

definition selectHero :: "string \<Rightarrow> double \<Rightarrow> RawIngredient option \<times> double" where
  "selectHero dominant s =
     (let both = dbLayer dominant Base @ dbLayer dominant Heart;
          heroes = filter (hasRole Hero) both;
          heroPool = (if heroes = [] then sort_js byPersistenceDesc both else heroes)
      in if heroPool = [] then (None, s)
         else (let (s', r) = seededRng s 0
               in (nth_opt heroPool (dfloor (dmul r (dint (min 3 (int (length heroPool)))))), s')))"

text \<open>Step 2, the \<open>pick\<close> helper. Candidates are scored in order, one generator call each.\<close>

definition addBlend :: "RawIngredient \<Rightarrow> double \<Rightarrow> string \<Rightarrow> double" where
  "addBlend c score f = (if List.member (blendsWith c) f then dadd score (dint 2) else score)"

definition blendScore :: "string list \<Rightarrow> RawIngredient \<Rightarrow> double" where
  "blendScore fams c = foldl (addBlend c) (dint 0) fams"

definition clash :: "RawIngredient option \<Rightarrow> RawIngredient \<Rightarrow> bool" where
  "clash hero c = (case hero of None \<Rightarrow> False
     | Some h \<Rightarrow> 7 \<le> dominance c \<and> 7 \<le> dominance h)"

fun scoreAll :: "string list \<Rightarrow> RawIngredient option \<Rightarrow> nat \<Rightarrow> RawIngredient list \<Rightarrow> double
    \<Rightarrow> (RawIngredient \<times> double) list \<times> double" where
  "scoreAll fams hero idx [] s = ([], s)"
| "scoreAll fams hero idx (c # cs) s =
     (let (s1, r) = seededRng s (int idx * 3);
          score1 = dadd (blendScore fams c) (dmul r (dint 3));
          score2 = (if clash hero c then dsub score1 (dint 4) else score1);
          (rest, s2) = scoreAll fams hero (Suc idx) cs s1
      in ((c, score2) # rest, s2))"

definition byScore :: "('a \<times> double) \<Rightarrow> ('a \<times> double) \<Rightarrow> bool" where
  "byScore a b = d_less (dsub (snd b) (snd a)) (dint 0)"

definition isFree :: "string list \<Rightarrow> RawIngredient option \<Rightarrow> RawIngredient \<Rightarrow> bool" where
  "isFree us hero i = (\<not> List.member us (name i) \<and> map_option name hero \<noteq> Some (name i))"

definition isCand :: "role \<Rightarrow> string list \<Rightarrow> RawIngredient option \<Rightarrow> RawIngredient \<Rightarrow> bool" where
  "isCand r us hero i = (role i = r \<and> isFree us hero i)"

fun takePick :: "double \<Rightarrow> FormulaIngredient list \<times> gen_state \<Rightarrow> RawIngredient \<times> double
    \<Rightarrow> FormulaIngredient list \<times> gen_state" where
  "takePick mult (out, st) (c, score) =
     (let mid = dmul (parseMidpoint (percent c)) mult;
          warn = (case ifraLimit c of None \<Rightarrow> []
                  | Some l \<Rightarrow> if l \<noteq> 0 \<and> d_less (dint l) mid then [IfraCapped (name c) l] else [])
      in (out @ [\<lparr>name = name c, percent = makeRange mid, supplier = supplier c,
                  normalizedPct = Some mid\<rparr>],
          st\<lparr>st_used := st_used st @ [name c], st_picked := st_picked st @ [c],
             st_ifra := st_ifra st @ warn\<rparr>))"

definition pick :: "string list \<Rightarrow> RawIngredient option \<Rightarrow> RawIngredient list \<Rightarrow> role \<Rightarrow> nat
    \<Rightarrow> double \<Rightarrow> gen_state \<Rightarrow> FormulaIngredient list \<times> gen_state" where
  "pick fams hero pool r count mult st =
     (let byRole = filter (isCand r (st_used st) hero) pool;
          cands = (if byRole = [] then filter (isFree (st_used st) hero) pool else byRole);
          (scored, s') = scoreAll fams hero 0 cands (st_rng st);
          sorted = sort_js byScore scored
      in foldl (takePick mult) ([], st\<lparr>st_rng := s'\<rparr>) (take count sorted))"

definition plain :: "RawIngredient \<Rightarrow> FormulaIngredient" where
  "plain t = \<lparr>name = name t, percent = percent t, supplier = supplier t, normalizedPct = None\<rparr>"

definition mark :: "RawIngredient \<Rightarrow> gen_state \<Rightarrow> gen_state" where
  "mark i st = st\<lparr>st_used := st_used st @ [name i], st_picked := st_picked st @ [i]\<rparr>"

text \<open>Step 3, the top layer of the dominant family: the database's percent string is
  copied as it is.\<close>

definition isBooster :: "string list \<Rightarrow> RawIngredient \<Rightarrow> bool" where
  "isBooster us x = (\<not> List.member us (name x) \<and> 5 \<le> persistence x)"

definition domTopOf :: "RawIngredient list \<Rightarrow> gen_state \<Rightarrow> FormulaIngredient list \<times> gen_state" where
  "domTopOf tops st =
     (let topPool = sort_js byPersistenceDesc (filter (unused (st_used st)) tops)
      in if topPool = [] then ([], st)
         else (let (s', r) = seededRng (st_rng st) 10;
                   st1 = st\<lparr>st_rng := s'\<rparr>
               in case nth_opt topPool (dfloor (dmul r (dint (min 2 (int (length topPool)))))) of
                    None \<Rightarrow> ([], st1)
                  | Some t \<Rightarrow>
                     (let st2 = mark t st1
                      in if persistence t < 5 \<and> 1 < length topPool
                         then (case find (isBooster (st_used st2)) topPool of
                                 None \<Rightarrow> ([plain t], st2)
                               | Some booster \<Rightarrow> ([plain t, plain booster], mark booster st2))
                         else ([plain t], st2))))"

definition heroItem :: "RawIngredient \<Rightarrow> double \<Rightarrow> FormulaIngredient" where
  "heroItem h cappedHeroScale =
     \<lparr>name = name h, percent = makeRange (dmul (parseMidpoint (percent h)) cappedHeroScale),
      supplier = supplier h, normalizedPct = None\<rparr>"

definition stepDominant :: "string \<Rightarrow> string \<Rightarrow> string \<Rightarrow> ContextModifiers \<Rightarrow> RawIngredient option
    \<Rightarrow> formula \<times> gen_state \<Rightarrow> formula \<times> gen_state" where
  "stepDominant dominant secondary accent ctx hero fs =
     (let (f, st) = fs; fams = [dominant, secondary, accent]
      in case INGREDIENT_DB dominant of None \<Rightarrow> (f, st)
         | Some domF \<Rightarrow>
            (let st1 = (case hero of None \<Rightarrow> st | Some h \<Rightarrow> mark h st);
                 cappedHeroScale = dmin (heroScale ctx) (dlit 13 10);
                 (domTop, st2) = domTopOf (topL domF) st1;
                 heroInHeart = (case hero of None \<Rightarrow> None
                                | Some h \<Rightarrow> find (named (name h)) (heart domF));
                 heroInBase = (case hero of None \<Rightarrow> None
                               | Some h \<Rightarrow> find (named (name h)) (base domF));
                 heartHero = (case heroInHeart of None \<Rightarrow> []
                              | Some h \<Rightarrow> [heroItem h cappedHeroScale]);
                 heartBackboneCount = (if heroInHeart \<noteq> None then 1
                                       else if heroInBase \<noteq> None then 1 else 2);
                 heartBackboneMult = (if heroInBase \<noteq> None then dlit 75 100 else dint 1);
                 (heartPicks, st3) = pick fams hero (heart domF) Backbone heartBackboneCount
                                       heartBackboneMult st2;
                 baseHero = (case heroInBase of None \<Rightarrow> []
                             | Some h \<Rightarrow> if heroInHeart = None then [heroItem h cappedHeroScale] else []);
                 baseBackboneMult = (if heroInBase \<noteq> None then dmul (muskBoost ctx) (dlit 7 10)
                                     else muskBoost ctx);
                 (basePicks, st4) = pick fams hero (base domF) Backbone 1 baseBackboneMult st3
             in (formula_set dominant
                   \<lparr>topL = domTop, heart = heartHero @ heartPicks, base = baseHero @ basePicks\<rparr> f,
                 st4)))"

text \<open>Steps 4 and 5 assign the secondary and the accent entry, whatever the key held.\<close>

definition stepSecondary :: "string \<Rightarrow> string \<Rightarrow> string \<Rightarrow> RawIngredient option
    \<Rightarrow> formula \<times> gen_state \<Rightarrow> formula \<times> gen_state" where
  "stepSecondary dominant secondary accent hero fs =
     (let (f, st) = fs; fams = [dominant, secondary, accent]
      in case INGREDIENT_DB secondary of None \<Rightarrow> (f, st)
         | Some secF \<Rightarrow>
            (let (t, st1) = pick fams hero (topL secF) Lift 1 (dlit 8 10) st;
                 (h, st2) = pick fams hero (heart secF) Backbone 1 (dlit 7 10) st1;
                 (b, st3) = pick fams hero (base secF) Backbone 1 (dlit 6 10) st2
             in (formula_set secondary \<lparr>topL = t, heart = h, base = b\<rparr> f, st3)))"

definition inLayer :: "RawIngredient list \<Rightarrow> FormulaIngredient \<Rightarrow> bool" where
  "inLayer xs a = hasName (name a) xs"

definition stepAccent :: "string \<Rightarrow> string \<Rightarrow> string \<Rightarrow> RawIngredient option
    \<Rightarrow> formula \<times> gen_state \<Rightarrow> formula \<times> gen_state" where
  "stepAccent dominant secondary accent hero fs =
     (let (f, st) = fs; fams = [dominant, secondary, accent]
      in case INGREDIENT_DB accent of None \<Rightarrow> (f, st)
         | Some accF \<Rightarrow>
            (let (accPick, st1) = pick fams hero (heart accF @ base accF) Character 1 (dlit 5 10) st;
                 accHeart = filter (inLayer (heart accF)) accPick;
                 accBase = filter (Not \<circ> inLayer (heart accF)) accPick
             in (formula_set accent \<lparr>topL = [], heart = accHeart, base = accBase\<rparr> f, st1)))"

definition heavyFamilies :: "string list" where
  "heavyFamilies = [''oriental'', ''woody'', ''smoky'', ''leather'', ''incense'', ''gourmand'',
     ''spicy'']"

text \<open>Step 5b. The fill candidates are filtered once, before the loop.\<close>

definition isFill :: "string list \<Rightarrow> RawIngredient \<Rightarrow> bool" where
  "isFill us i = (\<not> List.member us (name i) \<and> role i = Character)"

definition fillSources :: "string \<Rightarrow> string \<Rightarrow> string list \<Rightarrow> RawIngredient list" where
  "fillSources secondary accent us =
     filter (isFill us)
       (dbLayer secondary Heart @ dbLayer accent Heart
        @ dbLayer secondary Base @ dbLayer accent Base)"

fun scoreFill :: "string list \<Rightarrow> nat \<Rightarrow> RawIngredient list \<Rightarrow> double
    \<Rightarrow> (RawIngredient \<times> double) list \<times> double" where
  "scoreFill fams idx [] s = ([], s)"
| "scoreFill fams idx (c # cs) s =
     (let (s1, r) = seededRng s (int idx * 7 + 99);
          score = dadd (blendScore fams c) (dmul r (dint 2));
          (rest, s2) = scoreFill fams (Suc idx) cs s1
      in ((c, score) # rest, s2))"

definition pushItem :: "string \<Rightarrow> layer \<Rightarrow> FormulaIngredient \<Rightarrow> formula \<Rightarrow> formula" where
  "pushItem fam l item f =
     (let cur = (case map_of f fam of None \<Rightarrow> emptyLayers | Some v \<Rightarrow> v)
      in formula_set fam
           (case l of Top \<Rightarrow> cur\<lparr>topL := topL cur @ [item]\<rparr>
            | Heart \<Rightarrow> cur\<lparr>heart := heart cur @ [item]\<rparr>
            | Base \<Rightarrow> cur\<lparr>base := base cur @ [item]\<rparr>) f)"

definition supportItem :: "RawIngredient \<Rightarrow> FormulaIngredient" where
  "supportItem i =
     (let mid = dmul (parseMidpoint (percent i)) (dlit 4 10)
      in \<lparr>name = name i, percent = makeRange mid, supplier = supplier i, normalizedPct = Some mid\<rparr>)"

text \<open>A fill goes to the secondary family if its heart or base list has the name, else to
  the accent family, and there to the heart if that family's heart list has the name.\<close>

definition fillFamily :: "string \<Rightarrow> string \<Rightarrow> RawIngredient \<Rightarrow> string" where
  "fillFamily secondary accent fill =
     (if hasName (name fill) (dbLayer secondary Heart @ dbLayer secondary Base)
      then secondary else accent)"

definition fillLayer :: "string \<Rightarrow> string \<Rightarrow> RawIngredient \<Rightarrow> layer" where
  "fillLayer secondary accent fill =
     (if hasName (name fill) (dbLayer (fillFamily secondary accent fill) Heart) then Heart else Base)"

definition placeFill :: "string \<Rightarrow> string \<Rightarrow> formula \<Rightarrow> RawIngredient \<Rightarrow> formula" where
  "placeFill secondary accent f fill =
     pushItem (fillFamily secondary accent fill) (fillLayer secondary accent fill) (supportItem fill) f"

fun addFill :: "string \<Rightarrow> string \<Rightarrow> formula \<times> gen_state \<Rightarrow> RawIngredient \<times> double
    \<Rightarrow> formula \<times> gen_state" where
  "addFill secondary accent (f, st) (fill, score) = (placeFill secondary accent f fill, mark fill st)"

definition stepFloor :: "string \<Rightarrow> string \<Rightarrow> string \<Rightarrow> formula \<times> gen_state
    \<Rightarrow> formula \<times> gen_state" where
  "stepFloor dominant secondary accent fs =
     (let (f, st) = fs; currentCount = totalIngredientsCount f
      in if List.member heavyFamilies dominant \<and> currentCount < 9
         then (let (scored, s') = scoreFill [dominant, secondary, accent] 0
                                    (fillSources secondary accent (st_used st)) (st_rng st);
                   sorted = sort_js byScore scored;
                   needed = min (length sorted) (9 - currentCount)
               in foldl (addFill secondary accent) (f, st\<lparr>st_rng := s'\<rparr>) (take needed sorted))
         else (f, st))"

text \<open>Step 5c, the structural backbone injection.\<close>

definition structuralBefore :: "RawIngredient \<Rightarrow> RawIngredient \<Rightarrow> bool" where
  "structuralBefore a b =
     (if str_includes (name a) ''Ambroxan'' then True
      else if str_includes (name b) ''Ambroxan'' then False
      else if str_includes (name a) ''Iso E'' then True
      else if str_includes (name b) ''Iso E'' then False
      else persistence a - persistence b < 0)"

definition isStructural :: "string \<Rightarrow> string list \<Rightarrow> RawIngredient \<Rightarrow> bool" where
  "isStructural dominant us i =
     (role i = Backbone \<and> \<not> List.member us (name i) \<and> List.member (blendsWith i) dominant)"

definition structuralCandidates :: "string \<Rightarrow> string list \<Rightarrow> RawIngredient list" where
  "structuralCandidates dominant us =
     sort_js structuralBefore
       (filter (isStructural dominant us)
          (dbLayer ''clean'' Base @ dbLayer ''woody'' Heart @ dbLayer ''woody'' Base))"

fun inject :: "string \<Rightarrow> (formula \<times> gen_state) \<times> pnote list \<Rightarrow> RawIngredient
    \<Rightarrow> (formula \<times> gen_state) \<times> pnote list" where
  "inject dominant ((f, st), ns) s =
     ((pushItem dominant Base (supportItem s) f, mark s st), ns @ [StructuralNote (name s)])"

definition stepStructure :: "string \<Rightarrow> string option \<Rightarrow> formula \<times> gen_state
    \<Rightarrow> (formula \<times> gen_state) \<times> pnote list" where
  "stepStructure dominant concentration fs =
     (let (f, st) = fs
      in if List.member heavyFamilies dominant \<and> totalIngredientsCount f < 7
            \<and> category (estimateSteeping (st_picked st) concentration) \<noteq> FastStable
         then (let cands = structuralCandidates dominant (st_used st);
                   injectCount = min 2 (8 - totalIngredientsCount f)
               in foldl (inject dominant) ((f, st), []) (take injectCount cands))
         else ((f, st), []))"

section \<open>Conflict resolution\<close>

definition getUpperPct :: "'a Ingredient_scheme \<Rightarrow> double" where
  "getUpperPct item = (let nums = percent item in if 2 \<le> length nums then tok (last nums) else dint 0)"

definition getLowerPct :: "'a Ingredient_scheme \<Rightarrow> double" where
  "getLowerPct item = (case percent item of [] \<Rightarrow> dint 0 | a # _ \<Rightarrow> tok a)"

definition origOf :: "string \<Rightarrow> string \<Rightarrow> RawIngredient option" where
  "origOf fam n = find (named n) (dbLayer fam Heart @ dbLayer fam Base)"

definition isHighDom :: "string \<Rightarrow> FormulaIngredient \<Rightarrow> bool" where
  "isHighDom fam item = (case origOf fam (name item) of None \<Rightarrow> False | Some orig \<Rightarrow> 7 \<le> dominance orig)"

text \<open>A pass that rewrites the heart and base items of every family in place.\<close>

fun onHeartBase :: "(string \<Rightarrow> FormulaIngredient \<Rightarrow> FormulaIngredient)
    \<Rightarrow> string \<times> FormulaIngredient layers \<Rightarrow> string \<times> FormulaIngredient layers" where
  "onHeartBase g (fam, l) = (fam, l\<lparr>heart := map (g fam) (heart l), base := map (g fam) (base l)\<rparr>)"

definition mapHeartBase :: "(string \<Rightarrow> FormulaIngredient \<Rightarrow> FormulaIngredient) \<Rightarrow> formula \<Rightarrow> formula" where
  "mapHeartBase g f = map (onHeartBase g) f"

text \<open>The band \<open>Math.round(lo * c * 10) / 10 - Math.round(hi * c * 10) / 10\<close>.\<close>

definition scaleBand :: "double \<Rightarrow> FormulaIngredient \<Rightarrow> FormulaIngredient" where
  "scaleBand c item =
     item\<lparr>percent := [shown (jsround (dmul (dmul (getLowerPct item) c) (dint 10))),
                      shown (jsround (dmul (dmul (getUpperPct item) c) (dint 10)))]\<rparr>"

fun highDomIn :: "string \<times> FormulaIngredient layers \<Rightarrow> nat" where
  "highDomIn (fam, l) = length (filter (isHighDom fam) (heart l @ base l))"

definition addHighDom :: "nat \<Rightarrow> string \<times> FormulaIngredient layers \<Rightarrow> nat" where
  "addHighDom n e = n + highDomIn e"

definition highDom :: "formula \<Rightarrow> nat" where
  "highDom f = foldl addHighDom 0 f"

definition correctItem :: "string option \<Rightarrow> string \<Rightarrow> FormulaIngredient \<Rightarrow> FormulaIngredient" where
  "correctItem heroName fam item =
     (if Some (name item) = heroName then item
      else if isHighDom fam item then scaleBand (dlit 4 10) item else item)"

definition passA :: "string option \<Rightarrow> formula \<Rightarrow> formula" where
  "passA heroName f = (if 1 < highDom f then mapHeartBase (correctItem heroName) f else f)"

definition capBand :: "FormulaIngredient \<Rightarrow> FormulaIngredient" where
  "capBand item =
     (let lo = dmin (getLowerPct item) (dlit 35 10); hi = dmin (getUpperPct item) (dlit 65 10)
      in item\<lparr>percent := [shown (jsround (dmul lo (dint 10))), shown (jsround (dmul hi (dint 10)))]\<rparr>)"

definition capItem :: "string option \<Rightarrow> string \<Rightarrow> FormulaIngredient \<Rightarrow> FormulaIngredient" where
  "capItem heroName fam item =
     (if Some (name item) = heroName then item
      else if d_less (dlit 65 10) (getUpperPct item) then capBand item else item)"

definition passB :: "string option \<Rightarrow> formula \<Rightarrow> formula" where
  "passB heroName f = mapHeartBase (capItem heroName) f"

fun heavyIn :: "string \<Rightarrow> layer \<Rightarrow> nat \<Rightarrow> FormulaIngredient list \<Rightarrow> heavyItem list" where
  "heavyIn fam l idx [] = []"
| "heavyIn fam l idx (item # items) =
     (let upper = getUpperPct item
      in (if d_less (dint 5) upper
          then [\<lparr>h_fam = fam, h_layer = l, h_idx = idx, h_upper = upper,
                 h_persistence = (case origOf fam (name item) of None \<Rightarrow> 5 | Some orig \<Rightarrow> persistence orig),
                 h_name = name item\<rparr>]
          else [])
         @ heavyIn fam l (Suc idx) items)"

fun heavyOf :: "string \<times> FormulaIngredient layers \<Rightarrow> heavyItem list" where
  "heavyOf (fam, l) = heavyIn fam Heart 0 (heart l) @ heavyIn fam Base 0 (base l)"

definition heavyItems :: "formula \<Rightarrow> heavyItem list" where
  "heavyItems f = concat (map heavyOf f)"

definition heavyBefore :: "string option \<Rightarrow> heavyItem \<Rightarrow> heavyItem \<Rightarrow> bool" where
  "heavyBefore heroName a b =
     (if Some (h_name a) = heroName then True
      else if Some (h_name b) = heroName then False
      else h_persistence a - h_persistence b < 0)"

definition layerOf :: "layer \<Rightarrow> FormulaIngredient layers \<Rightarrow> FormulaIngredient list" where
  "layerOf l v = (case l of Top \<Rightarrow> topL v | Heart \<Rightarrow> heart v | Base \<Rightarrow> base v)"

definition getItem :: "formula \<Rightarrow> string \<Rightarrow> layer \<Rightarrow> nat \<Rightarrow> FormulaIngredient option" where
  "getItem f fam l idx = (case map_of f fam of None \<Rightarrow> None
     | Some v \<Rightarrow> nth_opt (layerOf l v) (int idx))"

fun setIn :: "string \<Rightarrow> layer \<Rightarrow> nat \<Rightarrow> FormulaIngredient \<Rightarrow> string \<times> FormulaIngredient layers
    \<Rightarrow> string \<times> FormulaIngredient layers" where
  "setIn fam l idx item (k, v) =
     (if k = fam
      then (k, case l of Top \<Rightarrow> v\<lparr>topL := (topL v)[idx := item]\<rparr>
               | Heart \<Rightarrow> v\<lparr>heart := (heart v)[idx := item]\<rparr>
               | Base \<Rightarrow> v\<lparr>base := (base v)[idx := item]\<rparr>)
      else (k, v))"

definition setItem :: "string \<Rightarrow> layer \<Rightarrow> nat \<Rightarrow> FormulaIngredient \<Rightarrow> formula \<Rightarrow> formula" where
  "setItem fam l idx item f = map (setIn fam l idx item) f"

fun reduceLoop :: "string option \<Rightarrow> nat \<Rightarrow> heavyItem list \<Rightarrow> nat \<Rightarrow> formula \<times> pnote list
    \<Rightarrow> formula \<times> pnote list" where
  "reduceLoop heroName n [] reductions acc = acc"
| "reduceLoop heroName n (h # hs) reductions acc =
     (if Some (h_name h) = heroName then reduceLoop heroName n hs reductions acc
      else if int n - int reductions \<le> 2 then acc
      else (case getItem (fst acc) (h_fam h) (h_layer h) (h_idx h) of
              None \<Rightarrow> acc
            | Some item \<Rightarrow>
               (let new = scaleBand (dlit 7 10) item
                in reduceLoop heroName n hs (Suc reductions)
                     (setItem (h_fam h) (h_layer h) (h_idx h) new (fst acc),
                      snd acc @ [ReducedNote (name item) (percent new ! 0) (percent new ! 1)]))))"

definition passC :: "string option \<Rightarrow> formula \<times> pnote list \<Rightarrow> formula \<times> pnote list" where
  "passC heroName acc =
     (let hs = heavyItems (fst acc)
      in if 2 < length hs
         then reduceLoop heroName (length hs) (sort_js (heavyBefore heroName) hs) 0 acc
         else acc)"

definition functionalGroups :: "(string \<times> string list) list" where
  "functionalGroups = [
     (''white-musk'', [''White Musk (Galaxolide)'', ''Musk Accord (white)'', ''Musk Ketone'',
        ''Musk (Ethylene Brassylate)'']),
     (''ambergris'', [''Ambroxan'', ''Ambergris Accord (Ambroxan + Labdanum)'']),
     (''sandalwood'', [''Sandalwood (Australian)'', ''Mysore Sandalwood Accord'']),
     (''vetiver'', [''Vetiver EO (Java)'', ''Vetiver EO (Haiti)'', ''Vetiver EO'']),
     (''cedar'', [''Cedarwood Atlas EO'', ''Cedarwood Virginia'']),
     (''labdanum-amber'', [''Labdanum Absolute'', ''Amber Accord (in-house blend)'']),
     (''pepper'', [''Pink Pepper CO2'', ''Pink Pepper EO'', ''Black Pepper CO2'']),
     (''hedione'', [''Hedione'', ''Hedione HC'']),
     (''bergamot'', [''Bergamot EO'', ''Bergamot EO (Italian)'', ''Bergamot EO (Calabrian type)''])]"

text \<open>\<open>usedGroups\<close>, a \<open>Map\<close> in insertion order: for every item, layer by layer, its name
  is appended to each group that lists it.\<close>

fun recordIn :: "string \<Rightarrow> string \<Rightarrow> (string \<times> string list) list \<Rightarrow> (string \<times> string list) list" where
  "recordIn g n [] = [(g, [n])]"
| "recordIn g n ((g', ms) # u) = (if g' = g then (g', ms @ [n]) # u else (g', ms) # recordIn g n u)"

fun recordGroup :: "string \<Rightarrow> (string \<times> string list) list \<Rightarrow> string \<times> string list
    \<Rightarrow> (string \<times> string list) list" where
  "recordGroup n u (g, members) = (if List.member members n then recordIn g n u else u)"

definition recordItem :: "(string \<times> string list) list \<Rightarrow> string \<Rightarrow> (string \<times> string list) list" where
  "recordItem u n = foldl (recordGroup n) u functionalGroups"

fun namesOf :: "string \<times> FormulaIngredient layers \<Rightarrow> string list" where
  "namesOf (fam, l) = map name (topL l @ heart l @ base l)"

definition allNames :: "formula \<Rightarrow> string list" where
  "allNames f = concat (map namesOf f)"

definition usedGroups :: "formula \<Rightarrow> (string \<times> string list) list" where
  "usedGroups f = foldl recordItem [] (allNames f)"

definition dampenItem :: "string \<Rightarrow> string \<Rightarrow> FormulaIngredient \<Rightarrow> FormulaIngredient" where
  "dampenItem weakerName fam item =
     (if name item = weakerName then scaleBand (dlit 6 10) item else item)"

fun dampen :: "formula \<times> pnote list \<Rightarrow> string \<times> string list \<Rightarrow> formula \<times> pnote list" where
  "dampen (f, ns) (g, members) =
     (if 1 < length members
      then (mapHeartBase (dampenItem (members ! 1)) f, ns @ [OverlapNote members g])
      else (f, ns))"

definition passD :: "formula \<times> pnote list \<Rightarrow> formula \<times> pnote list" where
  "passD acc = foldl dampen acc (usedGroups (fst acc))"

section \<open>The engine and its facade\<close>

text \<open>Steps 1 to 5c: the hero, the assembled formula, the shared variables and the notes.\<close>

text \<open>Steps 3 to 5, the three families, from the empty formula.\<close>

definition pickFamilies :: "string \<Rightarrow> string \<Rightarrow> string \<Rightarrow> ContextModifiers \<Rightarrow> RawIngredient option
    \<Rightarrow> double \<Rightarrow> formula \<times> gen_state" where
  "pickFamilies dominant secondary accent ctx hero s =
     stepAccent dominant secondary accent hero
       (stepSecondary dominant secondary accent hero
         (stepDominant dominant secondary accent ctx hero
           ([], \<lparr>st_rng = s, st_used = [], st_picked = [], st_ifra = []\<rparr>)))"

fun fillFamilies :: "string \<Rightarrow> string \<Rightarrow> string \<Rightarrow> string option \<Rightarrow> ContextModifiers
    \<Rightarrow> RawIngredient option \<times> double
    \<Rightarrow> RawIngredient option \<times> (formula \<times> gen_state) \<times> pnote list" where
  "fillFamilies dominant secondary accent concentration ctx (hero, s) =
     (hero,
      stepStructure dominant concentration
        (stepFloor dominant secondary accent
          (pickFamilies dominant secondary accent ctx hero s)))"

definition selection :: "string \<Rightarrow> string \<Rightarrow> string \<Rightarrow> 16 word list \<Rightarrow> string option \<Rightarrow> string option
    \<Rightarrow> string option \<Rightarrow> RawIngredient option \<times> (formula \<times> gen_state) \<times> pnote list" where
  "selection dominant secondary accent scentCode concentration occasion intensity =
     fillFamilies dominant secondary accent concentration
       (computeContext concentration occasion intensity)
       (selectHero dominant (seedOf scentCode))"

text \<open>Step 6, the passes 6a, 6b and 6c, and with step 7 the whole conflict resolution.\<close>

definition passABC :: "string option \<Rightarrow> formula \<times> pnote list \<Rightarrow> formula \<times> pnote list" where
  "passABC heroName acc = passC heroName (passB heroName (passA heroName (fst acc)), snd acc)"

definition resolve :: "string option \<Rightarrow> formula \<times> pnote list \<Rightarrow> formula \<times> pnote list" where
  "resolve heroName acc = passD (passABC heroName acc)"

fun finalOutput :: "gen_state \<Rightarrow> SteepingInfo \<Rightarrow> formula \<times> pnote list \<Rightarrow> FormulaResult \<times> Meta option" where
  "finalOutput st steeping' (f, ns) =
     (\<lparr>formula = f, steeping = steeping', ingredientCount = length (st_picked st),
        ifraWarnings = st_ifra st, perfumerNotes = ns\<rparr>,
      Some \<lparr>m_steeping = steeping', m_ingredientCount = length (st_picked st),
            m_ifraWarnings = st_ifra st, m_perfumerNotes = ns\<rparr>)"

text \<open>Steps 6 and 7 and the final output, which also overwrites \<open>_lastMeta\<close>.\<close>

fun finish :: "string option \<Rightarrow> RawIngredient option \<times> (formula \<times> gen_state) \<times> pnote list
    \<Rightarrow> FormulaResult \<times> Meta option" where
  "finish concentration (hero, (f, st), ns) =
     finalOutput st (estimateSteeping (st_picked st) concentration) (resolve (map_option name hero) (f, ns))"

definition generateLocalFormula :: "string \<Rightarrow> string \<Rightarrow> string \<Rightarrow> 16 word list \<Rightarrow> string option
    \<Rightarrow> string option \<Rightarrow> string option \<Rightarrow> Meta option \<Rightarrow> FormulaResult \<times> Meta option" where
  "generateLocalFormula dominant secondary accent scentCode concentration occasion intensity lastMeta =
     finish concentration
       (selection dominant secondary accent scentCode concentration occasion intensity)"

record Opts =
  dominant :: string
  secondary :: string
  accent :: string
  scentCode :: "16 word list"
  concentration :: "string option"
  occasion :: "string option"
  intensity :: "string option"

definition generateSmartFormula :: "Opts \<Rightarrow> Meta option \<Rightarrow> FormulaResult \<times> Meta option" where
  "generateSmartFormula opts lastMeta =
     generateLocalFormula (dominant opts) (secondary opts) (accent opts) (scentCode opts)
       (concentration opts) (occasion opts) (intensity opts) lastMeta"

definition getFormulaMetadata :: "Meta option \<Rightarrow> Meta option" where
  "getFormulaMetadata lastMeta = lastMeta"

section \<open>Notions the properties are stated with\<close>

fun topOf :: "string \<times> FormulaIngredient layers \<Rightarrow> string \<times> FormulaIngredient list" where
  "topOf (fam, l) = (fam, topL l)"

text \<open>The top layers of a formula, family by family, and the top layer filed under a key.\<close>

definition tops :: "formula \<Rightarrow> (string \<times> FormulaIngredient list) list" where
  "tops f = map topOf f"

definition topAt :: "formula \<Rightarrow> string \<Rightarrow> FormulaIngredient list option" where
  "topAt f k = map_option topL (map_of f k)"

fun heartBaseOf :: "string \<times> FormulaIngredient layers \<Rightarrow> FormulaIngredient list" where
  "heartBaseOf (fam, l) = heart l @ base l"

text \<open>All heart and base entries of a formula, in the order the passes visit them.\<close>

definition heartBase :: "formula \<Rightarrow> FormulaIngredient list" where
  "heartBase f = concat (map heartBaseOf f)"

text \<open>The band of the entry of a given name in a layer of a family.\<close>

definition bandAt :: "formula \<Rightarrow> string \<Rightarrow> layer \<Rightarrow> string \<Rightarrow> percent option" where
  "bandAt f fam l n = (case map_of f fam of None \<Rightarrow> None
     | Some v \<Rightarrow> map_option percent (find (named n) (layerOf l v)))"

definition overCap :: "FormulaIngredient \<Rightarrow> bool" where
  "overCap item = d_less (dlit 65 10) (getUpperPct item)"

definition overFive :: "FormulaIngredient \<Rightarrow> bool" where
  "overFive item = d_less (dint 5) (getUpperPct item)"

definition isHero :: "string option \<Rightarrow> FormulaIngredient \<Rightarrow> bool" where
  "isHero heroName item = (Some (name item) = heroName)"

definition familyKeys :: "string list" where
  "familyKeys = [''floral'', ''woody'', ''oriental'', ''fresh'', ''citrus'', ''gourmand'', ''aromatic'',
     ''smoky'', ''spicy'', ''powdery'', ''green'', ''aquatic'', ''leather'', ''clean'', ''incense'',
     ''niche'']"

definition pool :: "string \<Rightarrow> RawIngredient list" where
  "pool fam = dbLayer fam Top @ dbLayer fam Heart @ dbLayer fam Base"

text \<open>The names the pools of the three input families offer.\<close>

definition poolNames :: "string \<Rightarrow> string \<Rightarrow> string \<Rightarrow> string list" where
  "poolNames d s a = remdups (map name (pool d @ pool s @ pool a))"

text \<open>The persistence of every database record of a name, over all families.\<close>

definition dbPersistence :: "string \<Rightarrow> int list" where
  "dbPersistence n = map persistence (filter (named n) (concat (map pool familyKeys)))"

text \<open>What the floor step can reach: the ingredients counted when it starts and the fill
  candidates it finds.\<close>

definition floorBudget :: "string \<Rightarrow> string \<Rightarrow> formula \<times> gen_state \<Rightarrow> nat" where
  "floorBudget secF accF fs =
     totalIngredientsCount (fst fs) + length (fillSources secF accF (st_used (snd fs)))"

definition recordedOnce :: "string \<times> string list \<Rightarrow> bool" where
  "recordedOnce gm = (length (snd gm) \<le> 1)"


text \<open>The groups recorded more than once, the name recorded second for each of them, and
  the rewriting of the items that carry such a name.\<close>

definition recordedTwice :: "string \<times> string list \<Rightarrow> bool" where
  "recordedTwice gm = (1 < length (snd gm))"

definition secondRecorded :: "string \<times> string list \<Rightarrow> string" where
  "secondRecorded gm = snd gm ! 1"

definition overlapping :: "formula \<Rightarrow> (string \<times> string list) list" where
  "overlapping f = filter recordedTwice (usedGroups f)"

definition weakerNames :: "formula \<Rightarrow> string list" where
  "weakerNames f = map secondRecorded (overlapping f)"

fun overlapNote :: "string \<times> string list \<Rightarrow> pnote" where
  "overlapNote (g, members) = OverlapNote members g"

definition dampenWeaker :: "string list \<Rightarrow> string \<Rightarrow> FormulaIngredient \<Rightarrow> FormulaIngredient" where
  "dampenWeaker ws fam item =
     (if List.member ws (name item) then scaleBand (dlit 6 10) item else item)"

text \<open>Every recorded name belongs to the group it is recorded for, the groups are recorded
  under distinct keys, and no name belongs to two groups of the table.\<close>

definition inGroup :: "string \<Rightarrow> string \<Rightarrow> bool" where
  "inGroup g n = (\<exists>members. (g, members) \<in> set functionalGroups \<and> n \<in> set members)"

definition recorded_ok :: "(string \<times> string list) list \<Rightarrow> bool" where
  "recorded_ok u = (distinct (map fst u) \<and> (\<forall>(g, ms)\<in>set u. \<forall>n\<in>set ms. inGroup g n))"

text \<open>The cap: an entry is the hero's or its upper bound is at most 6.5%. The upper bound
  a band gets when it is scaled by \<open>c\<close>, and that a token scaled by \<open>c\<close> is still at most
  6.5%.\<close>

definition capped :: "string option \<Rightarrow> FormulaIngredient \<Rightarrow> bool" where
  "capped heroName item = (isHero heroName item \<or> \<not> overCap item)"

definition scaledUpper :: "double \<Rightarrow> double \<Rightarrow> double" where
  "scaledUpper c u = tok (shown (jsround (dmul (dmul u c) (dint 10))))"

definition staysCapped :: "double \<Rightarrow> nat \<Rightarrow> bool" where
  "staysCapped c k = (\<not> d_less (dlit 65 10) (scaledUpper c (tok k)))"
section \<open>Worked inputs\<close>

text \<open>The values the engine computes, stage by stage, at five inputs; the lemmas of the
  section after next prove that it does.\<close>

definition cedar_f0 :: "formula" where
  "cedar_f0 =
     [(''citrus'',
       \<lparr>topL = [\<lparr>name = ''Blood Orange EO'', percent = [30, 50],
                   supplier = ''A. Fakhry & Co'', normalizedPct = None\<rparr>],
        heart = [\<lparr>name = ''Neroli EO'', percent = [21, 39],
                    supplier = ''A. Fakhry & Co'', normalizedPct = None\<rparr>,
                  \<lparr>name = ''Petitgrain Bigarade'', percent = [28, 52],
                    supplier = ''A. Fakhry & Co'', normalizedPct = Some (Dbl 4503599627370496 (- 50))\<rparr>],
        base = [\<lparr>name = ''Cedarwood Virginia'', percent = [28, 52],
                   supplier = ''Bulkaroma'', normalizedPct = Some (Dbl 4503599627370496 (- 50))\<rparr>]\<rparr>),
      (''woody'',
       \<lparr>topL = [\<lparr>name = ''Bergamot EO (Calabrian type)'', percent = [22, 42],
                   supplier = ''Fraterworks'', normalizedPct = Some (Dbl 7205759403792794 (- 51))\<rparr>],
        heart = [\<lparr>name = ''Cedarwood Atlas EO'', percent = [32, 59],
                    supplier = ''Morocco'', normalizedPct = Some (Dbl 5122844576133939 (- 50))\<rparr>],
        base = [\<lparr>name = ''Cashmeran'', percent = [17, 31],
                   supplier = ''Fraterworks'', normalizedPct = Some (Dbl 5404319552844595 (- 51))\<rparr>]\<rparr>),
      (''floral'',
       \<lparr>topL = [],
        heart = [\<lparr>name = ''Geranium EO (Egyptian)'', percent = [10, 20],
                    supplier = ''Cairo Aromatic'', normalizedPct = Some (Dbl 6755399441055744 (- 52))\<rparr>],
        base = []\<rparr>)]"

definition cedar_st :: "gen_state" where
  "cedar_st =
     \<lparr>st_rng = Dbl 8352769811415040 (- 23),
      st_used = map name
        [db_citrus_heart ! 0,
         db_citrus_top ! 1,
         db_citrus_heart ! 1,
         db_citrus_base ! 1,
         db_woody_top ! 0,
         db_woody_heart ! 0,
         db_woody_base ! 2,
         db_floral_heart ! 4],
      st_picked =
        [db_citrus_heart ! 0,
         db_citrus_top ! 1,
         db_citrus_heart ! 1,
         db_citrus_base ! 1,
         db_woody_top ! 0,
         db_woody_heart ! 0,
         db_woody_base ! 2,
         db_floral_heart ! 4],
      st_ifra = []\<rparr>"

definition cedar_fC :: "formula" where
  "cedar_fC =
     [(''citrus'',
       \<lparr>topL = [\<lparr>name = ''Blood Orange EO'', percent = [30, 50],
                   supplier = ''A. Fakhry & Co'', normalizedPct = None\<rparr>],
        heart = [\<lparr>name = ''Neroli EO'', percent = [21, 39],
                    supplier = ''A. Fakhry & Co'', normalizedPct = None\<rparr>,
                  \<lparr>name = ''Petitgrain Bigarade'', percent = [20, 36],
                    supplier = ''A. Fakhry & Co'', normalizedPct = Some (Dbl 4503599627370496 (- 50))\<rparr>],
        base = [\<lparr>name = ''Cedarwood Virginia'', percent = [28, 52],
                   supplier = ''Bulkaroma'', normalizedPct = Some (Dbl 4503599627370496 (- 50))\<rparr>]\<rparr>),
      (''woody'',
       \<lparr>topL = [\<lparr>name = ''Bergamot EO (Calabrian type)'', percent = [22, 42],
                   supplier = ''Fraterworks'', normalizedPct = Some (Dbl 7205759403792794 (- 51))\<rparr>],
        heart = [\<lparr>name = ''Cedarwood Atlas EO'', percent = [32, 59],
                    supplier = ''Morocco'', normalizedPct = Some (Dbl 5122844576133939 (- 50))\<rparr>],
        base = [\<lparr>name = ''Cashmeran'', percent = [17, 31],
                   supplier = ''Fraterworks'', normalizedPct = Some (Dbl 5404319552844595 (- 51))\<rparr>]\<rparr>),
      (''floral'',
       \<lparr>topL = [],
        heart = [\<lparr>name = ''Geranium EO (Egyptian)'', percent = [10, 20],
                    supplier = ''Cairo Aromatic'', normalizedPct = Some (Dbl 6755399441055744 (- 52))\<rparr>],
        base = []\<rparr>)]"

definition cedar_fD :: "formula" where
  "cedar_fD =
     [(''citrus'',
       \<lparr>topL = [\<lparr>name = ''Blood Orange EO'', percent = [30, 50],
                   supplier = ''A. Fakhry & Co'', normalizedPct = None\<rparr>],
        heart = [\<lparr>name = ''Neroli EO'', percent = [21, 39],
                    supplier = ''A. Fakhry & Co'', normalizedPct = None\<rparr>,
                  \<lparr>name = ''Petitgrain Bigarade'', percent = [20, 36],
                    supplier = ''A. Fakhry & Co'', normalizedPct = Some (Dbl 4503599627370496 (- 50))\<rparr>],
        base = [\<lparr>name = ''Cedarwood Virginia'', percent = [28, 52],
                   supplier = ''Bulkaroma'', normalizedPct = Some (Dbl 4503599627370496 (- 50))\<rparr>]\<rparr>),
      (''woody'',
       \<lparr>topL = [\<lparr>name = ''Bergamot EO (Calabrian type)'', percent = [22, 42],
                   supplier = ''Fraterworks'', normalizedPct = Some (Dbl 7205759403792794 (- 51))\<rparr>],
        heart = [\<lparr>name = ''Cedarwood Atlas EO'', percent = [19, 35],
                    supplier = ''Morocco'', normalizedPct = Some (Dbl 5122844576133939 (- 50))\<rparr>],
        base = [\<lparr>name = ''Cashmeran'', percent = [17, 31],
                   supplier = ''Fraterworks'', normalizedPct = Some (Dbl 5404319552844595 (- 51))\<rparr>]\<rparr>),
      (''floral'',
       \<lparr>topL = [],
        heart = [\<lparr>name = ''Geranium EO (Egyptian)'', percent = [10, 20],
                    supplier = ''Cairo Aromatic'', normalizedPct = Some (Dbl 6755399441055744 (- 52))\<rparr>],
        base = []\<rparr>)]"

definition amber_f0 :: "formula" where
  "amber_f0 =
     [(''oriental'',
       \<lparr>topL = [\<lparr>name = ''Saffron CO2'', percent = [5, 10],
                   supplier = ''Iran'', normalizedPct = None\<rparr>],
        heart = [\<lparr>name = ''Labdanum Absolute'', percent = [21, 39],
                    supplier = ''Fraterworks'', normalizedPct = Some (Dbl 6755399441055744 (- 51))\<rparr>],
        base = [\<lparr>name = ''Amber Accord (in-house blend)'', percent = [46, 85],
                   supplier = ''MUSK Aromatics'', normalizedPct = None\<rparr>,
                 \<lparr>name = ''Vanillin (natural-identical)'', percent = [15, 27],
                   supplier = ''Fraterworks'', normalizedPct = Some (Dbl 4728779608739020 (- 51))\<rparr>]\<rparr>),
      (''fresh'',
       \<lparr>topL = [\<lparr>name = ''Egyptian Lemon EO'', percent = [22, 42],
                   supplier = ''A. Fakhry & Co'', normalizedPct = Some (Dbl 7205759403792794 (- 51))\<rparr>],
        heart = [\<lparr>name = ''Hedione HC'', percent = [37, 68],
                    supplier = ''Fraterworks'', normalizedPct = Some (Dbl 5910974510923776 (- 50))\<rparr>],
        base = [\<lparr>name = ''White Musk (Galaxolide)'', percent = [25, 47],
                   supplier = ''Fraterworks'', normalizedPct = Some (Dbl 8106479329266892 (- 51))\<rparr>]\<rparr>),
      (''clean'',
       \<lparr>topL = [],
        heart = [\<lparr>name = ''Lily of the Valley Accord'', percent = [14, 26],
                    supplier = ''PerfumersWorld'', normalizedPct = Some (Dbl 4503599627370496 (- 51))\<rparr>],
        base = []\<rparr>)]"

definition amber_st :: "gen_state" where
  "amber_st =
     \<lparr>st_rng = Dbl 8311151599288320 (- 22),
      st_used = map name
        [db_oriental_base ! 0,
         db_oriental_top ! 0,
         db_oriental_heart ! 1,
         db_oriental_base ! 2,
         db_fresh_top ! 0,
         db_fresh_heart ! 1,
         db_fresh_base ! 0,
         db_clean_heart ! 1],
      st_picked =
        [db_oriental_base ! 0,
         db_oriental_top ! 0,
         db_oriental_heart ! 1,
         db_oriental_base ! 2,
         db_fresh_top ! 0,
         db_fresh_heart ! 1,
         db_fresh_base ! 0,
         db_clean_heart ! 1],
      st_ifra = []\<rparr>"

definition amber_fB :: "formula" where
  "amber_fB =
     [(''oriental'',
       \<lparr>topL = [\<lparr>name = ''Saffron CO2'', percent = [5, 10],
                   supplier = ''Iran'', normalizedPct = None\<rparr>],
        heart = [\<lparr>name = ''Labdanum Absolute'', percent = [21, 39],
                    supplier = ''Fraterworks'', normalizedPct = Some (Dbl 6755399441055744 (- 51))\<rparr>],
        base = [\<lparr>name = ''Amber Accord (in-house blend)'', percent = [46, 85],
                   supplier = ''MUSK Aromatics'', normalizedPct = None\<rparr>,
                 \<lparr>name = ''Vanillin (natural-identical)'', percent = [15, 27],
                   supplier = ''Fraterworks'', normalizedPct = Some (Dbl 4728779608739020 (- 51))\<rparr>]\<rparr>),
      (''fresh'',
       \<lparr>topL = [\<lparr>name = ''Egyptian Lemon EO'', percent = [22, 42],
                   supplier = ''A. Fakhry & Co'', normalizedPct = Some (Dbl 7205759403792794 (- 51))\<rparr>],
        heart = [\<lparr>name = ''Hedione HC'', percent = [35, 65],
                    supplier = ''Fraterworks'', normalizedPct = Some (Dbl 5910974510923776 (- 50))\<rparr>],
        base = [\<lparr>name = ''White Musk (Galaxolide)'', percent = [25, 47],
                   supplier = ''Fraterworks'', normalizedPct = Some (Dbl 8106479329266892 (- 51))\<rparr>]\<rparr>),
      (''clean'',
       \<lparr>topL = [],
        heart = [\<lparr>name = ''Lily of the Valley Accord'', percent = [14, 26],
                    supplier = ''PerfumersWorld'', normalizedPct = Some (Dbl 4503599627370496 (- 51))\<rparr>],
        base = []\<rparr>)]"

definition amber_fD :: "formula" where
  "amber_fD =
     [(''oriental'',
       \<lparr>topL = [\<lparr>name = ''Saffron CO2'', percent = [5, 10],
                   supplier = ''Iran'', normalizedPct = None\<rparr>],
        heart = [\<lparr>name = ''Labdanum Absolute'', percent = [21, 39],
                    supplier = ''Fraterworks'', normalizedPct = Some (Dbl 6755399441055744 (- 51))\<rparr>],
        base = [\<lparr>name = ''Amber Accord (in-house blend)'', percent = [28, 51],
                   supplier = ''MUSK Aromatics'', normalizedPct = None\<rparr>,
                 \<lparr>name = ''Vanillin (natural-identical)'', percent = [15, 27],
                   supplier = ''Fraterworks'', normalizedPct = Some (Dbl 4728779608739020 (- 51))\<rparr>]\<rparr>),
      (''fresh'',
       \<lparr>topL = [\<lparr>name = ''Egyptian Lemon EO'', percent = [22, 42],
                   supplier = ''A. Fakhry & Co'', normalizedPct = Some (Dbl 7205759403792794 (- 51))\<rparr>],
        heart = [\<lparr>name = ''Hedione HC'', percent = [35, 65],
                    supplier = ''Fraterworks'', normalizedPct = Some (Dbl 5910974510923776 (- 50))\<rparr>],
        base = [\<lparr>name = ''White Musk (Galaxolide)'', percent = [25, 47],
                   supplier = ''Fraterworks'', normalizedPct = Some (Dbl 8106479329266892 (- 51))\<rparr>]\<rparr>),
      (''clean'',
       \<lparr>topL = [],
        heart = [\<lparr>name = ''Lily of the Valley Accord'', percent = [14, 26],
                    supplier = ''PerfumersWorld'', normalizedPct = Some (Dbl 4503599627370496 (- 51))\<rparr>],
        base = []\<rparr>)]"

definition isoE_f0 :: "formula" where
  "isoE_f0 =
     [(''oriental'',
       \<lparr>topL = [\<lparr>name = ''Saffron CO2'', percent = [5, 10],
                   supplier = ''Iran'', normalizedPct = None\<rparr>],
        heart = [\<lparr>name = ''Oud Oil (Hindi type)'', percent = [14, 26],
                    supplier = ''UAE (Dubai)'', normalizedPct = None\<rparr>,
                  \<lparr>name = ''Labdanum Absolute'', percent = [28, 52],
                    supplier = ''Fraterworks'', normalizedPct = Some (Dbl 4503599627370496 (- 50))\<rparr>],
        base = [\<lparr>name = ''Benzoin Resinoid (Siam)'', percent = [28, 52],
                   supplier = ''Bulkaroma'', normalizedPct = Some (Dbl 4503599627370496 (- 50))\<rparr>,
                 \<lparr>name = ''Iso E Super'', percent = [28, 52],
                   supplier = ''Fraterworks'', normalizedPct = Some (Dbl 4503599627370496 (- 50))\<rparr>]\<rparr>),
      (''leather'',
       \<lparr>topL = [],
        heart = [],
        base = [\<lparr>name = ''Castoreum Accord'', percent = [5, 10],
                   supplier = ''Fraterworks'', normalizedPct = Some (Dbl 6755399441055744 (- 53))\<rparr>]\<rparr>)]"

definition isoE_st :: "gen_state" where
  "isoE_st =
     \<lparr>st_rng = Dbl 5070602872291328 (- 23),
      st_used = map name
        [db_oriental_heart ! 0,
         db_oriental_top ! 0,
         db_oriental_heart ! 1,
         db_oriental_base ! 1,
         db_leather_base ! 0,
         db_woody_heart ! 1],
      st_picked =
        [db_oriental_heart ! 0,
         db_oriental_top ! 0,
         db_oriental_heart ! 1,
         db_oriental_base ! 1,
         db_leather_base ! 0,
         db_woody_heart ! 1],
      st_ifra = []\<rparr>"

definition isoE_fA :: "formula" where
  "isoE_fA =
     [(''oriental'',
       \<lparr>topL = [\<lparr>name = ''Saffron CO2'', percent = [5, 10],
                   supplier = ''Iran'', normalizedPct = None\<rparr>],
        heart = [\<lparr>name = ''Oud Oil (Hindi type)'', percent = [14, 26],
                    supplier = ''UAE (Dubai)'', normalizedPct = None\<rparr>,
                  \<lparr>name = ''Labdanum Absolute'', percent = [28, 52],
                    supplier = ''Fraterworks'', normalizedPct = Some (Dbl 4503599627370496 (- 50))\<rparr>],
        base = [\<lparr>name = ''Benzoin Resinoid (Siam)'', percent = [28, 52],
                   supplier = ''Bulkaroma'', normalizedPct = Some (Dbl 4503599627370496 (- 50))\<rparr>,
                 \<lparr>name = ''Iso E Super'', percent = [28, 52],
                   supplier = ''Fraterworks'', normalizedPct = Some (Dbl 4503599627370496 (- 50))\<rparr>]\<rparr>),
      (''leather'',
       \<lparr>topL = [],
        heart = [],
        base = [\<lparr>name = ''Castoreum Accord'', percent = [2, 4],
                   supplier = ''Fraterworks'', normalizedPct = Some (Dbl 6755399441055744 (- 53))\<rparr>]\<rparr>)]"

definition isoE_fC :: "formula" where
  "isoE_fC =
     [(''oriental'',
       \<lparr>topL = [\<lparr>name = ''Saffron CO2'', percent = [5, 10],
                   supplier = ''Iran'', normalizedPct = None\<rparr>],
        heart = [\<lparr>name = ''Oud Oil (Hindi type)'', percent = [14, 26],
                    supplier = ''UAE (Dubai)'', normalizedPct = None\<rparr>,
                  \<lparr>name = ''Labdanum Absolute'', percent = [28, 52],
                    supplier = ''Fraterworks'', normalizedPct = Some (Dbl 4503599627370496 (- 50))\<rparr>],
        base = [\<lparr>name = ''Benzoin Resinoid (Siam)'', percent = [28, 52],
                   supplier = ''Bulkaroma'', normalizedPct = Some (Dbl 4503599627370496 (- 50))\<rparr>,
                 \<lparr>name = ''Iso E Super'', percent = [20, 36],
                   supplier = ''Fraterworks'', normalizedPct = Some (Dbl 4503599627370496 (- 50))\<rparr>]\<rparr>),
      (''leather'',
       \<lparr>topL = [],
        heart = [],
        base = [\<lparr>name = ''Castoreum Accord'', percent = [2, 4],
                   supplier = ''Fraterworks'', normalizedPct = Some (Dbl 6755399441055744 (- 53))\<rparr>]\<rparr>)]"

definition twice_f0 :: "formula" where
  "twice_f0 =
     [(''woody'',
       \<lparr>topL = [\<lparr>name = ''Bergamot EO (Calabrian type)'', percent = [22, 42],
                   supplier = ''Fraterworks'', normalizedPct = Some (Dbl 7205759403792794 (- 51))\<rparr>],
        heart = [\<lparr>name = ''Cedarwood Atlas EO'', percent = [32, 59],
                    supplier = ''Morocco'', normalizedPct = Some (Dbl 5122844576133939 (- 50))\<rparr>,
                  \<lparr>name = ''Guaiac Wood EO'', percent = [11, 21],
                    supplier = ''Bulkaroma'', normalizedPct = Some (Dbl 7205759403792794 (- 52))\<rparr>,
                  \<lparr>name = ''Hinoki (Japanese Cypress)'', percent = [8, 16],
                    supplier = ''PerfumersWorld'', normalizedPct = Some (Dbl 5404319552844596 (- 52))\<rparr>],
        base = [\<lparr>name = ''Patchouli EO (Dark)'', percent = [19, 35],
                   supplier = ''Bulkaroma'', normalizedPct = Some (Dbl 6079859496950169 (- 51))\<rparr>]\<rparr>),
      (''floral'',
       \<lparr>topL = [],
        heart = [\<lparr>name = ''Geranium EO (Egyptian)'', percent = [10, 20],
                    supplier = ''Cairo Aromatic'', normalizedPct = Some (Dbl 6755399441055744 (- 52))\<rparr>,
                  \<lparr>name = ''Ylang Ylang Extra'', percent = [6, 10],
                    supplier = ''Bulkaroma'', normalizedPct = Some (Dbl 7205759403792794 (- 53))\<rparr>],
        base = []\<rparr>)]"

definition twice_st :: "gen_state" where
  "twice_st =
     \<lparr>st_rng = Dbl 8785170253479936 (- 22),
      st_used = map name
        [db_woody_base ! 1,
         db_woody_top ! 3,
         db_woody_heart ! 1,
         db_woody_base ! 2,
         db_woody_top ! 0,
         db_woody_heart ! 0,
         db_woody_base ! 3,
         db_floral_heart ! 4,
         db_floral_heart ! 2,
         db_woody_heart ! 3,
         db_woody_heart ! 2],
      st_picked =
        [db_woody_base ! 1,
         db_woody_top ! 3,
         db_woody_heart ! 1,
         db_woody_base ! 2,
         db_woody_top ! 0,
         db_woody_heart ! 0,
         db_woody_base ! 3,
         db_floral_heart ! 4,
         db_floral_heart ! 2,
         db_woody_heart ! 3,
         db_woody_heart ! 2],
      st_ifra = []\<rparr>"

definition quiet_f0 :: "formula" where
  "quiet_f0 =
     [(''smoky'',
       \<lparr>topL = [\<lparr>name = ''Black Pepper CO2'', percent = [10, 20],
                   supplier = ''Fraterworks'', normalizedPct = None\<rparr>],
        heart = [\<lparr>name = ''Guaiac Wood EO'', percent = [21, 39],
                    supplier = ''Bulkaroma'', normalizedPct = Some (Dbl 6755399441055744 (- 51))\<rparr>],
        base = [\<lparr>name = ''Vetiver EO (Haiti)'', percent = [35, 65],
                   supplier = ''Bulkaroma'', normalizedPct = None\<rparr>,
                 \<lparr>name = ''Labdanum Absolute'', percent = [20, 36],
                   supplier = ''Fraterworks'', normalizedPct = Some (Dbl 6305039478318694 (- 51))\<rparr>]\<rparr>),
      (''powdery'',
       \<lparr>topL = [\<lparr>name = ''Bergamot EO'', percent = [20, 36],
                   supplier = ''Fraterworks'', normalizedPct = Some (Dbl 6305039478318695 (- 51))\<rparr>],
        heart = [\<lparr>name = ''Heliotropin'', percent = [20, 36],
                    supplier = ''Fraterworks'', normalizedPct = Some (Dbl 6305039478318694 (- 51))\<rparr>],
        base = [\<lparr>name = ''Musk (Ethylene Brassylate)'', percent = [27, 51],
                   supplier = ''Fraterworks'', normalizedPct = Some (Dbl 8782019273372467 (- 51))\<rparr>,
                 \<lparr>name = ''Tonka Bean Absolute'', percent = [7, 13],
                   supplier = ''Fraterworks'', normalizedPct = Some (Dbl 4503599627370496 (- 52))\<rparr>]\<rparr>),
      (''citrus'',
       \<lparr>topL = [],
        heart = [\<lparr>name = ''Neroli EO'', percent = [10, 20],
                    supplier = ''A. Fakhry & Co'', normalizedPct = Some (Dbl 6755399441055744 (- 52))\<rparr>],
        base = []\<rparr>)]"

definition quiet_st :: "gen_state" where
  "quiet_st =
     \<lparr>st_rng = Dbl 6903405683408896 (- 22),
      st_used = map name
        [db_smoky_base ! 0,
         db_smoky_top ! 0,
         db_smoky_heart ! 2,
         db_smoky_base ! 1,
         db_powdery_top ! 0,
         db_powdery_heart ! 1,
         db_powdery_base ! 0,
         db_citrus_heart ! 0,
         db_powdery_base ! 1],
      st_picked =
        [db_smoky_base ! 0,
         db_smoky_top ! 0,
         db_smoky_heart ! 2,
         db_smoky_base ! 1,
         db_powdery_top ! 0,
         db_powdery_heart ! 1,
         db_powdery_base ! 0,
         db_citrus_heart ! 0,
         db_powdery_base ! 1],
      st_ifra = []\<rparr>"

section \<open>Helper lemmas: sorting, keyed formulas, top layers\<close>

lemma set_insort_js: "set (insort_js lt x ys) = insert x (set ys)"
  by (induction ys) auto

lemma set_sort_js: "set (sort_js lt xs) = set xs"
  by (induction xs) (simp_all add: sort_js_def set_insort_js)

lemma length_insort_js: "length (insort_js lt x ys) = Suc (length ys)"
  by (induction ys) auto

lemma length_sort_js: "length (sort_js lt xs) = length xs"
  by (induction xs) (simp_all add: sort_js_def length_insort_js)

lemma map_of_formula_set:
  "map_of (formula_set k v f) k' = (if k' = k then Some v else map_of f k')"
  by (induction f) auto

lemma tops_mapHeartBase: "tops (mapHeartBase g f) = tops f"
  by (induction f) (auto simp: tops_def mapHeartBase_def)

lemma tops_setItem: "l \<noteq> Top \<Longrightarrow> tops (setItem fam l idx item f) = tops f"
  by (induction f) (auto simp: tops_def setItem_def split: layer.splits)

lemma tops_passA: "tops (passA hn f) = tops f"
  by (simp add: passA_def tops_mapHeartBase)

lemma tops_passB: "tops (passB hn f) = tops f"
  by (simp add: passB_def tops_mapHeartBase)

lemma heavyIn_layer: "h \<in> set (heavyIn fam l idx xs) \<Longrightarrow> h_layer h = l \<and> h_fam h = fam"
  by (induction xs arbitrary: idx) (auto simp: Let_def split: if_splits)

lemma heavyItems_layer: "h \<in> set (heavyItems f) \<Longrightarrow> h_layer h \<noteq> Top"
  by (auto simp: heavyItems_def dest!: heavyIn_layer)

lemma tops_reduceLoop:
  "\<forall>h\<in>set hs. h_layer h \<noteq> Top \<Longrightarrow> tops (fst (reduceLoop hn n hs red acc)) = tops (fst acc)"
  by (induction hs arbitrary: red acc) (auto simp: Let_def tops_setItem split: option.splits)

lemma tops_passC: "tops (fst (passC hn acc)) = tops (fst acc)"
  by (auto simp: passC_def Let_def set_sort_js heavyItems_layer intro!: tops_reduceLoop)

lemma tops_dampen: "tops (fst (dampen acc gm)) = tops (fst acc)"
  by (cases acc; cases gm) (simp add: tops_mapHeartBase)

lemma tops_foldl_dampen: "tops (fst (foldl dampen acc gs)) = tops (fst acc)"
  by (induction gs arbitrary: acc) (simp_all add: tops_dampen)

lemma tops_passD: "tops (fst (passD acc)) = tops (fst acc)"
  by (simp add: passD_def tops_foldl_dampen)

lemma tops_resolve: "tops (fst (resolve hn acc)) = tops (fst acc)"
  by (simp add: resolve_def passABC_def tops_passD tops_passC tops_passB tops_passA)

lemma nth_opt_mem: "nth_opt xs i = Some t \<Longrightarrow> t \<in> set xs"
  by (auto simp: nth_opt_def split: if_splits)

lemma find_mem: "find P xs = Some x \<Longrightarrow> x \<in> set xs \<and> P x"
  by (induction xs) (auto split: if_splits)

lemma domTopOf_plain: "e \<in> set (fst (domTopOf tps st)) \<Longrightarrow> \<exists>t\<in>set tps. e = plain t"
  by (auto simp: domTopOf_def Let_def split_def set_sort_js
      split: if_splits option.splits dest!: nth_opt_mem find_mem)

lemma topAt_formula_set:
  "topAt (formula_set k v f) k' = (if k' = k then Some (topL v) else topAt f k')"
  by (simp add: topAt_def map_of_formula_set)

lemma topAt_pushItem:
  "l \<noteq> Top \<Longrightarrow> topAt (pushItem fam l item f) k = Some t \<Longrightarrow> t = [] \<or> topAt f k = Some t"
  by (cases l) (auto simp: pushItem_def topAt_def map_of_formula_set emptyLayers_def Let_def
      split: option.splits if_splits)

lemma topAt_tops: "topAt f k = map_of (tops f) k"
  by (induction f) (auto simp: topAt_def tops_def)

lemma topAt_stepDominant:
  "topAt (fst (stepDominant d s a ctx hero ([], st))) d = Some t \<Longrightarrow> e \<in> set t
   \<Longrightarrow> \<exists>r\<in>set (dbLayer d Top). e = plain r"
  by (auto simp: stepDominant_def topAt_formula_set topAt_def dbLayer_def Let_def split_def
      split: option.splits dest!: domTopOf_plain)

lemma topAt_stepSecondary:
  "d \<noteq> s \<Longrightarrow> topAt (fst (stepSecondary d s a hero fs)) d = topAt (fst fs) d"
  by (cases fs) (auto simp: stepSecondary_def topAt_formula_set Let_def split_def split: option.splits)

lemma topAt_stepAccent:
  "d \<noteq> a \<Longrightarrow> topAt (fst (stepAccent d s a hero fs)) d = topAt (fst fs) d"
  by (cases fs) (auto simp: stepAccent_def topAt_formula_set Let_def split_def split: option.splits)

lemma topAt_addFill:
  "topAt (fst (addFill s a fs c)) k = Some t \<Longrightarrow> t = [] \<or> topAt (fst fs) k = Some t"
proof -
  assume h: "topAt (fst (addFill s a fs c)) k = Some t"
  obtain f st where fs: "fs = (f, st)" by (cases fs)
  obtain x sc where c: "c = (x, sc)" by (cases c)
  obtain fam l where eq: "fst (addFill s a fs c) = pushItem fam l (supportItem x) f" and l: "l \<noteq> Top"
    by (simp add: fs c placeFill_def fillLayer_def)
  from h have "topAt (pushItem fam l (supportItem x) f) k = Some t" by (simp only: eq)
  then show ?thesis using topAt_pushItem [OF l] by (auto simp: fs)
qed

lemma topAt_foldl_addFill:
  "topAt (fst (foldl (addFill s a) fs cs)) k = Some t \<Longrightarrow> t = [] \<or> topAt (fst fs) k = Some t"
proof (induction cs arbitrary: fs)
  case Nil
  then show ?case by simp
next
  case (Cons c cs)
  from Cons have "t = [] \<or> topAt (fst (addFill s a fs c)) k = Some t" by simp
  then show ?case using topAt_addFill by blast
qed

lemma topAt_stepFloor:
  "topAt (fst (stepFloor d s a fs)) k = Some t \<Longrightarrow> t = [] \<or> topAt (fst fs) k = Some t"
  by (cases fs) (auto simp: stepFloor_def Let_def split_def split: if_splits dest: topAt_foldl_addFill)

lemma topAt_inject:
  "topAt (fst (fst (inject d acc c))) k = Some t \<Longrightarrow> t = [] \<or> topAt (fst (fst acc)) k = Some t"
proof -
  assume h: "topAt (fst (fst (inject d acc c))) k = Some t"
  obtain f st ns where acc: "acc = ((f, st), ns)" by (cases acc) auto
  have l: "Base \<noteq> Top" by simp
  from h show ?thesis using topAt_pushItem [OF l] by (simp add: acc)
qed

lemma topAt_foldl_inject:
  "topAt (fst (fst (foldl (inject d) acc cs))) k = Some t \<Longrightarrow> t = [] \<or> topAt (fst (fst acc)) k = Some t"
proof (induction cs arbitrary: acc)
  case Nil
  then show ?case by simp
next
  case (Cons c cs)
  from Cons have "t = [] \<or> topAt (fst (fst (inject d acc c))) k = Some t" by simp
  then show ?case using topAt_inject by blast
qed

lemma topAt_stepStructure:
  "topAt (fst (fst (stepStructure d co fs))) k = Some t \<Longrightarrow> t = [] \<or> topAt (fst fs) k = Some t"
  by (cases fs) (auto simp: stepStructure_def Let_def split: if_splits dest: topAt_foldl_inject)

lemma formula_finalOutput: "formula (fst (finalOutput st sp acc)) = fst acc"
  by (cases acc) simp

lemma formula_generate:
  "formula (fst (generateLocalFormula d s a code co oc it m))
   = fst (resolve (map_option name (fst (selection d s a code co oc it)))
            (fst (fst (snd (selection d s a code co oc it))), snd (snd (selection d s a code co oc it))))"
  by (cases "selection d s a code co oc it") (auto simp: generateLocalFormula_def formula_finalOutput)

lemma selection_formula:
  "fst (fst (snd (selection d s a code co oc it)))
   = fst (fst (stepStructure d co (stepFloor d s a
       (pickFamilies d s a (computeContext co oc it) (fst (selectHero d (seedOf code)))
          (snd (selectHero d (seedOf code)))))))"
  by (cases "selectHero d (seedOf code)") (simp add: selection_def)

lemma topAt_selection:
  assumes "d \<noteq> s" "d \<noteq> a"
    and "topAt (fst (fst (snd (selection d s a code co oc it)))) d = Some t" "e \<in> set t"
  shows "\<exists>r\<in>set (dbLayer d Top). e = plain r"
proof -
  let ?ctx = "computeContext co oc it"
  let ?hero = "fst (selectHero d (seedOf code))"
  let ?s0 = "snd (selectHero d (seedOf code))"
  let ?st0 = "\<lparr>st_rng = ?s0, st_used = [], st_picked = [], st_ifra = []\<rparr>"
  let ?f3 = "stepDominant d s a ?ctx ?hero ([], ?st0)"
  have p: "topAt (fst (pickFamilies d s a ?ctx ?hero ?s0)) d = topAt (fst ?f3) d"
    using assms(1,2) by (simp add: pickFamilies_def topAt_stepAccent topAt_stepSecondary)
  from assms(3) have "t = [] \<or> topAt (fst (pickFamilies d s a ?ctx ?hero ?s0)) d = Some t"
    by (auto simp: selection_formula dest!: topAt_stepStructure topAt_stepFloor)
  with assms(4) have "topAt (fst ?f3) d = Some t" by (auto simp: p)
  with assms(4) show ?thesis using topAt_stepDominant by blast
qed

section \<open>Helper lemmas: passes that change nothing, ingredient counts\<close>

lemma mapHeartBase_id:
  "\<forall>item\<in>set (heartBase f). \<forall>fam. g fam item = item \<Longrightarrow> mapHeartBase g f = f"
proof (induction f)
  case Nil
  then show ?case by (simp add: mapHeartBase_def)
next
  case (Cons e f)
  obtain fam l where e: "e = (fam, l)" by (cases e)
  from Cons.prems have h: "map (g fam) (heart l) = heart l" "map (g fam) (base l) = base l"
    by (auto simp: heartBase_def e intro!: map_idI)
  from Cons show ?case
    by (simp add: mapHeartBase_def heartBase_def e h)
qed

lemma passA_id: "highDom f \<le> 1 \<Longrightarrow> passA hn f = f"
  by (simp add: passA_def)

lemma passB_id: "\<not> list_ex overCap (heartBase f) \<Longrightarrow> passB hn f = f"
  unfolding passB_def
  by (rule mapHeartBase_id) (auto simp: capItem_def overCap_def list_ex_iff)

lemma length_heavyIn:
  "length (heavyIn fam l idx xs) = length (filter overFive xs)"
  by (induction xs arbitrary: idx) (auto simp: Let_def overFive_def)

lemma length_heavyItems: "length (heavyItems f) = length (filter overFive (heartBase f))"
  by (induction f) (auto simp: heavyItems_def heartBase_def length_heavyIn)

lemma passC_id: "length (filter overFive (heartBase f)) \<le> 2 \<Longrightarrow> passC hn (f, ns) = (f, ns)"
  by (simp add: passC_def length_heavyItems)

lemma foldl_dampen_id: "list_all recordedOnce gs \<Longrightarrow> foldl dampen acc gs = acc"
proof (induction gs arbitrary: acc)
  case Nil
  then show ?case by simp
next
  case (Cons gm gs)
  obtain g ms where gm: "gm = (g, ms)" by (cases gm)
  obtain f ns where acc: "acc = (f, ns)" by (cases acc)
  from Cons.prems have "dampen acc gm = acc" by (simp add: gm acc recordedOnce_def)
  with Cons show ?case by simp
qed

lemma passD_id: "list_all recordedOnce (usedGroups f) \<Longrightarrow> passD (f, ns) = (f, ns)"
  by (simp add: passD_def foldl_dampen_id)

lemma foldl_addCount: "foldl addCount n f = n + sum_list (map (layersCount \<circ> snd) f)"
  by (induction f arbitrary: n) auto

lemma count_sum: "totalIngredientsCount f = sum_list (map (layersCount \<circ> snd) f)"
  by (simp add: totalIngredientsCount_def foldl_addCount)

lemma count_formula_set:
  "totalIngredientsCount (formula_set k v f) + (case map_of f k of None \<Rightarrow> 0 | Some v' \<Rightarrow> layersCount v')
   = totalIngredientsCount f + layersCount v"
  by (induction f) (auto simp: count_sum)

lemma count_pushItem: "totalIngredientsCount (pushItem fam l item f) = Suc (totalIngredientsCount f)"
proof -
  define cur where "cur = (case map_of f fam of None \<Rightarrow> emptyLayers | Some v \<Rightarrow> v)"
  define new where "new = (case l of Top \<Rightarrow> cur\<lparr>topL := topL cur @ [item]\<rparr>
            | Heart \<Rightarrow> cur\<lparr>heart := heart cur @ [item]\<rparr>
            | Base \<Rightarrow> cur\<lparr>base := base cur @ [item]\<rparr>)"
  have "totalIngredientsCount (formula_set fam new f) + layersCount cur
      = totalIngredientsCount f + layersCount new"
    using count_formula_set [of fam new f]
    by (simp add: cur_def layersCount_def emptyLayers_def split: option.splits)
  moreover have "layersCount new = Suc (layersCount cur)"
    by (cases l) (simp_all add: new_def layersCount_def)
  moreover have "pushItem fam l item f = formula_set fam new f"
    by (cases l) (simp_all add: pushItem_def cur_def new_def Let_def)
  ultimately show ?thesis by simp
qed

lemma count_foldl_placeFill:
  "totalIngredientsCount (foldl (placeFill s a) f cs) = totalIngredientsCount f + length cs"
  by (induction cs arbitrary: f) (simp_all add: placeFill_def count_pushItem)

lemma fst_foldl_addFill: "fst (foldl (addFill s a) fs cs) = foldl (placeFill s a) (fst fs) (map fst cs)"
proof (induction cs arbitrary: fs)
  case Nil
  then show ?case by simp
next
  case (Cons c cs)
  then show ?case by (cases fs; cases c) simp
qed

lemma scoreFill_fst: "map fst (fst (scoreFill fams idx cs s)) = cs"
  by (induction cs arbitrary: idx s) (auto simp: Let_def split_def)

lemma stepFloor_fills:
  "fst (stepFloor d s a (f, st)) = foldl (placeFill s a) f
     (if List.member heavyFamilies d \<and> totalIngredientsCount f < 9
      then map fst (take (min (length (fillSources s a (st_used st))) (9 - totalIngredientsCount f))
             (sort_js byScore (fst (scoreFill [d, s, a] 0 (fillSources s a (st_used st)) (st_rng st)))))
      else [])"
proof -
  have len: "length (fst (scoreFill [d, s, a] 0 (fillSources s a (st_used st)) (st_rng st)))
      = length (fillSources s a (st_used st))"
    using arg_cong [OF scoreFill_fst, of length] by simp
  show ?thesis
    by (simp add: stepFloor_def Let_def split_def fst_foldl_addFill length_sort_js len)
qed

lemma stepFloor_count:
  assumes "List.member heavyFamilies d" "9 \<le> floorBudget s a fs"
  shows "9 \<le> totalIngredientsCount (fst (stepFloor d s a fs))"
proof -
  obtain f st where fs: "fs = (f, st)" by (cases fs)
  have len: "length (fst (scoreFill [d, s, a] 0 (fillSources s a (st_used st)) (st_rng st)))
      = length (fillSources s a (st_used st))"
    using arg_cong [OF scoreFill_fst, of length] by simp
  from assms show ?thesis
    by (auto simp: fs stepFloor_fills count_foldl_placeFill floorBudget_def length_sort_js len)
qed

lemma count_foldl_inject:
  "totalIngredientsCount (fst (fst acc)) \<le> totalIngredientsCount (fst (fst (foldl (inject d) acc cs)))"
proof (induction cs arbitrary: acc)
  case Nil
  then show ?case by simp
next
  case (Cons c cs)
  obtain f st ns where acc: "acc = ((f, st), ns)" by (cases acc) auto
  have "totalIngredientsCount (fst (fst acc)) \<le> totalIngredientsCount (fst (fst (inject d acc c)))"
    by (simp add: acc count_pushItem)
  with Cons.IH [of "inject d acc c"] show ?case by simp
qed

lemma stepStructure_count:
  "totalIngredientsCount (fst fs) \<le> totalIngredientsCount (fst (fst (stepStructure d co fs)))"
  using count_foldl_inject [of "(fs, [])"]
  by (cases fs) (auto simp: stepStructure_def Let_def)

lemma count_mapHeartBase: "totalIngredientsCount (mapHeartBase g f) = totalIngredientsCount f"
  by (induction f) (auto simp: count_sum mapHeartBase_def layersCount_def)

lemma count_setItem: "totalIngredientsCount (setItem fam l idx item f) = totalIngredientsCount f"
  by (induction f) (auto simp: count_sum setItem_def layersCount_def split: layer.splits)

lemma count_reduceLoop:
  "totalIngredientsCount (fst (reduceLoop hn n hs red acc)) = totalIngredientsCount (fst acc)"
  by (induction hs arbitrary: red acc) (auto simp: Let_def count_setItem split: option.splits)

lemma count_passC: "totalIngredientsCount (fst (passC hn acc)) = totalIngredientsCount (fst acc)"
  by (simp add: passC_def Let_def count_reduceLoop)

lemma count_foldl_dampen:
  "totalIngredientsCount (fst (foldl dampen acc gs)) = totalIngredientsCount (fst acc)"
proof (induction gs arbitrary: acc)
  case Nil
  then show ?case by simp
next
  case (Cons gm gs)
  have "totalIngredientsCount (fst (dampen acc gm)) = totalIngredientsCount (fst acc)"
    by (cases acc; cases gm) (simp add: count_mapHeartBase)
  with Cons show ?case by simp
qed

lemma count_resolve: "totalIngredientsCount (fst (resolve hn acc)) = totalIngredientsCount (fst acc)"
  by (simp add: resolve_def passABC_def passD_def count_foldl_dampen count_passC passA_def passB_def
      count_mapHeartBase)

lemma set_if_nil: "set xs \<subseteq> S \<Longrightarrow> set (if c then xs else []) \<subseteq> S"
  by auto

lemma fillSources_mem:
  "c \<in> set (fillSources s a us) \<Longrightarrow>
     isFill us c \<and> c \<in> set (dbLayer s Heart @ dbLayer a Heart @ dbLayer s Base @ dbLayer a Base)"
  by (auto simp: fillSources_def)

lemma name_scaleBand: "name (scaleBand c item) = name item"
  by (simp add: scaleBand_def)

lemma mapHeartBase_comp:
  "mapHeartBase g (mapHeartBase h f) = mapHeartBase (\<lambda>fam item. g fam (h fam item)) f"
  by (induction f) (auto simp: mapHeartBase_def)

lemma dampenWeaker_Cons:
  "\<not> List.member ws w \<Longrightarrow>
     dampenWeaker ws fam (dampenItem w fam item) = dampenWeaker (w # ws) fam item"
  by (auto simp: dampenWeaker_def dampenItem_def name_scaleBand)

lemma mapHeartBase_dampen_Cons:
  assumes "\<not> List.member ws w"
  shows "mapHeartBase (dampenWeaker ws) (mapHeartBase (dampenItem w) f)
     = mapHeartBase (dampenWeaker (w # ws)) f"
proof -
  have "(\<lambda>fam item. dampenWeaker ws fam (dampenItem w fam item)) = dampenWeaker (w # ws)"
    using assms by (intro ext) (rule dampenWeaker_Cons)
  then show ?thesis by (simp add: mapHeartBase_comp)
qed

lemma dampenWeaker_Nil: "mapHeartBase (dampenWeaker []) f = f"
  by (rule mapHeartBase_id) (simp add: dampenWeaker_def)

lemma recordedTwice_pair: "recordedTwice (g, ms) = (1 < length ms)"
  by (simp add: recordedTwice_def)

lemma secondRecorded_pair: "secondRecorded (g, ms) = ms ! 1"
  by (simp add: secondRecorded_def)

lemma foldl_dampen_weaker:
  "distinct (map secondRecorded (filter recordedTwice gs)) \<Longrightarrow>
   foldl dampen (f, ns) gs
     = (mapHeartBase (dampenWeaker (map secondRecorded (filter recordedTwice gs))) f,
        ns @ map overlapNote (filter recordedTwice gs))"
proof (induction gs arbitrary: f ns)
  case Nil
  then show ?case by (simp add: dampenWeaker_Nil)
next
  case (Cons gm gs)
  obtain g ms where gm: "gm = (g, ms)" by (cases gm)
  show ?case
  proof (cases "1 < length ms")
    case True
    with Cons.prems have d: "distinct (map secondRecorded (filter recordedTwice gs))"
      and n: "\<not> List.member (map secondRecorded (filter recordedTwice gs)) (ms ! 1)"
      by (simp_all add: gm recordedTwice_pair secondRecorded_pair)
    from True mapHeartBase_dampen_Cons [OF n, of f] show ?thesis
      by (simp add: gm Cons.IH [OF d] recordedTwice_pair secondRecorded_pair)
  next
    case False
    with Cons.prems have d: "distinct (map secondRecorded (filter recordedTwice gs))"
      by (simp add: gm recordedTwice_pair)
    from False show ?thesis
      by (simp add: gm Cons.IH [OF d] recordedTwice_pair)
  qed
qed

lemma recorded_okD: "recorded_ok u \<Longrightarrow> (g, ms) \<in> set u \<Longrightarrow> n \<in> set ms \<Longrightarrow> inGroup g n"
  by (force simp: recorded_ok_def)

lemma table_names_distinct: "distinct (concat (map snd functionalGroups))"
  by code_simp

lemma listed_once:
  "distinct (concat (map snd T)) \<Longrightarrow> (g, m) \<in> set T \<Longrightarrow> (g', m') \<in> set T \<Longrightarrow>
     n \<in> set m \<Longrightarrow> n \<in> set m' \<Longrightarrow> g = g'"
proof (induction T)
  case Nil
  then show ?case by simp
next
  case (Cons e T)
  obtain k ms where e: "e = (k, ms)" by (cases e)
  from Cons.prems(1) have d: "distinct (concat (map snd T))"
    and int: "set ms \<inter> (\<Union>a\<in>set T. set (snd a)) = {}"
    by (simp_all add: e)
  have disj: "x \<notin> set m0" if "x \<in> set ms" "(y, m0) \<in> set T" for x y m0
  proof
    assume "x \<in> set m0"
    with that(2) have "x \<in> (\<Union>a\<in>set T. set (snd a))" by force
    with that(1) int show False by blast
  qed
  from Cons.prems(2,3) consider "(g, m) = (k, ms)" "(g', m') = (k, ms)"
    | "(g, m) = (k, ms)" "(g', m') \<in> set T" | "(g, m) \<in> set T" "(g', m') = (k, ms)"
    | "(g, m) \<in> set T" "(g', m') \<in> set T"
    by (auto simp: e)
  then show ?case
  proof cases
    case 1
    then show ?thesis by simp
  next
    case 2
    with disj [of n g' m'] Cons.prems(4,5) show ?thesis by simp
  next
    case 3
    with disj [of n g m] Cons.prems(4,5) show ?thesis by simp
  next
    case 4
    with Cons.IH [OF d] Cons.prems(4,5) show ?thesis by simp
  qed
qed

lemma inGroup_unique: "inGroup g n \<Longrightarrow> inGroup g' n \<Longrightarrow> g = g'"
  unfolding inGroup_def using listed_once [OF table_names_distinct] by blast

lemma keys_recordIn: "set (map fst (recordIn g n u)) = insert g (set (map fst u))"
proof (induction u)
  case Nil
  then show ?case by simp
next
  case (Cons e u)
  obtain k ms where e: "e = (k, ms)" by (cases e)
  from Cons show ?case by (cases "k = g") (simp_all add: e insert_commute)
qed

lemma distinct_recordIn: "distinct (map fst u) \<Longrightarrow> distinct (map fst (recordIn g n u))"
proof (induction u)
  case Nil
  then show ?case by simp
next
  case (Cons e u)
  obtain k ms where e: "e = (k, ms)" by (cases e)
  show ?case
  proof (cases "k = g")
    case True
    with Cons.prems show ?thesis by (simp add: e)
  next
    case False
    from Cons have "distinct (map fst (recordIn g n u))" by simp
    moreover from Cons.prems False have "k \<notin> set (map fst (recordIn g n u))"
      unfolding keys_recordIn by (simp add: e)
    ultimately show ?thesis using False by (simp add: e)
  qed
qed

lemma set_recordIn:
  "(g', ms) \<in> set (recordIn g n u) \<Longrightarrow>
     (g', ms) \<in> set u \<or> (g' = g \<and> (ms = [n] \<or> (\<exists>ms0. (g, ms0) \<in> set u \<and> ms = ms0 @ [n])))"
  by (induction u) (auto split: if_splits)

lemma recorded_ok_recordIn:
  assumes "recorded_ok u" "inGroup g n"
  shows "recorded_ok (recordIn g n u)"
proof -
  have "distinct (map fst (recordIn g n u))"
    using assms(1) by (simp add: recorded_ok_def distinct_recordIn)
  moreover have "inGroup g' m" if "(g', ms) \<in> set (recordIn g n u)" "m \<in> set ms" for g' ms m
  proof -
    from set_recordIn [OF that(1)] consider "(g', ms) \<in> set u" | "g' = g" "ms = [n]"
      | ms0 where "g' = g" "(g, ms0) \<in> set u" "ms = ms0 @ [n]"
      by blast
    then show ?thesis
    proof cases
      case 1
      with assms(1) that(2) show ?thesis by (blast intro: recorded_okD)
    next
      case 2
      with assms(2) that(2) show ?thesis by simp
    next
      case 3
      with assms that(2) show ?thesis by (auto intro: recorded_okD)
    qed
  qed
  ultimately show ?thesis unfolding recorded_ok_def by blast
qed

lemma recorded_ok_recordGroups:
  "set T \<subseteq> set functionalGroups \<Longrightarrow> recorded_ok u \<Longrightarrow> recorded_ok (foldl (recordGroup n) u T)"
proof (induction T arbitrary: u)
  case Nil
  then show ?case by simp
next
  case (Cons gm T)
  obtain g members where gm: "gm = (g, members)" by (cases gm)
  have "recorded_ok (recordGroup n u gm)"
  proof (cases "List.member members n")
    case True
    with Cons.prems have "inGroup g n" by (auto simp: inGroup_def gm)
    with Cons.prems True show ?thesis by (simp add: gm recorded_ok_recordIn)
  next
    case False
    with Cons.prems show ?thesis by (simp add: gm)
  qed
  with Cons show ?case by simp
qed

lemma recorded_ok_foldl: "recorded_ok u \<Longrightarrow> recorded_ok (foldl recordItem u ns)"
  by (induction ns arbitrary: u) (simp_all add: recordItem_def recorded_ok_recordGroups)

lemma recorded_ok_Nil: "recorded_ok []"
  by (simp add: recorded_ok_def)

lemma recorded_ok_usedGroups: "recorded_ok (usedGroups f)"
  unfolding usedGroups_def by (rule recorded_ok_foldl) (rule recorded_ok_Nil)

lemma distinct_second:
  assumes "recorded_ok u"
  shows "distinct (map secondRecorded (filter recordedTwice u))"
proof -
  from assms have du: "distinct u" and inj: "inj_on fst (set u)"
    by (auto simp: recorded_ok_def distinct_map)
  have "inj_on secondRecorded (set (filter recordedTwice u))"
  proof (rule inj_onI)
    fix x y
    assume x: "x \<in> set (filter recordedTwice u)" and y: "y \<in> set (filter recordedTwice u)"
      and eq: "secondRecorded x = secondRecorded y"
    have sec: "inGroup (fst z) (secondRecorded z)" if "z \<in> set (filter recordedTwice u)" for z
    proof -
      obtain g ms where z: "z = (g, ms)" by (cases z)
      from that have "(g, ms) \<in> set u" "ms ! 1 \<in> set ms"
        by (simp_all add: z recordedTwice_pair)
      with assms show ?thesis by (simp add: z secondRecorded_pair recorded_okD)
    qed
    from x have "inGroup (fst x) (secondRecorded x)" by (rule sec)
    moreover from y have "inGroup (fst y) (secondRecorded y)" by (rule sec)
    ultimately have "fst x = fst y" using eq inGroup_unique by simp
    with inj x y show "x = y" by (auto dest: inj_onD)
  qed
  with du show ?thesis by (simp add: distinct_map)
qed

lemma first_not_weaker:
  assumes "recorded_ok u" "map_of u g = Some ms" "1 < length ms" "ms ! 0 \<noteq> ms ! 1"
  shows "\<not> List.member (map secondRecorded (filter recordedTwice u)) (ms ! 0)"
proof
  assume "List.member (map secondRecorded (filter recordedTwice u)) (ms ! 0)"
  then obtain g' ms' where m: "(g', ms') \<in> set u" "1 < length ms'" "ms' ! 1 = ms ! 0"
    by (auto simp: recordedTwice_def secondRecorded_def)
  from assms(2) have g: "(g, ms) \<in> set u" by (rule map_of_SomeD)
  from m(2) have "ms' ! 1 \<in> set ms'" by simp
  with assms(1) m(1) have "inGroup g' (ms' ! 1)" by (rule recorded_okD)
  moreover from assms(3) have "0 < length ms" by (cases ms) simp_all
  then have "ms ! 0 \<in> set ms" by (rule nth_mem)
  with assms(1) g have "inGroup g (ms ! 0)" by (rule recorded_okD)
  ultimately have "g' = g" using m(3) inGroup_unique by simp
  with m g assms(1) have "ms' = ms" by (auto simp: recorded_ok_def dest: eq_key_imp_eq_value)
  with m assms(4) show False by simp
qed
section \<open>Helper lemmas: rounding\<close>

text \<open>A rounded quotient is not far below the exact one, so a token of 6.6 or more is above 6.5
  and a token of 5.1 or more is above 5.\<close>

lemma bits_bounds: "0 < n \<Longrightarrow> 2 ^ (bits n - 1) \<le> n \<and> n < 2 ^ bits n"
proof (induction n rule: bits.induct)
  case (1 n)
  show ?case
  proof (cases "n = 1")
    case True
    then show ?thesis by (simp add: bits.simps [of 1] bits.simps [of 0])
  next
    case False
    with 1 have pos: "0 < drop_bit 1 n" by (simp add: drop_bit_eq_div)
    with 1 have IH: "2 ^ (bits (drop_bit 1 n) - 1) \<le> drop_bit 1 n" "drop_bit 1 n < 2 ^ bits (drop_bit 1 n)"
      by auto
    have b: "bits n = Suc (bits (drop_bit 1 n))" using 1(2) by (subst bits.simps) simp
    have bp: "0 < bits (drop_bit 1 n)" using pos by (subst bits.simps) simp
    from IH bp show ?thesis
      by (cases "bits (drop_bit 1 n)") (auto simp: b drop_bit_eq_div)
  qed
qed

lemma bits_pos: "0 < n \<Longrightarrow> 0 < bits n"
  by (subst bits.simps) simp

lemma powi_split: "e \<le> a \<Longrightarrow> (2::rat) powi a = 2 ^ nat (a - e) * 2 powi e"
proof -
  assume "e \<le> a"
  then have "(2::rat) powi a = 2 powi (int (nat (a - e)) + e)" by simp
  also have "\<dots> = 2 powi int (nat (a - e)) * 2 powi e" by (rule power_int_add) simp
  finally show ?thesis by (simp only: power_int_of_nat)
qed

lemma val_aligned: "e \<le> expn x \<Longrightarrow> val x = of_int (aligned x e) * 2 powi e"
  by (simp add: val_def aligned_def push_bit_eq_mult powi_split [of e "expn x"])

lemma d_less_val: "d_less x y \<longleftrightarrow> val x < val y"
proof -
  define e where "e = min (expn x) (expn y)"
  have c: "(0::rat) < 2 powi e" by (simp add: zero_less_power_int)
  have "val x = of_int (aligned x e) * 2 powi e" "val y = of_int (aligned y e) * 2 powi e"
    by (simp_all add: val_aligned e_def)
  with c show ?thesis by (simp add: d_less_def e_def [symmetric] Let_def)
qed

lemma val_Dbl: "val (Dbl m e) = of_int m * 2 powi e"
  by (simp add: val_def)

lemma norm_round_lower:
  assumes "0 < t"
  shows "of_int t * (1 - 1 / 2 ^ 52) * 2 powi e \<le> val (norm_round t e)"
proof (cases "bits t \<le> 53")
  case True
  have "val (norm_round t e) = of_int t * 2 powi e"
    using assms True
    by (simp add: norm_round_def Let_def val_Dbl push_bit_eq_mult powi_split [of "e - int (53 - bits t)" e])
  moreover have "of_int t * (1 - 1 / 2 ^ 52) * (2::rat) powi e \<le> of_int t * 2 powi e"
    using assms by (intro mult_right_mono) (simp_all add: zero_less_power_int less_imp_le)
  ultimately show ?thesis by simp
next
  case False
  define k where "k = bits t - 53"
  define q where "q = drop_bit k t"
  from False have k: "0 < k" "bits t - 1 = k + 52" by (simp_all add: k_def)
  from bits_bounds [OF assms] k have big: "2 ^ (k + 52) \<le> t" by simp
  have "t = q * 2 ^ k + t mod 2 ^ k"
    unfolding q_def drop_bit_eq_div by (rule div_mult_mod_eq [symmetric])
  moreover have "t mod 2 ^ k < 2 ^ k" by simp
  ultimately have "t - 2 ^ k \<le> q * 2 ^ k" by linarith
  then have "(of_int (t - 2 ^ k) :: rat) \<le> of_int (q * 2 ^ k)" by (simp only: of_int_le_iff)
  then have q1: "(of_int t :: rat) - 2 ^ k \<le> of_int q * 2 ^ k" by simp
  from big have "(of_int (2 ^ (k + 52)) :: rat) \<le> of_int t" by (simp only: of_int_le_iff)
  then have "(2::rat) ^ k * 2 ^ 52 \<le> of_int t" by (simp add: power_add)
  then have "(2::rat) ^ k \<le> of_int t / 2 ^ 52" by (simp add: pos_le_divide_eq)
  with q1 have q2: "(of_int t :: rat) * (1 - 1 / 2 ^ 52) \<le> of_int q * 2 ^ k"
    by (simp add: algebra_simps)
  have ge: "of_int q * 2 ^ k * (2::rat) powi e \<le> val (norm_round t e)"
  proof -
    have e1: "(2::rat) powi (e + int k) = 2 ^ k * 2 powi e"
      using powi_split [of e "e + int k"] by simp
    have e2: "(2::rat) powi (e + int k + 1) = 2 * (2 ^ k * 2 powi e)"
      using powi_split [of e "e + int k + 1"] by (simp add: nat_add_distrib)
    have qpos: "0 \<le> q" using assms by (simp add: q_def)
    have c0: "(0::rat) \<le> 2 ^ k * 2 powi e" by (simp add: zero_less_power_int less_imp_le)
    define c where "c = (push_bit (k - 1) 1 < take_bit k t \<or> (take_bit k t = push_bit (k - 1) 1 \<and> odd q))"
    define m where "m = (if c then q + 1 else q)"
    have nr: "norm_round t e = (if m = 9007199254740992 then Dbl 4503599627370496 (e + int k + 1)
        else Dbl m (e + int k))"
      using assms False unfolding norm_round_def Let_def m_def c_def q_def k_def by simp
    have "val (norm_round t e) = of_int m * (2 ^ k * 2 powi e)"
      by (cases "m = 9007199254740992") (simp_all add: nr val_Dbl e1 e2)
    moreover have "(of_int q :: rat) * (2 ^ k * 2 powi e) \<le> of_int m * (2 ^ k * 2 powi e)"
      by (intro mult_right_mono c0) (simp add: m_def)
    ultimately show ?thesis by (simp add: mult.assoc)
  qed
  have "of_int t * (1 - 1 / 2 ^ 52) * (2::rat) powi e \<le> of_int q * 2 ^ k * 2 powi e"
    using q2 by (intro mult_right_mono) (simp_all add: zero_less_power_int less_imp_le)
  then show ?thesis using ge by (rule order_trans)
qed


lemma quot_lower:
  assumes "0 < d" "2 ^ 54 * d \<le> n"
  shows "(of_int n :: rat) / of_int d * (1 - 1 / 2 ^ 54) \<le> of_int (n div d)"
proof -
  define Q where "Q = n div d"
  have "n = Q * d + n mod d" unfolding Q_def by (rule div_mult_mod_eq [symmetric])
  moreover have "n mod d < d" using assms(1) by simp
  ultimately have "n < (Q + 1) * d" by (simp add: algebra_simps)
  then have "(of_int n :: rat) < of_int ((Q + 1) * d)" by (simp only: of_int_less_iff)
  then have R: "(of_int n :: rat) / of_int d < of_int Q + 1"
    using assms(1) by (simp add: pos_divide_less_eq)
  have "2 ^ 54 * d div d \<le> n div d" using assms(2) by (rule zdiv_mono1) (rule assms(1))
  then have "2 ^ 54 \<le> Q" using assms(1) by (simp add: Q_def)
  then have "(of_int (2 ^ 54) :: rat) \<le> of_int Q" by (simp only: of_int_le_iff)
  then have Qbig: "(2::rat) ^ 54 \<le> of_int Q" by simp
  have "(of_int n :: rat) / of_int d * (1 - 1 / 2 ^ 54) \<le> (of_int Q + 1) * (1 - 1 / 2 ^ 54)"
    using R by (intro mult_right_mono) simp_all
  also have "\<dots> = of_int Q + (1 - of_int Q / 2 ^ 54) - 1 / 2 ^ 54" by (simp add: algebra_simps)
  also have "\<dots> \<le> of_int Q" using Qbig by simp
  finally show ?thesis by (simp add: Q_def)
qed


lemma rnd_quot_lower:
  assumes "0 < p" "0 < q"
  shows "of_int p / of_int q * (1 - 1 / 2 ^ 54) * (1 - 1 / 2 ^ 52) * 2 powi e \<le> val (rnd_quot p q e)"
proof -
  define s where "s = 55 + int (bits q) - int (bits p)"
  define n where "n = (if 0 \<le> s then push_bit (nat s) p else p)"
  define d where "d = (if 0 \<le> s then q else push_bit (nat (- s)) q)"
  define t where "t = 2 * (n div d) + (if n mod d = 0 then 0 else 1)"
  have rq: "rnd_quot p q e = norm_round t (e - s - 1)"
    using assms(1) unfolding rnd_quot_def Let_def t_def n_def d_def s_def by simp
  have dpos: "0 < d" using assms(2) by (simp add: d_def push_bit_eq_mult)
  note bp = bits_bounds [OF assms(1)] and bq = bits_bounds [OF assms(2)]
  have big: "2 ^ 54 * d \<le> n"
  proof (cases "0 \<le> s")
    case True
    then have e: "bits p - 1 + nat s = 54 + bits q"
      using bits_pos [OF assms(1)] by (simp add: s_def)
    have "2 ^ 54 * q \<le> 2 ^ 54 * 2 ^ bits q" using bq by simp
    also have "\<dots> = 2 ^ (bits p - 1) * 2 ^ nat s" by (simp only: power_add [symmetric] e)
    also have "\<dots> \<le> p * 2 ^ nat s" using bp by simp
    finally show ?thesis using True by (simp add: n_def d_def push_bit_eq_mult)
  next
    case False
    then have e: "54 + (bits q + nat (- s)) = bits p - 1"
      using bits_pos [OF assms(1)] by (simp add: s_def)
    have "2 ^ 54 * (q * 2 ^ nat (- s)) \<le> 2 ^ 54 * (2 ^ bits q * 2 ^ nat (- s))"
      using bq by simp
    also have "\<dots> = 2 ^ (bits p - 1)" by (simp only: power_add [symmetric] e)
    also have "\<dots> \<le> p" using bp by simp
    finally show ?thesis using False by (simp add: n_def d_def push_bit_eq_mult)
  qed
  have ratio: "(of_int n :: rat) / of_int d = of_int p / of_int q * 2 powi s"
  proof (cases "0 \<le> s")
    case True
    then have "(2::rat) powi s = 2 ^ nat s" by (simp add: power_int_def)
    with True show ?thesis by (simp add: n_def d_def push_bit_eq_mult)
  next
    case False
    then have ps: "(2::rat) powi s = 1 / 2 ^ nat (- s)"
      by (simp add: power_int_def power_divide inverse_eq_divide)
    from False show ?thesis by (simp add: n_def d_def push_bit_eq_mult ps)
  qed
  have Q: "(of_int n :: rat) / of_int d * (1 - 1 / 2 ^ 54) \<le> of_int (n div d)"
    using dpos big by (rule quot_lower)
  have "2 ^ 54 * d div d \<le> n div d" using big by (rule zdiv_mono1) (rule dpos)
  then have Qpos: "0 < n div d" using dpos by simp
  then have tpos: "0 < t" by (simp add: t_def)
  have "(of_int (2 * (n div d)) :: rat) \<le> of_int t" by (simp only: of_int_le_iff) (simp add: t_def)
  then have tq: "2 * (of_int (n div d) :: rat) \<le> of_int t" by simp
  have pw: "(2::rat) powi s * 2 * 2 powi (e - s - 1) = 2 powi e"
  proof -
    have "(2::rat) powi e = 2 powi (s + (1 + (e - s - 1)))" by simp
    also have "\<dots> = 2 powi s * 2 powi (1 + (e - s - 1))" by (rule power_int_add) simp
    also have "(2::rat) powi (1 + (e - s - 1)) = 2 powi 1 * 2 powi (e - s - 1)"
      by (rule power_int_add) simp
    finally show ?thesis by (simp add: mult.assoc)
  qed
  have c1: "(0::rat) \<le> (1 - 1 / 2 ^ 52) * 2 powi (e - s - 1)"
    by (simp add: zero_less_power_int less_imp_le)
  have "of_int p / of_int q * (1 - 1 / 2 ^ 54) * (1 - 1 / 2 ^ 52) * (2::rat) powi e
      = 2 * (of_int n / of_int d * (1 - 1 / 2 ^ 54)) * ((1 - 1 / 2 ^ 52) * 2 powi (e - s - 1))"
    by (simp only: ratio pw [symmetric]) (simp add: mult_ac)
  also have "\<dots> \<le> 2 * of_int (n div d) * ((1 - 1 / 2 ^ 52) * 2 powi (e - s - 1))"
    using Q by (intro mult_right_mono c1) simp
  also have "\<dots> \<le> of_int t * ((1 - 1 / 2 ^ 52) * 2 powi (e - s - 1))"
    using tq by (intro mult_right_mono c1)
  also have "\<dots> = of_int t * (1 - 1 / 2 ^ 52) * 2 powi (e - s - 1)" by (simp only: mult.assoc)
  also have "\<dots> \<le> val (norm_round t (e - s - 1))" using tpos by (rule norm_round_lower)
  finally show ?thesis by (simp only: rq)
qed

lemma sixhalf: "dlit 65 10 = Dbl 7318349394477056 (- 50)"
  by code_simp

lemma val_sixhalf: "val (dlit 65 10) = 13 / 2"
  by (simp add: sixhalf val_Dbl power_int_def power_divide)

lemma tok_lower:
  "0 < k \<Longrightarrow> of_nat k / 10 * ((1 - 1 / 2 ^ 54) * (1 - 1 / 2 ^ 52)) \<le> val (tok k)"
proof -
  assume k: "0 < k"
  have "of_nat k / 10 * ((1 - 1 / 2 ^ 54) * (1 - 1 / 2 ^ 52))
      = of_int (int k) / of_int 10 * (1 - 1 / 2 ^ 54) * (1 - 1 / 2 ^ 52) * (2::rat) powi 0"
    by simp
  also have "\<dots> \<le> val (rnd_quot (int k) 10 0)" using k by (intro rnd_quot_lower) simp_all
  finally show ?thesis by (simp only: tok_def dlit_def)
qed

lemma tok_over: "66 \<le> k \<Longrightarrow> d_less (dlit 65 10) (tok k)"
proof -
  assume k: "66 \<le> k"
  have c: "(0::rat) \<le> (1 - 1 / 2 ^ 54) * (1 - 1 / 2 ^ 52)" by simp
  have "(13::rat) / 2 < 66 / 10 * ((1 - 1 / 2 ^ 54) * (1 - 1 / 2 ^ 52))" by simp
  also have "\<dots> \<le> of_nat k / 10 * ((1 - 1 / 2 ^ 54) * (1 - 1 / 2 ^ 52))"
    using k by (intro mult_right_mono c) simp
  also have "\<dots> \<le> val (tok k)" using k by (intro tok_lower) simp
  finally show ?thesis by (simp only: d_less_val val_sixhalf)
qed

lemma five: "dint 5 = Dbl 5629499534213120 (- 50)"
  by code_simp

lemma val_five: "val (dint 5) = 5"
  by (simp add: five val_Dbl power_int_def power_divide)

lemma tok_over_five: "51 \<le> k \<Longrightarrow> d_less (dint 5) (tok k)"
proof -
  assume k: "51 \<le> k"
  have c: "(0::rat) \<le> (1 - 1 / 2 ^ 54) * (1 - 1 / 2 ^ 52)" by simp
  have "(5::rat) < 51 / 10 * ((1 - 1 / 2 ^ 54) * (1 - 1 / 2 ^ 52))" by simp
  also have "\<dots> \<le> of_nat k / 10 * ((1 - 1 / 2 ^ 54) * (1 - 1 / 2 ^ 52))"
    using k by (intro mult_right_mono c) simp
  also have "\<dots> \<le> val (tok k)" using k by (intro tok_lower) simp
  finally show ?thesis by (simp only: d_less_val val_five)
qed

section \<open>Helper lemmas: the cap through the passes\<close>

lemma stays_07: "list_all (staysCapped (dlit 7 10)) [0..<66]"
  by code_simp

lemma stays_06: "list_all (staysCapped (dlit 6 10)) [0..<66]"
  by code_simp

lemma zero_07: "\<not> d_less (dlit 65 10) (scaledUpper (dlit 7 10) (dint 0))"
  by code_simp

lemma zero_06: "\<not> d_less (dlit 65 10) (scaledUpper (dlit 6 10) (dint 0))"
  by code_simp

lemma cap_upper: "\<not> d_less (dlit 65 10) (tok (shown (jsround (dmul (dlit 65 10) (dint 10)))))"
  by code_simp

lemma upper_scaleBand: "getUpperPct (scaleBand c item) = scaledUpper c (getUpperPct item)"
  by (simp add: scaleBand_def getUpperPct_def scaledUpper_def)

lemma scale_keeps_cap:
  assumes all: "list_all (staysCapped c) [0..<66]"
    and zero: "\<not> d_less (dlit 65 10) (scaledUpper c (dint 0))"
    and item: "\<not> overCap item"
  shows "\<not> overCap (scaleBand c item)"
proof (cases "2 \<le> length (percent item)")
  case True
  define k where "k = last (percent item)"
  from True have u: "getUpperPct item = tok k" by (simp add: getUpperPct_def k_def)
  from item have "k < 66" using tok_over [of k] by (fastforce simp: overCap_def u)
  with all have "staysCapped c k" by (simp add: list_all_iff)
  then show ?thesis by (simp add: overCap_def upper_scaleBand u staysCapped_def)
next
  case False
  then have "getUpperPct item = dint 0" by (simp add: getUpperPct_def)
  with zero show ?thesis by (simp add: overCap_def upper_scaleBand)
qed

lemma capped_scaleBand:
  assumes "list_all (staysCapped c) [0..<66]" "\<not> d_less (dlit 65 10) (scaledUpper c (dint 0))"
    and "capped hn item"
  shows "capped hn (scaleBand c item)"
  using assms scale_keeps_cap [of c item]
  by (auto simp: capped_def isHero_def name_scaleBand)

lemma capped_capItem: "capped hn (capItem hn fam item)"
proof -
  have "\<not> overCap (capBand item)" if "d_less (dlit 65 10) (getUpperPct item)"
    using that cap_upper by (simp add: overCap_def capBand_def getUpperPct_def dmin_def Let_def)
  then show ?thesis by (auto simp: capped_def capItem_def isHero_def overCap_def)
qed

lemma heartBaseOf_onHeartBase: "heartBaseOf (onHeartBase g e) = map (g (fst e)) (heartBaseOf e)"
  by (cases e) simp

lemma heartBase_mapHeartBase:
  assumes "item \<in> set (heartBase (mapHeartBase g f))"
  shows "\<exists>fam item0. item0 \<in> set (heartBase f) \<and> item = g fam item0"
proof -
  from assms obtain e where e: "e \<in> set f" "item \<in> set (heartBaseOf (onHeartBase g e))"
    by (auto simp: heartBase_def mapHeartBase_def)
  then obtain item0 where "item0 \<in> set (heartBaseOf e)" "item = g (fst e) item0"
    by (auto simp: heartBaseOf_onHeartBase)
  with e(1) show ?thesis by (auto simp: heartBase_def)
qed

lemma all_mapHeartBase:
  assumes "\<And>fam item. item \<in> set (heartBase f) \<Longrightarrow> Q (g fam item)"
  shows "list_all Q (heartBase (mapHeartBase g f))"
  unfolding list_all_iff using heartBase_mapHeartBase [of _ g f] assms by blast

lemma capped_passB: "list_all (capped hn) (heartBase (passB hn f))"
  unfolding passB_def by (rule all_mapHeartBase) (rule capped_capItem)

lemma heartBaseOf_setIn:
  "x \<in> set (heartBaseOf (setIn fam l idx item e)) \<Longrightarrow> x = item \<or> x \<in> set (heartBaseOf e)"
proof -
  obtain k v where e: "e = (k, v)" by (cases e)
  have u: "y \<in> set (xs[idx := item]) \<Longrightarrow> y = item \<or> y \<in> set xs" for y and xs :: "FormulaIngredient list"
    using set_update_subset_insert [of xs idx item] by auto
  assume "x \<in> set (heartBaseOf (setIn fam l idx item e))"
  then show ?thesis
    by (cases l) (auto simp: e dest: u split: if_splits)
qed

lemma heartBase_setItem:
  assumes "x \<in> set (heartBase (setItem fam l idx item f))"
  shows "x = item \<or> x \<in> set (heartBase f)"
proof -
  from assms obtain e where e: "e \<in> set f" "x \<in> set (heartBaseOf (setIn fam l idx item e))"
    by (auto simp: heartBase_def setItem_def)
  from heartBaseOf_setIn [OF e(2)] e(1) show ?thesis by (auto simp: heartBase_def)
qed

lemma getItem_mem:
  assumes "getItem f fam l idx = Some item" "l \<noteq> Top"
  shows "item \<in> set (heartBase f)"
proof -
  from assms(1) obtain v where v: "map_of f fam = Some v" and n: "nth_opt (layerOf l v) (int idx) = Some item"
    by (auto simp: getItem_def split: option.splits)
  from v have m: "(fam, v) \<in> set f" by (rule map_of_SomeD)
  from n have "item \<in> set (layerOf l v)" by (rule nth_opt_mem)
  with assms(2) have "item \<in> set (heartBaseOf (fam, v))"
    by (cases l) (simp_all add: layerOf_def)
  with m show ?thesis unfolding heartBase_def by (auto intro!: bexI [of _ "(fam, v)"])
qed

lemma heartBaseOf_setIn_Top: "heartBaseOf (setIn fam Top idx item e) = heartBaseOf e"
  by (cases e) simp

lemma heartBase_setItem_Top: "heartBase (setItem fam Top idx item f) = heartBase f"
  by (simp add: setItem_def heartBase_def heartBaseOf_setIn_Top comp_def)

lemma capped_setItem:
  assumes "list_all (capped hn) (heartBase f)" "getItem f fam l idx = Some item"
    and "\<And>x. capped hn x \<Longrightarrow> capped hn (g x)"
  shows "list_all (capped hn) (heartBase (setItem fam l idx (g item) f))"
proof (cases "l = Top")
  case True
  with assms(1) show ?thesis by (simp add: heartBase_setItem_Top)
next
  case False
  with assms(2) have "item \<in> set (heartBase f)" by (rule getItem_mem)
  with assms(1,3) have "capped hn (g item)" by (simp add: list_all_iff)
  with assms(1) show ?thesis
    unfolding list_all_iff using heartBase_setItem [of _ fam l idx "g item" f] by blast
qed

lemma capped_07: "capped hn x \<Longrightarrow> capped hn (scaleBand (dlit 7 10) x)"
  using stays_07 zero_07 by (rule capped_scaleBand)

lemma capped_06: "capped hn x \<Longrightarrow> capped hn (scaleBand (dlit 6 10) x)"
  using stays_06 zero_06 by (rule capped_scaleBand)

lemma capped_reduceLoop:
  "list_all (capped hn) (heartBase (fst acc)) \<Longrightarrow>
     list_all (capped hn) (heartBase (fst (reduceLoop hn n hs red acc)))"
proof (induction hs arbitrary: red acc)
  case Nil
  then show ?case by simp
next
  case (Cons h hs)
  show ?case
  proof (cases "getItem (fst acc) (h_fam h) (h_layer h) (h_idx h)")
    case None
    with Cons show ?thesis by simp
  next
    case (Some item)
    have "list_all (capped hn) (heartBase (setItem (h_fam h) (h_layer h) (h_idx h)
        (scaleBand (dlit 7 10) item) (fst acc)))"
      using Cons.prems Some by (rule capped_setItem) (rule capped_07)
    with Cons Some show ?thesis by (simp add: Let_def)
  qed
qed

lemma capped_passC:
  "list_all (capped hn) (heartBase (fst acc)) \<Longrightarrow> list_all (capped hn) (heartBase (fst (passC hn acc)))"
  by (simp add: passC_def Let_def capped_reduceLoop)

lemma capped_dampen:
  assumes "list_all (capped hn) (heartBase (fst acc))"
  shows "list_all (capped hn) (heartBase (fst (dampen acc gm)))"
proof -
  obtain f ns where acc: "acc = (f, ns)" by (cases acc)
  obtain g ms where gm: "gm = (g, ms)" by (cases gm)
  have "list_all (capped hn) (heartBase (mapHeartBase (dampenItem w) f))" for w
  proof (rule all_mapHeartBase)
    fix fam item
    assume "item \<in> set (heartBase f)"
    with assms have "capped hn item" by (simp add: acc list_all_iff)
    then show "capped hn (dampenItem w fam item)" by (simp add: dampenItem_def capped_06)
  qed
  with assms show ?thesis by (simp add: acc gm)
qed

lemma capped_foldl_dampen:
  "list_all (capped hn) (heartBase (fst acc)) \<Longrightarrow>
     list_all (capped hn) (heartBase (fst (foldl dampen acc gs)))"
  by (induction gs arbitrary: acc) (simp_all add: capped_dampen)

lemma capped_resolve: "list_all (capped hn) (heartBase (fst (resolve hn acc)))"
  unfolding resolve_def passD_def passABC_def
  by (intro capped_foldl_dampen capped_passC) (simp add: capped_passB)

lemma selection_hero: "fst (selection d s a code co oc it) = fst (selectHero d (seedOf code))"
  by (cases "selectHero d (seedOf code)") (simp add: selection_def)

section \<open>The engine at the worked inputs\<close>

lemma cedar_selection:
  "selection ''citrus'' ''woody'' ''floral'' [67] None None None
     = (Some (db_citrus_heart ! 0), (cedar_f0, cedar_st), [])"
  by code_simp

lemma cedar_passA: "passA (Some ''Neroli EO'') cedar_f0 = cedar_f0"
  by code_simp

lemma cedar_passB: "passB (Some ''Neroli EO'') cedar_f0 = cedar_f0"
  by code_simp

lemma cedar_passC:
  "passC (Some ''Neroli EO'') (cedar_f0, [])
     = (cedar_fC, [ReducedNote ''Petitgrain Bigarade'' 20 36])"
  by code_simp

lemma cedar_passD:
  "passD (cedar_fC, [ReducedNote ''Petitgrain Bigarade'' 20 36])
     = (cedar_fD, [ReducedNote ''Petitgrain Bigarade'' 20 36, OverlapNote [''Cedarwood Virginia'', ''Cedarwood Atlas EO''] ''cedar''])"
  by code_simp

lemma cedar_passABC:
  "passABC (Some ''Neroli EO'') (cedar_f0, [])
     = (cedar_fC, [ReducedNote ''Petitgrain Bigarade'' 20 36])"
  by (simp only: passABC_def fst_conv snd_conv cedar_passA cedar_passB cedar_passC)

lemma cedar_resolve:
  "resolve (Some ''Neroli EO'') (cedar_f0, [])
     = (cedar_fD, [ReducedNote ''Petitgrain Bigarade'' 20 36, OverlapNote [''Cedarwood Virginia'', ''Cedarwood Atlas EO''] ''cedar''])"
  by (simp only: resolve_def cedar_passABC cedar_passD)

lemma cedar_hero: "name (db_citrus_heart ! 0) = ''Neroli EO''"
  by code_simp

lemma cedar_formula:
  "formula (fst (generateLocalFormula ''citrus'' ''woody'' ''floral'' [67] None None None m))
     = cedar_fD"
  by (simp only: formula_generate cedar_selection fst_conv snd_conv option.map cedar_hero cedar_resolve)

lemma amber_selection:
  "selection ''oriental'' ''fresh'' ''clean'' [68] None None None
     = (Some (db_oriental_base ! 0), (amber_f0, amber_st), [])"
  by code_simp

lemma amber_passA: "passA (Some ''Amber Accord (in-house blend)'') amber_f0 = amber_f0"
  by code_simp

lemma amber_passB: "passB (Some ''Amber Accord (in-house blend)'') amber_f0 = amber_fB"
  by code_simp

lemma amber_passC:
  "passC (Some ''Amber Accord (in-house blend)'') (amber_fB, [])
     = (amber_fB, [])"
  by code_simp

lemma amber_passD:
  "passD (amber_fB, [])
     = (amber_fD, [OverlapNote [''Labdanum Absolute'', ''Amber Accord (in-house blend)''] ''labdanum-amber''])"
  by code_simp

lemma amber_passABC:
  "passABC (Some ''Amber Accord (in-house blend)'') (amber_f0, [])
     = (amber_fB, [])"
  by (simp only: passABC_def fst_conv snd_conv amber_passA amber_passB amber_passC)

lemma amber_resolve:
  "resolve (Some ''Amber Accord (in-house blend)'') (amber_f0, [])
     = (amber_fD, [OverlapNote [''Labdanum Absolute'', ''Amber Accord (in-house blend)''] ''labdanum-amber''])"
  by (simp only: resolve_def amber_passABC amber_passD)

lemma amber_hero: "name (db_oriental_base ! 0) = ''Amber Accord (in-house blend)''"
  by code_simp

lemma amber_formula:
  "formula (fst (generateLocalFormula ''oriental'' ''fresh'' ''clean'' [68] None None None m))
     = amber_fD"
  by (simp only: formula_generate amber_selection fst_conv snd_conv option.map amber_hero amber_resolve)

lemma isoE_selection:
  "selection ''oriental'' ''unknown'' ''leather'' [72] None None None
     = (Some (db_oriental_heart ! 0), (isoE_f0, isoE_st), [StructuralNote ''Iso E Super''])"
  by code_simp

lemma isoE_passA: "passA (Some ''Oud Oil (Hindi type)'') isoE_f0 = isoE_fA"
  by code_simp

lemma isoE_passB: "passB (Some ''Oud Oil (Hindi type)'') isoE_fA = isoE_fA"
  by code_simp

lemma isoE_passC:
  "passC (Some ''Oud Oil (Hindi type)'') (isoE_fA, [StructuralNote ''Iso E Super''])
     = (isoE_fC, [StructuralNote ''Iso E Super'', ReducedNote ''Iso E Super'' 20 36])"
  by code_simp

lemma isoE_passD:
  "passD (isoE_fC, [StructuralNote ''Iso E Super'', ReducedNote ''Iso E Super'' 20 36])
     = (isoE_fC, [StructuralNote ''Iso E Super'', ReducedNote ''Iso E Super'' 20 36])"
  by code_simp

lemma isoE_passABC:
  "passABC (Some ''Oud Oil (Hindi type)'') (isoE_f0, [StructuralNote ''Iso E Super''])
     = (isoE_fC, [StructuralNote ''Iso E Super'', ReducedNote ''Iso E Super'' 20 36])"
  by (simp only: passABC_def fst_conv snd_conv isoE_passA isoE_passB isoE_passC)

lemma isoE_resolve:
  "resolve (Some ''Oud Oil (Hindi type)'') (isoE_f0, [StructuralNote ''Iso E Super''])
     = (isoE_fC, [StructuralNote ''Iso E Super'', ReducedNote ''Iso E Super'' 20 36])"
  by (simp only: resolve_def isoE_passABC isoE_passD)

lemma isoE_hero: "name (db_oriental_heart ! 0) = ''Oud Oil (Hindi type)''"
  by code_simp

lemma isoE_formula:
  "formula (fst (generateLocalFormula ''oriental'' ''unknown'' ''leather'' [72] None None None m))
     = isoE_fC"
  by (simp only: formula_generate isoE_selection fst_conv snd_conv option.map isoE_hero isoE_resolve)

lemma twice_selection:
  "selection ''woody'' ''woody'' ''floral'' [65] None None None
     = (Some (db_woody_base ! 1), (twice_f0, twice_st), [])"
  by code_simp

lemma twice_passA: "passA (Some ''Sandalwood (Australian)'') twice_f0 = twice_f0"
  by code_simp

lemma twice_passB: "passB (Some ''Sandalwood (Australian)'') twice_f0 = twice_f0"
  by code_simp

lemma twice_passC:
  "passC (Some ''Sandalwood (Australian)'') (twice_f0, [])
     = (twice_f0, [])"
  by code_simp

lemma twice_passD:
  "passD (twice_f0, [])
     = (twice_f0, [])"
  by code_simp

lemma twice_passABC:
  "passABC (Some ''Sandalwood (Australian)'') (twice_f0, [])
     = (twice_f0, [])"
  by (simp only: passABC_def fst_conv snd_conv twice_passA twice_passB twice_passC)

lemma twice_resolve:
  "resolve (Some ''Sandalwood (Australian)'') (twice_f0, [])
     = (twice_f0, [])"
  by (simp only: resolve_def twice_passABC twice_passD)

lemma twice_hero: "name (db_woody_base ! 1) = ''Sandalwood (Australian)''"
  by code_simp

lemma twice_formula:
  "formula (fst (generateLocalFormula ''woody'' ''woody'' ''floral'' [65] None None None m))
     = twice_f0"
  by (simp only: formula_generate twice_selection fst_conv snd_conv option.map twice_hero twice_resolve)

lemma quiet_selection:
  "selection ''smoky'' ''powdery'' ''citrus'' [65] None None None
     = (Some (db_smoky_base ! 0), (quiet_f0, quiet_st), [])"
  by code_simp

lemma quiet_passA: "passA (Some ''Vetiver EO (Haiti)'') quiet_f0 = quiet_f0"
  by code_simp

lemma quiet_passB: "passB (Some ''Vetiver EO (Haiti)'') quiet_f0 = quiet_f0"
  by code_simp

lemma quiet_passC:
  "passC (Some ''Vetiver EO (Haiti)'') (quiet_f0, [])
     = (quiet_f0, [])"
  by code_simp

lemma quiet_passD:
  "passD (quiet_f0, [])
     = (quiet_f0, [])"
  by code_simp

lemma quiet_passABC:
  "passABC (Some ''Vetiver EO (Haiti)'') (quiet_f0, [])
     = (quiet_f0, [])"
  by (simp only: passABC_def fst_conv snd_conv quiet_passA quiet_passB quiet_passC)

lemma quiet_resolve:
  "resolve (Some ''Vetiver EO (Haiti)'') (quiet_f0, [])
     = (quiet_f0, [])"
  by (simp only: resolve_def quiet_passABC quiet_passD)

lemma quiet_hero: "name (db_smoky_base ! 0) = ''Vetiver EO (Haiti)''"
  by code_simp

lemma quiet_formula:
  "formula (fst (generateLocalFormula ''smoky'' ''powdery'' ''citrus'' [65] None None None m))
     = quiet_f0"
  by (simp only: formula_generate quiet_selection fst_conv snd_conv option.map quiet_hero quiet_resolve)

section \<open>Determinism and the seed\<close>

lemma foldl_addCode: "foldl addCode a cs = a + sum_list (map uint cs)"
  by (induction cs arbitrary: a) (simp_all add: addCode_def)

lemma seedOf_sum: "seedOf cs = dint (sum_list (map uint cs))"
  by (simp add: seedOf_def foldl_addCode)

text \<open>
  C1. The facade is deterministic: the result for a fixed input tuple does not depend on
  anything but the tuple. The only state that outlives a call is the module variable
  \<open>_lastMeta\<close> (the generator's state is created afresh from the identifier), and the
  returned \<open>FormulaResult\<close> is the same whatever that variable held before the call.
\<close>

theorem generateSmartFormula_deterministic:
  "fst (generateSmartFormula opts lastMeta1) = fst (generateSmartFormula opts lastMeta2)"
  by (simp add: generateSmartFormula_def generateLocalFormula_def)

text \<open>
  C9. The seed is the sum of the identifier's character codes, so two identifiers with
  equal sums, given otherwise identical parameters, produce identical results.
\<close>

theorem seed_collision:
  assumes "sum_list (map uint code1) = sum_list (map uint code2)"
  shows "generateLocalFormula d s a code1 co oc it lastMeta
       = generateLocalFormula d s a code2 co oc it lastMeta"
  using assms
  by (simp add: generateLocalFormula_def selection_def seedOf_sum)

theorem seed_collision_witness:
  "sum_list (map uint [65, 66 :: 16 word]) = sum_list (map uint [66, 65 :: 16 word])
   \<and> generateLocalFormula ''oriental'' ''woody'' ''spicy'' [65, 66] None None None None
     = generateLocalFormula ''oriental'' ''woody'' ''spicy'' [66, 65] None None None None"
  using seed_collision [of "[65, 66]" "[66, 65]" "''oriental''" "''woody''" "''spicy''" None None None None]
  by simp

section \<open>Top layers\<close>

text \<open>
  What holds of the top layers at every input: the conflict resolution returns every
  family's top layer as the selection left it; the entries step 3 picks for the dominant
  top layer are copies of database records, percent string included, with no
  \<open>makeRange\<close> and no scaling; and when neither the secondary nor the accent family is the
  dominant one, so that steps 4 and 5 do not assign the dominant key again, these copies
  are what the returned formula holds under the dominant key.
\<close>

theorem top_layers_frozen:
  "tops (formula (fst (generateLocalFormula d s a code co oc it m)))
     = tops (fst (fst (snd (selection d s a code co oc it))))
   \<and> (\<forall>e\<in>set (fst (domTopOf tps st)). \<exists>t\<in>set tps. e = plain t)
   \<and> (d \<noteq> s \<and> d \<noteq> a \<longrightarrow>
        (\<forall>t. topAt (formula (fst (generateLocalFormula d s a code co oc it m))) d = Some t \<longrightarrow>
           (\<forall>e\<in>set t. \<exists>r\<in>set (dbLayer d Top). e = plain r)))"
proof (intro conjI)
  show frozen: "tops (formula (fst (generateLocalFormula d s a code co oc it m)))
     = tops (fst (fst (snd (selection d s a code co oc it))))"
    by (simp add: formula_generate tops_resolve)
  show "\<forall>e\<in>set (fst (domTopOf tps st)). \<exists>t\<in>set tps. e = plain t"
    using domTopOf_plain by blast
  show "d \<noteq> s \<and> d \<noteq> a \<longrightarrow>
        (\<forall>t. topAt (formula (fst (generateLocalFormula d s a code co oc it m))) d = Some t \<longrightarrow>
           (\<forall>e\<in>set t. \<exists>r\<in>set (dbLayer d Top). e = plain r))"
    using topAt_selection [of d s a code co oc it] by (simp add: topAt_tops frozen)
qed

lemma amber_top:
  "topAt amber_fD ''oriental''
   = Some [\<lparr>name = ''Saffron CO2'', percent = [5, 10], supplier = ''Iran'', normalizedPct = None\<rparr>]"
  by code_simp

lemma amber_domTop:
  "fst (domTopOf db_oriental_top \<lparr>st_rng = dint 68, st_used = [], st_picked = [], st_ifra = []\<rparr>)
   = [\<lparr>name = ''Saffron CO2'', percent = [5, 10], supplier = ''Iran'', normalizedPct = None\<rparr>]"
  by code_simp

theorem top_layers_frozen_witness:
  "tops (formula (fst (generateLocalFormula ''oriental'' ''fresh'' ''clean'' [68] None None None None)))
     = tops (fst (fst (snd (selection ''oriental'' ''fresh'' ''clean'' [68] None None None))))
   \<and> \<lparr>name = ''Saffron CO2'', percent = [5, 10], supplier = ''Iran'', normalizedPct = None\<rparr>
       \<in> set (fst (domTopOf db_oriental_top \<lparr>st_rng = dint 68, st_used = [], st_picked = [], st_ifra = []\<rparr>))
   \<and> (\<exists>t\<in>set db_oriental_top.
         \<lparr>name = ''Saffron CO2'', percent = [5, 10], supplier = ''Iran'', normalizedPct = None\<rparr>
           = plain t)
   \<and> ''oriental'' \<noteq> ''fresh'' \<and> ''oriental'' \<noteq> ''clean''
   \<and> topAt (formula (fst (generateLocalFormula ''oriental'' ''fresh'' ''clean'' [68] None None None None)))
         ''oriental''
       = Some [\<lparr>name = ''Saffron CO2'', percent = [5, 10], supplier = ''Iran'', normalizedPct = None\<rparr>]
   \<and> (\<exists>r\<in>set (dbLayer ''oriental'' Top).
         \<lparr>name = ''Saffron CO2'', percent = [5, 10], supplier = ''Iran'', normalizedPct = None\<rparr> = plain r)"
  using top_layers_frozen [of "''oriental''" "''fresh''" "''clean''" "[68]" None None None None
      db_oriental_top "\<lparr>st_rng = dint 68, st_used = [], st_picked = [], st_ifra = []\<rparr>"]
  by (simp add: amber_formula amber_top amber_domTop)


lemma twice_step3_top:
  "map_option (map name)
     (topAt (fst (stepDominant ''woody'' ''woody'' ''floral'' (computeContext None None None)
                    (fst (selectHero ''woody'' (seedOf [65])))
                    ([], \<lparr>st_rng = snd (selectHero ''woody'' (seedOf [65])), st_used = [],
                          st_picked = [], st_ifra = []\<rparr>)))
        ''woody'')
   = Some [''Cardamom CO2'']"
  by code_simp

lemma twice_cardamom: "map percent (filter (named ''Cardamom CO2'') (dbLayer ''woody'' Top)) = [[10, 20]]"
  by code_simp

lemma twice_top_names: "map_option (map name) (topAt twice_f0 ''woody'') = Some [''Bergamot EO (Calabrian type)'']"
  by code_simp

lemma twice_top_band: "bandAt twice_f0 ''woody'' Top ''Bergamot EO (Calabrian type)'' = Some [22, 42]"
  by code_simp

lemma twice_bergamot:
  "map percent (filter (named ''Bergamot EO (Calabrian type)'') (dbLayer ''woody'' Top)) = [[30, 50]]"
  by code_simp

text \<open>
  C10. Top-layer entries are frozen after selection, and the top-layer picks of the
  dominant family carry the database's percent string as it is into the final output. The
  conflict resolution does leave every top layer alone (\<open>top_layers_frozen\<close>), but the
  picks do not always reach the output: when the secondary family is the dominant one,
  step 4 assigns the whole entry of the key again. At dominant \<open>woody\<close>, secondary
  \<open>woody\<close>, accent \<open>floral\<close>, identifier \<open>A\<close>, step 3 picks \<open>Cardamom CO2\<close> with the
  database's \<open>1-2%\<close> for the dominant top layer, and the returned formula holds under
  \<open>woody\<close> the top entry \<open>Bergamot EO (Calabrian type)\<close> at \<open>2.2-4.2%\<close>, a \<open>makeRange\<close>
  band scaled by 0.8, where the database has \<open>3-5%\<close>.
\<close>

theorem dominant_top_replaced_when_secondary_is_dominant:
  "map_option (map name)
     (topAt (fst (stepDominant ''woody'' ''woody'' ''floral'' (computeContext None None None)
                    (fst (selectHero ''woody'' (seedOf [65])))
                    ([], \<lparr>st_rng = snd (selectHero ''woody'' (seedOf [65])), st_used = [],
                          st_picked = [], st_ifra = []\<rparr>)))
        ''woody'')
     = Some [''Cardamom CO2'']
   \<and> map percent (filter (named ''Cardamom CO2'') (dbLayer ''woody'' Top)) = [[10, 20]]
   \<and> map_option (map name)
        (topAt (formula (fst (generateLocalFormula ''woody'' ''woody'' ''floral'' [65] None None None None)))
           ''woody'')
       = Some [''Bergamot EO (Calabrian type)'']
   \<and> bandAt (formula (fst (generateLocalFormula ''woody'' ''woody'' ''floral'' [65] None None None None)))
        ''woody'' Top ''Bergamot EO (Calabrian type)'' = Some [22, 42]
   \<and> map percent (filter (named ''Bergamot EO (Calabrian type)'') (dbLayer ''woody'' Top)) = [[30, 50]]"
  by (simp only: twice_step3_top twice_cardamom twice_formula twice_top_names twice_top_band
      twice_bergamot simp_thms)
section \<open>The hero and the duplicate pass\<close>

lemma amber_groups:
  "map_of (usedGroups amber_fB) ''labdanum-amber''
   = Some [''Labdanum Absolute'', ''Amber Accord (in-house blend)'']"
  by code_simp

lemma amber_band_before:
  "bandAt amber_fB ''oriental'' Base ''Amber Accord (in-house blend)'' = Some [46, 85]"
  by code_simp

lemma amber_band_after:
  "bandAt amber_fD ''oriental'' Base ''Amber Accord (in-house blend)'' = Some [28, 51]"
  by code_simp

lemma amber_scaled:
  "percent (scaleBand (dlit 6 10)
     \<lparr>name = ''Amber Accord (in-house blend)'', percent = [46, 85], supplier = ''MUSK Aromatics'',
      normalizedPct = None\<rparr>) = [28, 51]"
  by code_simp

text \<open>
  C8. The hero is not protected from the duplicate pass. At dominant \<open>oriental\<close>,
  secondary \<open>fresh\<close>, accent \<open>clean\<close> and identifier \<open>D\<close> the hero is
  \<open>Amber Accord (in-house blend)\<close>; passes 6a to 6c leave its band at \<open>4.6-8.5%\<close>;
  \<open>Labdanum Absolute\<close>, picked into the oriental heart, is recorded first for the group
  \<open>labdanum-amber\<close> and the hero second; and the returned formula carries the hero at
  \<open>2.8-5.1%\<close>, which is 60% of its band.
\<close>

theorem hero_dampened_by_duplicate_pass:
  "selection ''oriental'' ''fresh'' ''clean'' [68] None None None
     = (Some (db_oriental_base ! 0), (amber_f0, amber_st), [])
   \<and> name (db_oriental_base ! 0) = ''Amber Accord (in-house blend)''
   \<and> passABC (Some ''Amber Accord (in-house blend)'') (amber_f0, []) = (amber_fB, [])
   \<and> map_of (usedGroups amber_fB) ''labdanum-amber''
       = Some [''Labdanum Absolute'', ''Amber Accord (in-house blend)'']
   \<and> bandAt amber_fB ''oriental'' Base ''Amber Accord (in-house blend)'' = Some [46, 85]
   \<and> bandAt (formula (fst (generateLocalFormula ''oriental'' ''fresh'' ''clean'' [68] None None None None)))
         ''oriental'' Base ''Amber Accord (in-house blend)'' = Some [28, 51]
   \<and> percent (scaleBand (dlit 6 10)
         \<lparr>name = ''Amber Accord (in-house blend)'', percent = [46, 85], supplier = ''MUSK Aromatics'',
          normalizedPct = None\<rparr>) = [28, 51]"
  by (simp only: amber_selection amber_hero amber_passABC amber_groups amber_band_before
      amber_formula amber_band_after amber_scaled simp_thms)

section \<open>The hero when a family is named twice\<close>

lemma twice_names:
  "allNames twice_f0
   = [''Bergamot EO (Calabrian type)'', ''Cedarwood Atlas EO'', ''Guaiac Wood EO'',
      ''Hinoki (Japanese Cypress)'', ''Patchouli EO (Dark)'', ''Geranium EO (Egyptian)'',
      ''Ylang Ylang Extra'']"
  by code_simp

lemma twice_picked: "length (st_picked twice_st) = 11"
  by code_simp

text \<open>
  C5. Hero exclusivity: the hero appears in exactly one layer of the dominant family and
  nowhere else. The code breaks it when the secondary family is the dominant one: step 4
  assigns the whole entry of the key again and the hero placed by step 3 is lost. At
  dominant \<open>woody\<close>, secondary \<open>woody\<close>, accent \<open>floral\<close>, identifier \<open>A\<close>, the hero is
  \<open>Sandalwood (Australian)\<close>, eleven ingredients are picked, and the returned formula holds
  seven entries, none of them the hero.
\<close>

theorem hero_lost_when_secondary_is_dominant:
  "selection ''woody'' ''woody'' ''floral'' [65] None None None
     = (Some (db_woody_base ! 1), (twice_f0, twice_st), [])
   \<and> name (db_woody_base ! 1) = ''Sandalwood (Australian)''
   \<and> length (st_picked twice_st) = 11
   \<and> allNames (formula (fst (generateLocalFormula ''woody'' ''woody'' ''floral'' [65] None None None None)))
       = [''Bergamot EO (Calabrian type)'', ''Cedarwood Atlas EO'', ''Guaiac Wood EO'',
          ''Hinoki (Japanese Cypress)'', ''Patchouli EO (Dark)'', ''Geranium EO (Egyptian)'',
          ''Ylang Ylang Extra'']"
  by (simp only: twice_selection twice_hero twice_picked twice_formula twice_names simp_thms)

section \<open>Counterexamples\<close>

lemma amber_heavy: "List.member heavyFamilies ''oriental''"
  by code_simp

lemma amber_pool: "length (poolNames ''oriental'' ''fresh'' ''clean'') = 22"
  by code_simp

lemma amber_count: "totalIngredientsCount amber_fD = 8"
  by code_simp

text \<open>
  Against C6 as stated: \<open>oriental\<close> is a heavy family and the pools of \<open>oriental\<close>,
  \<open>fresh\<close> and \<open>clean\<close> offer 22 names, yet the returned formula has 8 ingredients.
\<close>

theorem floor_counterexample:
  "List.member heavyFamilies ''oriental''
   \<and> length (poolNames ''oriental'' ''fresh'' ''clean'') = 22
   \<and> totalIngredientsCount
        (formula (fst (generateLocalFormula ''oriental'' ''fresh'' ''clean'' [68] None None None None))) = 8"
  by (simp only: amber_heavy amber_pool amber_formula amber_count simp_thms)

lemma cedar_highDom: "highDom cedar_f0 = 0"
  by code_simp

lemma cedar_noOver: "\<not> list_ex overCap (heartBase cedar_f0)"
  by code_simp

lemma cedar_petitgrain_before:
  "bandAt cedar_f0 ''citrus'' Heart ''Petitgrain Bigarade'' = Some [28, 52]"
  by code_simp

lemma cedar_petitgrain_after:
  "bandAt cedar_fD ''citrus'' Heart ''Petitgrain Bigarade'' = Some [20, 36]"
  by code_simp

text \<open>
  Against C3 as stated: at dominant \<open>citrus\<close>, secondary \<open>woody\<close>, accent \<open>floral\<close>,
  identifier \<open>C\<close>, the formula enters the conflict resolution with no high-dominance entry
  and no heart or base entry above 6.5%, and leaves it with \<open>Petitgrain Bigarade\<close> reduced
  from \<open>2.8-5.2%\<close> to \<open>2-3.6%\<close>.
\<close>

theorem no_conflict_counterexample:
  "selection ''citrus'' ''woody'' ''floral'' [67] None None None
     = (Some (db_citrus_heart ! 0), (cedar_f0, cedar_st), [])
   \<and> name (db_citrus_heart ! 0) = ''Neroli EO''
   \<and> highDom cedar_f0 = 0
   \<and> \<not> list_ex overCap (heartBase cedar_f0)
   \<and> bandAt cedar_f0 ''citrus'' Heart ''Petitgrain Bigarade'' = Some [28, 52]
   \<and> bandAt (fst (resolve (Some ''Neroli EO'') (cedar_f0, []))) ''citrus'' Heart ''Petitgrain Bigarade''
       = Some [20, 36]"
  by (simp only: cedar_selection cedar_hero cedar_highDom cedar_noOver cedar_petitgrain_before
      cedar_resolve fst_conv cedar_petitgrain_after simp_thms not_False_eq_True)

lemma cedar_table:
  "map_of functionalGroups ''cedar'' = Some [''Cedarwood Atlas EO'', ''Cedarwood Virginia'']"
  by code_simp

lemma cedar_recorded:
  "map_of (usedGroups cedar_fC) ''cedar'' = Some [''Cedarwood Virginia'', ''Cedarwood Atlas EO'']"
  by code_simp

lemma cedar_atlas_before: "bandAt cedar_fC ''woody'' Heart ''Cedarwood Atlas EO'' = Some [32, 59]"
  by code_simp

lemma cedar_atlas_after: "bandAt cedar_fD ''woody'' Heart ''Cedarwood Atlas EO'' = Some [19, 35]"
  by code_simp

lemma cedar_virginia_before: "bandAt cedar_fC ''citrus'' Base ''Cedarwood Virginia'' = Some [28, 52]"
  by code_simp

lemma cedar_virginia_after: "bandAt cedar_fD ''citrus'' Base ''Cedarwood Virginia'' = Some [28, 52]"
  by code_simp

text \<open>
  Against C4 as stated: at the same input the formula reaches step 7 with both members of
  the group \<open>cedar\<close>, whose table lists \<open>Cedarwood Atlas EO\<close> first and
  \<open>Cedarwood Virginia\<close> second; the pass reduces the first-listed member from
  \<open>3.2-5.9%\<close> to \<open>1.9-3.5%\<close> and leaves the second-listed one at \<open>2.8-5.2%\<close>.
\<close>

theorem dampening_counterexample:
  "passABC (Some ''Neroli EO'') (cedar_f0, []) = (cedar_fC, [ReducedNote ''Petitgrain Bigarade'' 20 36])
   \<and> map_of functionalGroups ''cedar'' = Some [''Cedarwood Atlas EO'', ''Cedarwood Virginia'']
   \<and> map_of (usedGroups cedar_fC) ''cedar'' = Some [''Cedarwood Virginia'', ''Cedarwood Atlas EO'']
   \<and> bandAt cedar_fC ''woody'' Heart ''Cedarwood Atlas EO'' = Some [32, 59]
   \<and> bandAt (fst (passD (cedar_fC, [ReducedNote ''Petitgrain Bigarade'' 20 36])))
         ''woody'' Heart ''Cedarwood Atlas EO'' = Some [19, 35]
   \<and> bandAt cedar_fC ''citrus'' Base ''Cedarwood Virginia'' = Some [28, 52]
   \<and> bandAt (fst (passD (cedar_fC, [ReducedNote ''Petitgrain Bigarade'' 20 36])))
         ''citrus'' Base ''Cedarwood Virginia'' = Some [28, 52]"
  by (simp only: cedar_passABC cedar_table cedar_recorded cedar_atlas_before cedar_passD fst_conv
      cedar_atlas_after cedar_virginia_before cedar_virginia_after simp_thms)

lemma isoE_iso_before: "bandAt isoE_fA ''oriental'' Base ''Iso E Super'' = Some [28, 52]"
  by code_simp

lemma isoE_iso_after: "bandAt isoE_fC ''oriental'' Base ''Iso E Super'' = Some [20, 36]"
  by code_simp

lemma isoE_labdanum_before: "bandAt isoE_fA ''oriental'' Heart ''Labdanum Absolute'' = Some [28, 52]"
  by code_simp

lemma isoE_labdanum_after: "bandAt isoE_fC ''oriental'' Heart ''Labdanum Absolute'' = Some [28, 52]"
  by code_simp

lemma isoE_persistence:
  "dbPersistence ''Iso E Super'' = [9, 9]" "dbPersistence ''Labdanum Absolute'' = [8, 8, 8]"
  by code_simp+

text \<open>
  Against C7 as stated: at dominant \<open>oriental\<close>, secondary \<open>unknown\<close>, accent
  \<open>leather\<close>, identifier \<open>H\<close>, three non-hero entries are above 5% when pass 6c starts.
  The pass reduces \<open>Iso E Super\<close>, whose database records all have persistence 9, and
  leaves \<open>Labdanum Absolute\<close>, persistence 8, at \<open>2.8-5.2%\<close>: \<open>Iso E Super\<close> was
  injected into the oriental base, the oriental lists have no record of it, and the pass
  takes its persistence as 5.
\<close>

theorem persistence_order_counterexample:
  "selection ''oriental'' ''unknown'' ''leather'' [72] None None None
     = (Some (db_oriental_heart ! 0), (isoE_f0, isoE_st), [StructuralNote ''Iso E Super''])
   \<and> name (db_oriental_heart ! 0) = ''Oud Oil (Hindi type)''
   \<and> passB (Some ''Oud Oil (Hindi type)'') (passA (Some ''Oud Oil (Hindi type)'') isoE_f0) = isoE_fA
   \<and> passC (Some ''Oud Oil (Hindi type)'') (isoE_fA, [StructuralNote ''Iso E Super''])
       = (isoE_fC, [StructuralNote ''Iso E Super'', ReducedNote ''Iso E Super'' 20 36])
   \<and> bandAt isoE_fA ''oriental'' Base ''Iso E Super'' = Some [28, 52]
   \<and> bandAt isoE_fC ''oriental'' Base ''Iso E Super'' = Some [20, 36]
   \<and> bandAt isoE_fA ''oriental'' Heart ''Labdanum Absolute'' = Some [28, 52]
   \<and> bandAt isoE_fC ''oriental'' Heart ''Labdanum Absolute'' = Some [28, 52]
   \<and> dbPersistence ''Iso E Super'' = [9, 9]
   \<and> dbPersistence ''Labdanum Absolute'' = [8, 8, 8]"
  by (simp only: isoE_selection isoE_hero isoE_passA isoE_passB isoE_passC isoE_iso_before
      isoE_iso_after isoE_labdanum_before isoE_labdanum_after isoE_persistence simp_thms)

section \<open>The conflict resolution when nothing conflicts\<close>

text \<open>
  C3 (amended). A formula with at most one high-dominance heart or base entry, no heart
  or base entry above 6.5%, at most two heart or base entries above 5%, and no functional
  group recorded more than once passes through the four conflict passes unchanged, and so
  does the list of notes.
\<close>

theorem no_conflict_unchanged:
  assumes "highDom f \<le> 1"
    and "\<not> list_ex overCap (heartBase f)"
    and "length (filter overFive (heartBase f)) \<le> 2"
    and "list_all recordedOnce (usedGroups f)"
  shows "resolve heroName (f, ns) = (f, ns)"
  using assms by (simp add: resolve_def passABC_def passA_id passB_id passC_id passD_id)

lemma quiet_highDom: "highDom quiet_f0 \<le> 1"
  by code_simp

lemma quiet_noOver: "\<not> list_ex overCap (heartBase quiet_f0)"
  by code_simp

lemma quiet_overFive: "length (filter overFive (heartBase quiet_f0)) \<le> 2"
  by code_simp

lemma quiet_once: "list_all recordedOnce (usedGroups quiet_f0)"
  by code_simp

theorem no_conflict_unchanged_witness:
  "highDom quiet_f0 \<le> 1
   \<and> \<not> list_ex overCap (heartBase quiet_f0)
   \<and> length (filter overFive (heartBase quiet_f0)) \<le> 2
   \<and> list_all recordedOnce (usedGroups quiet_f0)
   \<and> resolve (Some ''Vetiver EO (Haiti)'') (quiet_f0, []) = (quiet_f0, [])"
  using no_conflict_unchanged [OF quiet_highDom quiet_noOver quiet_overFive quiet_once,
      of "Some ''Vetiver EO (Haiti)''" "[]"]
  by (simp only: quiet_highDom quiet_noOver quiet_overFive quiet_once simp_thms)

section \<open>The ingredient floor\<close>

text \<open>
  C6 (amended). For a dominant family of the heavy set, the returned formula has at least
  9 ingredients whenever the ingredients counted when the floor step starts and the fill
  candidates of that step (the character-role entries, not used so far, of the heart and
  base lists of the secondary and accent families) together number at least 9. The fills
  of the floor step are such candidates only, each placed by \<open>placeFill\<close>: as a support
  item at 0.4 times its midpoint, in the secondary or accent family, in the heart or base.
\<close>

theorem floor_reached:
  "(List.member heavyFamilies d
      \<and> 9 \<le> floorBudget s a (pickFamilies d s a (computeContext co oc it)
                 (fst (selectHero d (seedOf code))) (snd (selectHero d (seedOf code))))
      \<longrightarrow> 9 \<le> totalIngredientsCount (formula (fst (generateLocalFormula d s a code co oc it m))))
   \<and> (\<exists>fills.
        (\<forall>c\<in>set fills. isFill (st_used st) c
           \<and> c \<in> set (dbLayer s Heart @ dbLayer a Heart @ dbLayer s Base @ dbLayer a Base))
        \<and> fst (stepFloor d s a (f, st)) = foldl (placeFill s a) f fills)"
proof (intro conjI impI)
  assume h: "List.member heavyFamilies d
      \<and> 9 \<le> floorBudget s a (pickFamilies d s a (computeContext co oc it)
                 (fst (selectHero d (seedOf code))) (snd (selectHero d (seedOf code))))"
  let ?p = "pickFamilies d s a (computeContext co oc it)
                 (fst (selectHero d (seedOf code))) (snd (selectHero d (seedOf code)))"
  from h have "9 \<le> totalIngredientsCount (fst (stepFloor d s a ?p))"
    using stepFloor_count by blast
  also have "\<dots> \<le> totalIngredientsCount (fst (fst (stepStructure d co (stepFloor d s a ?p))))"
    by (rule stepStructure_count)
  finally show "9 \<le> totalIngredientsCount (formula (fst (generateLocalFormula d s a code co oc it m)))"
    by (simp add: formula_generate count_resolve selection_formula)
next
  let ?fills = "if List.member heavyFamilies d \<and> totalIngredientsCount f < 9
      then map fst (take (min (length (fillSources s a (st_used st))) (9 - totalIngredientsCount f))
             (sort_js byScore (fst (scoreFill [d, s, a] 0 (fillSources s a (st_used st)) (st_rng st)))))
      else []"
  have sub: "set ?fills \<subseteq> set (fillSources s a (st_used st))"
  proof -
    have "set (map fst (take n (sort_js byScore (fst (scoreFill [d, s, a] 0 cs r))))) \<subseteq> set cs" for n cs r
    proof -
      have "set (map fst (take n (sort_js byScore (fst (scoreFill [d, s, a] 0 cs r)))))
          \<subseteq> fst ` set (sort_js byScore (fst (scoreFill [d, s, a] 0 cs r)))"
        by (auto dest: in_set_takeD)
      also have "\<dots> = set (map fst (fst (scoreFill [d, s, a] 0 cs r)))"
        by (simp add: set_sort_js)
      also have "\<dots> = set cs" by (simp only: scoreFill_fst)
      finally show ?thesis .
    qed
    then show ?thesis by (rule set_if_nil)
  qed
  show "\<exists>fills.
        (\<forall>c\<in>set fills. isFill (st_used st) c
           \<and> c \<in> set (dbLayer s Heart @ dbLayer a Heart @ dbLayer s Base @ dbLayer a Base))
        \<and> fst (stepFloor d s a (f, st)) = foldl (placeFill s a) f fills"
    using sub fillSources_mem stepFloor_fills [of d s a f st]
    by (intro exI [of _ ?fills]) blast
qed

lemma quiet_heavy: "List.member heavyFamilies ''smoky''"
  by code_simp

lemma quiet_budget:
  "floorBudget ''powdery'' ''citrus''
     (pickFamilies ''smoky'' ''powdery'' ''citrus'' (computeContext None None None)
        (fst (selectHero ''smoky'' (seedOf [65]))) (snd (selectHero ''smoky'' (seedOf [65])))) = 9"
  by code_simp

lemma quiet_count: "totalIngredientsCount quiet_f0 = 9"
  by code_simp

theorem floor_reached_witness:
  "List.member heavyFamilies ''smoky''
   \<and> 9 \<le> floorBudget ''powdery'' ''citrus''
         (pickFamilies ''smoky'' ''powdery'' ''citrus'' (computeContext None None None)
            (fst (selectHero ''smoky'' (seedOf [65]))) (snd (selectHero ''smoky'' (seedOf [65]))))
   \<and> totalIngredientsCount
        (formula (fst (generateLocalFormula ''smoky'' ''powdery'' ''citrus'' [65] None None None None))) = 9
   \<and> 9 \<le> totalIngredientsCount
        (formula (fst (generateLocalFormula ''smoky'' ''powdery'' ''citrus'' [65] None None None None)))"
  using floor_reached [of "''smoky''" "''powdery''" "''citrus''" None None None "[65]" None]
  by (simp only: quiet_heavy quiet_budget quiet_formula quiet_count simp_thms order_refl)

section \<open>The target of the duplicate pass\<close>

text \<open>
  C4 (amended). Step 7 records, for every functional group, the names of the group as it
  meets them in the formula, family by family and top, heart, base. For every group with
  more than one recorded name it appends a note citing the overlap, and it reduces every
  heart or base entry that carries the name recorded second for such a group to 60% of
  its band, once; every other entry stays as it is, and so does the name recorded first
  unless it is the name recorded second as well.
\<close>

theorem dampening_target:
  "passD (f, ns) = (mapHeartBase (dampenWeaker (weakerNames f)) f, ns @ map overlapNote (overlapping f))
   \<and> (map_of (usedGroups f) g = Some ms \<and> 1 < length ms \<and> ms ! 0 \<noteq> ms ! 1
        \<longrightarrow> \<not> List.member (weakerNames f) (ms ! 0))"
proof -
  have d: "distinct (map secondRecorded (filter recordedTwice (usedGroups f)))"
    by (rule distinct_second) (rule recorded_ok_usedGroups)
  have "passD (f, ns)
      = (mapHeartBase (dampenWeaker (weakerNames f)) f, ns @ map overlapNote (overlapping f))"
    unfolding passD_def weakerNames_def overlapping_def fst_conv
    by (rule foldl_dampen_weaker [OF d])
  moreover have "\<not> List.member (weakerNames f) (ms ! 0)"
    if "map_of (usedGroups f) g = Some ms" "1 < length ms" "ms ! 0 \<noteq> ms ! 1"
    unfolding weakerNames_def overlapping_def
    using recorded_ok_usedGroups that by (rule first_not_weaker)
  ultimately show ?thesis by blast
qed

lemma cedar_overlapping: "overlapping cedar_fC = [(''cedar'', [''Cedarwood Virginia'', ''Cedarwood Atlas EO''])]"
  by code_simp

lemma cedar_weaker: "weakerNames cedar_fC = [''Cedarwood Atlas EO'']"
  by code_simp

theorem dampening_target_witness:
  "map_of (usedGroups cedar_fC) ''cedar'' = Some [''Cedarwood Virginia'', ''Cedarwood Atlas EO'']
   \<and> 1 < length [''Cedarwood Virginia'', ''Cedarwood Atlas EO'']
   \<and> [''Cedarwood Virginia'', ''Cedarwood Atlas EO''] ! 0 \<noteq> [''Cedarwood Virginia'', ''Cedarwood Atlas EO''] ! 1
   \<and> \<not> List.member (weakerNames cedar_fC) ''Cedarwood Virginia''
   \<and> passD (cedar_fC, [ReducedNote ''Petitgrain Bigarade'' 20 36])
       = (mapHeartBase (dampenWeaker [''Cedarwood Atlas EO'']) cedar_fC,
          [ReducedNote ''Petitgrain Bigarade'' 20 36] @ [OverlapNote [''Cedarwood Virginia'', ''Cedarwood Atlas EO''] ''cedar''])"
  using dampening_target [of cedar_fC "[ReducedNote ''Petitgrain Bigarade'' 20 36]" "''cedar''" "[''Cedarwood Virginia'', ''Cedarwood Atlas EO'']"]
  by (simp add: cedar_recorded cedar_overlapping cedar_weaker)

section \<open>The cap\<close>

text \<open>
  C2. Cap invariant: in the result of \<open>generateSmartFormula\<close>, at every input, every heart
  or base entry whose name is not the hero's name has an upper percentage bound of at most
  6.5%.
\<close>

theorem cap_invariant:
  "list_all (capped (map_option name (fst (selectHero (dominant opts) (seedOf (scentCode opts))))))
     (heartBase (formula (fst (generateSmartFormula opts m))))"
  by (simp only: generateSmartFormula_def formula_generate selection_hero capped_resolve)

lemma amber_hedione:
  "\<lparr>name = ''Hedione HC'', percent = [35, 65], supplier = ''Fraterworks'',
        normalizedPct = Some (Dbl 5910974510923776 (- 50))\<rparr>
   \<in> set (heartBase amber_fD)"
  by code_simp

lemma amber_hero_pick: "fst (selectHero ''oriental'' (seedOf [68])) = Some (db_oriental_base ! 0)"
  by code_simp

theorem cap_invariant_witness:
  "\<lparr>name = ''Hedione HC'', percent = [35, 65], supplier = ''Fraterworks'',
        normalizedPct = Some (Dbl 5910974510923776 (- 50))\<rparr>
     \<in> set (heartBase (formula (fst (generateSmartFormula
         \<lparr>dominant = ''oriental'', secondary = ''fresh'', accent = ''clean'', scentCode = [68],
          concentration = None, occasion = None, intensity = None\<rparr> None))))
   \<and> \<not> isHero (map_option name (fst (selectHero ''oriental'' (seedOf [68]))))
         \<lparr>name = ''Hedione HC'', percent = [35, 65], supplier = ''Fraterworks'',
        normalizedPct = Some (Dbl 5910974510923776 (- 50))\<rparr>
   \<and> \<not> overCap
         \<lparr>name = ''Hedione HC'', percent = [35, 65], supplier = ''Fraterworks'',
        normalizedPct = Some (Dbl 5910974510923776 (- 50))\<rparr>"
proof -
  have "list_all (capped (Some ''Amber Accord (in-house blend)'')) (heartBase amber_fD)"
    using cap_invariant [of "\<lparr>dominant = ''oriental'', secondary = ''fresh'', accent = ''clean'', scentCode = [68],
          concentration = None, occasion = None, intensity = None\<rparr>" None]
    by (simp add: generateSmartFormula_def amber_formula amber_hero_pick amber_hero)
  with amber_hedione have "capped (Some ''Amber Accord (in-house blend)'')
      \<lparr>name = ''Hedione HC'', percent = [35, 65], supplier = ''Fraterworks'',
        normalizedPct = Some (Dbl 5910974510923776 (- 50))\<rparr>"
    by (simp only: list_all_iff)
  then show ?thesis
    by (simp add: generateSmartFormula_def amber_formula amber_hero_pick amber_hero amber_hedione
        capped_def isHero_def)
qed

end
